theory Spec2Isabelle
  imports Main "HOL-Library.Multiset" "HOL-Library.Sublist"
begin

section \<open>JavaScript strings and Node's path module\<close>

text \<open>
  File paths, diff text and the remote response are modelled as lists of 8-bit
  characters. \<open>toLowerCase\<close> is JavaScript's on the ASCII letters and leaves every other
  character alone, so the categorization speaks about paths written in ASCII. The commit
  message that \<open>main\<close> capitalizes is modelled as a list of UTF-16 code units with the
  full upper-case mapping (see the section on capitalizing).
\<close>

definition toLowerCase_char :: "char \<Rightarrow> char" where
  "toLowerCase_char c =
     (let n = (of_char c :: nat) in if 65 \<le> n \<and> n \<le> 90 then char_of (n + 32) else c)"

definition toLowerCase :: "string \<Rightarrow> string" where
  "toLowerCase s = map toLowerCase_char s"

text \<open>
  The canonical form of a character under the \<open>i\<close> flag of a regular expression. The
  expressions of the scripts put only ASCII characters under this flag. JavaScript
  compares the upper-case forms, and keeps a character outside ASCII as it is when its
  upper-case form is an ASCII character; so a character matches an ASCII letter of the
  pattern exactly when it is that letter in either case, which is what comparing the
  forms below gives.
\<close>

definition canonicalize :: "char \<Rightarrow> char" where
  "canonicalize c =
     (let n = (of_char c :: nat) in if 97 \<le> n \<and> n \<le> 122 then char_of (n - 32) else c)"

text \<open>\<open>s.startsWith(p)\<close> and \<open>s.includes(p)\<close>.\<close>

fun startsWith :: "string \<Rightarrow> string \<Rightarrow> bool" where
  "startsWith s [] = True"
| "startsWith [] (p # ps) = False"
| "startsWith (c # cs) (p # ps) = (c = p \<and> startsWith cs ps)"

fun str_includes :: "string \<Rightarrow> string \<Rightarrow> bool" where
  "str_includes [] p = (p = [])"
| "str_includes (c # cs) p = (startsWith (c # cs) p \<or> str_includes cs p)"

text \<open>\<open>xs.join(sep)\<close> on an array of strings.\<close>

fun join :: "string \<Rightarrow> string list \<Rightarrow> string" where
  "join sep [] = []"
| "join sep [x] = x"
| "join sep (x # y # ys) = x @ sep @ join sep (y # ys)"

text \<open>A count interpolated into a template literal: its decimal digits.\<close>

definition digit_char :: "nat \<Rightarrow> char" where
  "digit_char d = ''0123456789'' ! d"

fun string_of_nat :: "nat \<Rightarrow> string" where
  "string_of_nat n =
     (if n < 10 then [digit_char n] else string_of_nat (n div 10) @ [digit_char (n mod 10)])"

declare string_of_nat.simps [simp del]

text \<open>
  \<open>s.replace(p, r)\<close> with a string pattern: the first occurrence of \<open>p\<close> is replaced.
\<close>

fun replace_str :: "string \<Rightarrow> string \<Rightarrow> string \<Rightarrow> string" where
  "replace_str [] p r = (if p = [] then r else [])"
| "replace_str (c # cs) p r =
     (if startsWith (c # cs) p then r @ drop (length p) (c # cs) else c # replace_str cs p r)"

text \<open>
  \<open>s.trim()\<close>: white space and line terminators are removed at both ends (tab, line
  feed, vertical tab, form feed, carriage return and space in ASCII).
\<close>

definition is_space :: "char \<Rightarrow> bool" where
  "is_space c = (c \<in> set [CHR 0x09, CHR 0x0A, CHR 0x0B, CHR 0x0C, CHR 0x0D, CHR 0x20])"

definition trim :: "string \<Rightarrow> string" where
  "trim s = rev (dropWhile is_space (rev (dropWhile is_space s)))"

text \<open>
  Node's \<open>path.basename\<close> and \<open>path.extname\<close> (POSIX flavour, as git prints paths with
  forward slashes). Trailing slashes are ignored; the base name is what follows the last
  remaining slash. The extension starts at the last dot of the base name; it is empty
  when there is no dot, when the last dot is the first character of the base name, and
  when the base name is \<open>..\<close>.
\<close>

definition basename :: "string \<Rightarrow> string" where
  "basename p =
     (let q = dropWhile (\<lambda>c. c = CHR ''/'') (rev p)
      in rev (takeWhile (\<lambda>c. c \<noteq> CHR ''/'') q))"

definition extname :: "string \<Rightarrow> string" where
  "extname p =
     (let base = basename p in
      if CHR ''.'' \<notin> set base then []
      else
        let suffix = rev (takeWhile (\<lambda>c. c \<noteq> CHR ''.'') (rev base));
            stem = take (length base - length suffix - 1) base
        in if stem = [] \<or> base = ''..'' then [] else CHR ''.'' # suffix)"

section \<open>Categorizing the staged files\<close>

record categories =
  code :: "string list"
  config :: "string list"
  docs :: "string list"
  tests :: "string list"
  styles :: "string list"
  scripts :: "string list"
  other :: "string list"

definition empty_categories :: categories where
  "empty_categories =
     \<lparr>code = [], config = [], docs = [], tests = [], styles = [], scripts = [], other = []\<rparr>"

text \<open>
  The body of the \<open>files.forEach\<close> callback of \<open>categorizeFiles\<close>: the \<open>if\<close>/\<open>else if\<close>
  chain in the order of the source, each branch pushing the file on one bucket.
\<close>

definition categorize_file :: "string \<Rightarrow> categories \<Rightarrow> categories" where
  "categorize_file file cats =
     (let ext = toLowerCase (extname file);
          base = toLowerCase (basename file)
      in
      if ext \<in> set [''.js'', ''.jsx'', ''.ts'', ''.tsx'', ''.py'', ''.java'', ''.cpp'', ''.c'',
                     ''.cs'', ''.php'', ''.rb'', ''.go'', ''.rs'']
      then cats\<lparr>code := code cats @ [file]\<rparr>
      else if ext \<in> set [''.json'', ''.yml'', ''.yaml'', ''.toml'', ''.ini'', ''.conf'', ''.env'',
                          ''.lock'', ''.md'']
              \<or> str_includes base ''package'' \<or> str_includes base ''config'' \<or> str_includes base ''.git''
      then cats\<lparr>config := config cats @ [file]\<rparr>
      else if ext \<in> set [''.md'', ''.txt'', ''.rst'', ''.adoc'']
              \<or> str_includes base ''readme'' \<or> str_includes base ''doc'' \<or> str_includes base ''changelog''
      then cats\<lparr>docs := docs cats @ [file]\<rparr>
      else if str_includes base ''test'' \<or> str_includes base ''spec''
              \<or> ext = ''.test.js'' \<or> ext = ''.spec.js''
      then cats\<lparr>tests := tests cats @ [file]\<rparr>
      else if ext \<in> set [''.css'', ''.scss'', ''.sass'', ''.less'', ''.styl'', ''.vue'', ''.svelte'']
      then cats\<lparr>styles := styles cats @ [file]\<rparr>
      else if ext \<in> set [''.sh'', ''.bash'', ''.zsh'', ''.fish'', ''.py'', ''.pl'']
      then cats\<lparr>scripts := scripts cats @ [file]\<rparr>
      else cats\<lparr>other := other cats @ [file]\<rparr>)"

definition categorizeFiles :: "string list \<Rightarrow> categories" where
  "categorizeFiles files = fold categorize_file files empty_categories"

text \<open>The seven buckets of a categorization, in the order of their declaration.\<close>

definition buckets :: "categories \<Rightarrow> string list list" where
  "buckets c = [code c, config c, docs c, tests c, styles c, scripts c, other c]"

section \<open>Composing the rule-based message\<close>

record options =
  verbose :: bool

text \<open>
  The closure \<open>addCategoryMessage\<close> pushes on the local array \<open>messages\<close>; here it takes
  the array and returns it extended. A missing \<open>adjective\<close> argument is the empty string.
\<close>

definition addCategoryMessage ::
  "options \<Rightarrow> string list \<Rightarrow> string list \<Rightarrow> string \<Rightarrow> string \<Rightarrow> string \<Rightarrow> string list" where
  "addCategoryMessage opts messages category categoryName verb adjective =
     (if length category = 0 then messages
      else
        let count = length category;
            fileList = (if verbose opts then '' ('' @ join '', '' category @ '')'' else []);
            adj = (if adjective \<noteq> [] then adjective @ '' '' else [])
        in if count = 1 then messages @ [verb @ '' '' @ adj @ categoryName @ fileList]
           else messages @ [verb @ '' '' @ string_of_nat count @ '' '' @ categoryName @ fileList])"

text \<open>
  The category-based generation: \<open>generateCommitMessage(categories, options)\<close> of the
  first script, and the fallback part of the analysis-aware one.
\<close>

definition category_messages :: "categories \<Rightarrow> options \<Rightarrow> string list" where
  "category_messages cats opts =
     (let m0 = [];
          m1 = addCategoryMessage opts m0 (code cats) ''code file'' ''Update'' ''source'';
          m2 = addCategoryMessage opts m1 (config cats) ''configuration'' ''Update'' [];
          m3 = addCategoryMessage opts m2 (docs cats) ''documentation'' ''Update'' [];
          m4 = addCategoryMessage opts m3 (tests cats) ''test'' ''Update'' [];
          m5 = addCategoryMessage opts m4 (styles cats) ''stylesheet'' ''Update'' [];
          m6 = addCategoryMessage opts m5 (scripts cats) ''script'' ''Update'' [];
          m7 = addCategoryMessage opts m6 (other cats) ''file'' ''Update'' []
      in m7)"

definition generateCommitMessage_basic :: "categories \<Rightarrow> options \<Rightarrow> string" where
  "generateCommitMessage_basic cats opts =
     (let messages = category_messages cats opts
      in if length messages = 0 then ''Update files'' else join '', '' messages)"

section \<open>Regular expressions\<close>

text \<open>
  The expressions of the scripts use literals, character classes, \<open>^\<close> and \<open>$\<close> (without
  the \<open>m\<close> flag), concatenation, alternation, groups, and the greedy quantifiers \<open>*\<close>, \<open>+\<close>
  and \<open>?\<close>; \<open>*\<close> and \<open>+\<close> are only ever applied to a single character class. The type
  \<open>rx\<close> has exactly these forms.

  A state of the matcher is \<open>(at_start, rest, groups)\<close>: whether the position is the
  start of the subject, the text that is left, and the captures so far (latest first).
  \<open>rx_run r st\<close> lists the states in which a match of \<open>r\<close> begun at \<open>st\<close> can end, in
  the order in which a backtracking matcher tries them: the left alternative before the
  right one, the longest repetition first. The head of the list is the match that
  JavaScript reports at this position.
\<close>

datatype rx =
    Eps
  | Chr "char \<Rightarrow> bool"
  | Bol
  | Eol
  | Seq rx rx
  | Alt rx rx
  | Star "char \<Rightarrow> bool"
  | Grp nat rx

type_synonym rx_state = "bool \<times> string \<times> (nat \<times> string) list"

fun star_run :: "(char \<Rightarrow> bool) \<Rightarrow> bool \<times> string \<Rightarrow> (bool \<times> string) list" where
  "star_run P (b, []) = [(b, [])]"
| "star_run P (b, c # cs) =
     (if P c then star_run P (False, cs) @ [(b, c # cs)] else [(b, c # cs)])"

fun rx_run :: "rx \<Rightarrow> rx_state \<Rightarrow> rx_state list" where
  "rx_run Eps st = [st]"
| "rx_run (Chr P) (b, s, g) =
     (case s of [] \<Rightarrow> [] | c # t \<Rightarrow> if P c then [(False, t, g)] else [])"
| "rx_run Bol (b, s, g) = (if b then [(b, s, g)] else [])"
| "rx_run Eol (b, s, g) = (if s = [] then [(b, s, g)] else [])"
| "rx_run (Seq r1 r2) st = concat (map (rx_run r2) (rx_run r1 st))"
| "rx_run (Alt r1 r2) st = rx_run r1 st @ rx_run r2 st"
| "rx_run (Star P) (b, s, g) = map (\<lambda>(b', s'). (b', s', g)) (star_run P (b, s))"
| "rx_run (Grp n r) (b, s, g) =
     map (\<lambda>(b', s', g'). (b', s', (n, take (length s - length s') s) # g'))
       (rx_run r (b, s, g))"

text \<open>Shorthands: one character, a literal, \<open>P+\<close>, \<open>r?\<close>, sequences and alternatives.\<close>

definition chr :: "char \<Rightarrow> rx" where
  "chr c = Chr (\<lambda>x. x = c)"

fun lit :: "string \<Rightarrow> rx" where
  "lit [] = Eps"
| "lit (c # cs) = Seq (chr c) (lit cs)"

text \<open>A literal under the \<open>i\<close> flag.\<close>

fun lit_ci :: "string \<Rightarrow> rx" where
  "lit_ci [] = Eps"
| "lit_ci (c # cs) = Seq (Chr (\<lambda>x. canonicalize x = canonicalize c)) (lit_ci cs)"

definition plus :: "(char \<Rightarrow> bool) \<Rightarrow> rx" where
  "plus P = Seq (Chr P) (Star P)"

definition opt :: "rx \<Rightarrow> rx" where
  "opt r = Alt r Eps"

fun seqs :: "rx list \<Rightarrow> rx" where
  "seqs [] = Eps"
| "seqs [r] = r"
| "seqs (r # rs) = Seq r (seqs rs)"

fun alts :: "rx list \<Rightarrow> rx" where
  "alts [] = Chr (\<lambda>x. False)"
| "alts [r] = r"
| "alts (r # rs) = Alt r (alts rs)"

text \<open>The classes \<open>.\<close>, \<open>\s\<close>, \<open>\w\<close>, \<open>\d\<close> and a negated class \<open>[^...]\<close>.\<close>

definition dot :: "char \<Rightarrow> bool" where
  "dot c = (c \<noteq> CHR 0x0A \<and> c \<noteq> CHR 0x0D)"

definition ws :: "char \<Rightarrow> bool" where
  "ws c = is_space c"

definition digit :: "char \<Rightarrow> bool" where
  "digit c = (let n = (of_char c :: nat) in 48 \<le> n \<and> n \<le> 57)"

definition word :: "char \<Rightarrow> bool" where
  "word c =
     (let n = (of_char c :: nat)
      in (65 \<le> n \<and> n \<le> 90) \<or> (97 \<le> n \<and> n \<le> 122) \<or> (48 \<le> n \<and> n \<le> 57) \<or> c = CHR ''_'')"

definition one_of :: "string \<Rightarrow> char \<Rightarrow> bool" where
  "one_of cs c = (c \<in> set cs)"

definition none_of :: "string \<Rightarrow> char \<Rightarrow> bool" where
  "none_of cs c = (c \<notin> set cs)"

text \<open>
  A search (\<open>exec\<close> without the \<open>g\<close> flag) tries each position from the left and
  returns the first match: the text before it, the matched text, the text after it, and
  the captures.
\<close>

record rx_match =
  m_pre :: string
  m_text :: string
  m_post :: string
  m_groups :: "(nat \<times> string) list"

fun rx_search :: "rx \<Rightarrow> bool \<Rightarrow> string \<Rightarrow> string \<Rightarrow> rx_match option" where
  "rx_search r b pre [] =
     (case rx_run r (b, [], []) of
        [] \<Rightarrow> None
      | (b', s', g) # _ \<Rightarrow> Some \<lparr>m_pre = pre, m_text = [], m_post = [], m_groups = g\<rparr>)"
| "rx_search r b pre (c # t) =
     (case rx_run r (b, c # t, []) of
        [] \<Rightarrow> rx_search r False (pre @ [c]) t
      | (b', s', g) # _ \<Rightarrow>
          Some \<lparr>m_pre = pre, m_text = take (length (c # t) - length s') (c # t),
                m_post = s', m_groups = g\<rparr>)"

text \<open>\<open>s.match(r)\<close> for an expression without the \<open>g\<close> flag, and \<open>r.test(s)\<close>.\<close>

definition js_match :: "rx \<Rightarrow> string \<Rightarrow> rx_match option" where
  "js_match r s = rx_search r True [] s"

definition js_test :: "rx \<Rightarrow> string \<Rightarrow> bool" where
  "js_test r s = (js_match r s \<noteq> None)"

definition group :: "nat \<Rightarrow> rx_match \<Rightarrow> string option" where
  "group n m = map_of (m_groups m) n"

text \<open>\<open>s.replace(r, rep)\<close> for an expression without the \<open>g\<close> flag: the first match.\<close>

definition js_replace :: "rx \<Rightarrow> string \<Rightarrow> string \<Rightarrow> string" where
  "js_replace r rep s =
     (case js_match r s of None \<Rightarrow> s | Some m \<Rightarrow> m_pre m @ rep @ m_post m)"

text \<open>
  With the \<open>g\<close> flag the subject is scanned from the left: a match is taken where one
  starts, the scan goes on after it, and after an empty match it moves on by one
  character. The scan yields the matches and the characters between them.
\<close>

datatype seg = Txt char | Hit string

function rx_scan :: "rx \<Rightarrow> bool \<Rightarrow> string \<Rightarrow> seg list" where
  "rx_scan r b s =
     (case rx_run r (b, s, []) of
        [] \<Rightarrow> (case s of [] \<Rightarrow> [] | c # t \<Rightarrow> Txt c # rx_scan r False t)
      | (b', s', g) # _ \<Rightarrow>
          if length s' < length s
          then Hit (take (length s - length s') s) # rx_scan r False s'
          else Hit [] # (case s of [] \<Rightarrow> [] | c # t \<Rightarrow> Txt c # rx_scan r False t))"
  by pat_completeness auto
termination
  by (relation "measure (\<lambda>(r, b, s). length s)") auto

declare rx_scan.simps [simp del]

fun hits :: "seg list \<Rightarrow> string list" where
  "hits [] = []"
| "hits (Txt c # ss) = hits ss"
| "hits (Hit m # ss) = m # hits ss"

fun subst :: "string \<Rightarrow> seg list \<Rightarrow> string" where
  "subst rep [] = []"
| "subst rep (Txt c # ss) = c # subst rep ss"
| "subst rep (Hit m # ss) = rep @ subst rep ss"

text \<open>\<open>s.match(r)\<close> with the \<open>g\<close> flag: all matched texts, or \<open>null\<close> when there is none.\<close>

definition js_match_g :: "rx \<Rightarrow> string \<Rightarrow> string list option" where
  "js_match_g r s = (let ms = hits (rx_scan r True s) in if ms = [] then None else Some ms)"

definition js_replace_g :: "rx \<Rightarrow> string \<Rightarrow> string \<Rightarrow> string" where
  "js_replace_g r rep s = subst rep (rx_scan r True s)"

section \<open>Analysing the diff\<close>

record pattern_match =
  type :: string
  action :: string

record signature = pattern_match +
  pattern :: rx

record analysis =
  patterns :: "pattern_match list"
  "functions" :: "string list"
  "imports" :: "string list"
  tests :: "string list"
  configs :: "string list"
  types :: "string list"
  summary :: string

text \<open>The expressions of \<open>analyzeCodeChanges\<close>, in the order in which they appear.\<close>

definition functionPattern :: rx where
  "functionPattern =
     alts [
       seqs [Chr (one_of ''-+''), Star dot, lit ''function'', plus ws, Grp 1 (plus word),
             Star ws, chr CHR ''(''],
       seqs [Chr (one_of ''-+''), Star dot, lit ''const'', plus ws, Grp 2 (plus word),
             Star ws, chr CHR ''='', Star ws,
             alts [
               seqs [chr CHR ''('', Star (none_of '')''), chr CHR '')'', Star ws, lit ''=>''],
               seqs [lit ''async'', plus ws, chr CHR ''('', Star (none_of '')''), chr CHR '')'',
                     Star ws, lit ''=>'']]],
       seqs [Chr (one_of ''-+''), Star dot, lit ''class'', plus ws, Grp 3 (plus word)],
       seqs [Chr (one_of ''-+''), Star dot, lit ''def'', plus ws, Grp 4 (plus word),
             Star ws, chr CHR ''('']]"

definition funcMatch_rx :: rx where
  "funcMatch_rx =
     seqs [alts [lit ''function'', lit ''const'', lit ''class'', lit ''def''], plus ws,
           Grp 1 (plus word)]"

definition quote_chars :: string where
  "quote_chars = [CHR 0x27, CHR 0x22]"

definition importPattern :: rx where
  "importPattern =
     alts [
       seqs [Chr (one_of ''-+''), Star dot, alts [lit ''import'', lit ''require'', lit ''from''],
             plus ws, Chr (one_of quote_chars), plus (none_of quote_chars),
             Chr (one_of quote_chars)],
       seqs [Chr (one_of ''-+''), Star dot, lit ''import'', plus ws, Star dot, lit ''from'',
             plus ws, Chr (one_of quote_chars), plus (none_of quote_chars),
             Chr (one_of quote_chars)]]"

definition leading_plus :: rx where
  "leading_plus = seqs [Bol, chr CHR ''+'', Star ws]"

definition testPattern :: rx where
  "testPattern =
     seqs [chr CHR ''+'', Star dot,
           alts [lit ''test'', lit ''it'', lit ''describe'', lit ''expect''],
           Star ws, chr CHR ''('']"

definition configPattern :: rx where
  "configPattern =
     seqs [chr CHR ''+'', Star dot, chr CHR 0x22, plus (none_of [CHR 0x22]), chr CHR 0x22,
           Star ws, chr CHR '':'', Star ws, plus (none_of '',}'')]"

definition typePattern :: rx where
  "typePattern =
     seqs [chr CHR ''+'', Star dot, alts [lit ''interface'', lit ''type'', lit ''enum''],
           plus ws, plus word]"

text \<open>The catalogue of change signatures, in the order of its declaration.\<close>

definition added :: "string \<Rightarrow> rx" where
  "added w = seqs [chr CHR ''+'', Star dot, lit w]"

definition removed :: "string \<Rightarrow> rx" where
  "removed w = seqs [chr CHR ''-'', Star dot, lit w]"

definition catalogue :: "signature list" where
  "catalogue = [
     \<lparr>type = ''debugging'', action = ''Add debug logging'',
      pattern = alts [added ''console.log'', lit ''console.debug'', lit ''console.info'']\<rparr>,
     \<lparr>type = ''todos'', action = ''Add TODO comments'',
      pattern = alts [added ''TODO'', lit ''FIXME'', lit ''HACK'']\<rparr>,
     \<lparr>type = ''exports'', action = ''Add exports'',
      pattern = seqs [chr CHR ''+'', Star dot, lit ''export'', plus ws,
                      opt (seqs [lit ''default'', plus ws]),
                      alts [lit ''class'', lit ''function'', lit ''const'', lit ''var'',
                            lit ''let'']]\<rparr>,
     \<lparr>type = ''debugging'', action = ''Remove debug logging'',
      pattern = alts [removed ''console.log'', lit ''console.debug'', lit ''console.info'']\<rparr>,
     \<lparr>type = ''linting'', action = ''Add linting rules'',
      pattern = alts [added ''eslint'', lit ''prettier'', lit ''stylelint'']\<rparr>,
     \<lparr>type = ''tests'', action = ''Add test cases'',
      pattern = alts [added ''test'', lit ''spec'', lit ''describe'', lit ''it'', lit ''expect'']\<rparr>,
     \<lparr>type = ''tests'', action = ''Remove test cases'',
      pattern = alts [removed ''test'', lit ''spec'', lit ''describe'', lit ''it'',
                      lit ''expect'']\<rparr>,
     \<lparr>type = ''error-handling'', action = ''Add error handling'',
      pattern = alts [added ''catch'', lit ''try'',
                      seqs [lit ''throw'', plus ws, lit ''new'', plus ws, lit ''Error'']]\<rparr>,
     \<lparr>type = ''async'', action = ''Add async functionality'',
      pattern = alts [added ''async'', lit ''await'', lit ''Promise'', lit ''.then('',
                      lit ''.catch('']\<rparr>,
     \<lparr>type = ''api'', action = ''Add API calls'',
      pattern = alts [added ''fetch'', lit ''axios'', lit ''XMLHttpRequest'', lit ''http.'']\<rparr>,
     \<lparr>type = ''react-hooks'', action = ''Add React hooks'',
      pattern = alts [added ''useState'', lit ''useEffect'', lit ''useContext'',
                      lit ''useReducer'']\<rparr>,
     \<lparr>type = ''react-components'', action = ''Add React components'',
      pattern = alts [added ''Component'', seqs [lit ''extends'', Star dot, lit ''Component''],
                      lit ''React.Component'']\<rparr>,
     \<lparr>type = ''routing'', action = ''Add routing'',
      pattern = alts [added ''router'', lit ''route'', lit ''/api/'']\<rparr>,
     \<lparr>type = ''database'', action = ''Add database operations'',
      pattern = alts [added ''mongoose'', lit ''sequelize'', lit ''prisma'', lit ''sql'']\<rparr>,
     \<lparr>type = ''authentication'', action = ''Add authentication'',
      pattern = alts [added ''auth'', lit ''jwt'', lit ''bcrypt'', lit ''passport'']\<rparr>,
     \<lparr>type = ''validation'', action = ''Add validation'',
      pattern = alts [added ''validation'', lit ''validate'', lit ''joi'', lit ''yup'']\<rparr>]"

definition empty_analysis :: analysis where
  "empty_analysis =
     \<lparr>patterns = [], functions = [], imports = [], tests = [], configs = [], types = [],
      summary = []\<rparr>"

text \<open>
  The callback over the matches of \<open>functionPattern\<close>: the declared name is pushed unless
  the collection has it already. (Group 1 takes part in every match of the second
  expression.)
\<close>

definition add_function :: "string \<Rightarrow> analysis \<Rightarrow> analysis" where
  "add_function m a =
     (case js_match funcMatch_rx m of
        None \<Rightarrow> a
      | Some fm \<Rightarrow>
          (case group 1 fm of
             None \<Rightarrow> a
           | Some name \<Rightarrow>
               if name \<notin> set (functions a) then a\<lparr>functions := functions a @ [name]\<rparr> else a))"

definition add_import :: "string \<Rightarrow> analysis \<Rightarrow> analysis" where
  "add_import m a =
     (if startsWith m ''+'' then a\<lparr>imports := imports a @ [js_replace leading_plus [] m]\<rparr>
      else a)"

text \<open>The body of the \<open>files.forEach\<close> callback of \<open>analyzeCodeChanges\<close>, block by block.\<close>

definition analyze_file :: "string \<Rightarrow> string \<Rightarrow> analysis \<Rightarrow> analysis" where
  "analyze_file diff file a0 =
     (let ext = toLowerCase (extname file);
          base = toLowerCase (basename file);
          a1 = (if ext \<in> set [''.js'', ''.jsx'', ''.ts'', ''.tsx'', ''.py'', ''.java'', ''.cpp'', ''.c'']
                then (case js_match_g functionPattern diff of
                        None \<Rightarrow> a0
                      | Some ms \<Rightarrow> fold add_function ms a0)
                else a0);
          a2 = (if ext \<in> set [''.js'', ''.jsx'', ''.ts'', ''.tsx'', ''.py'']
                then (case js_match_g importPattern diff of
                        None \<Rightarrow> a1
                      | Some ms \<Rightarrow> fold add_import ms a1)
                else a1);
          a3 = (if str_includes base ''test'' \<or> str_includes base ''spec''
                then (case js_match_g testPattern diff of
                        None \<Rightarrow> a2
                      | Some ms \<Rightarrow>
                          a2\<lparr>analysis.tests :=
                               analysis.tests a2 @ map (js_replace leading_plus []) ms\<rparr>)
                else a2);
          a4 = (if ext \<in> set [''.json'', ''.yml'', ''.yaml'', ''.toml'', ''.env'']
                   \<or> str_includes base ''config''
                then (case js_match_g configPattern diff of
                        None \<Rightarrow> a3
                      | Some ms \<Rightarrow>
                          a3\<lparr>configs :=
                               configs a3 @ map (\<lambda>m. take 50 (js_replace leading_plus [] m)) ms\<rparr>)
                else a3);
          a5 = (if ext \<in> set [''.ts'', ''.tsx'']
                then (case js_match_g typePattern diff of
                        None \<Rightarrow> a4
                      | Some ms \<Rightarrow> a4\<lparr>types := types a4 @ map (js_replace leading_plus []) ms\<rparr>)
                else a4)
      in a5)"

text \<open>
  The loop over the catalogue: a signature whose expression tests positive on the diff
  adds its type and action unless an entry of that type is there already.
\<close>

definition detect_step :: "string \<Rightarrow> signature \<Rightarrow> pattern_match list \<Rightarrow> pattern_match list" where
  "detect_step diff sg ps =
     (if js_test (pattern sg) diff
      then (if find (\<lambda>p. type p = type sg) ps = None
            then ps @ [\<lparr>type = type sg, action = action sg\<rparr>]
            else ps)
      else ps)"

definition plural :: "nat \<Rightarrow> string" where
  "plural n = (if n > 1 then ''s'' else [])"

definition summary_parts :: "analysis \<Rightarrow> string list" where
  "summary_parts a =
     (let p0 = [];
          p1 = (if length (functions a) > 0
                then p0 @ [string_of_nat (length (functions a)) @ '' function''
                           @ plural (length (functions a))]
                else p0);
          p2 = (if length (imports a) > 0
                then p1 @ [string_of_nat (length (imports a)) @ '' import''
                           @ plural (length (imports a))]
                else p1);
          p3 = (if length (analysis.tests a) > 0
                then p2 @ [string_of_nat (length (analysis.tests a)) @ '' test''
                           @ plural (length (analysis.tests a))]
                else p2);
          p4 = (if length (configs a) > 0 then p3 @ [''configuration changes''] else p3);
          p5 = (if length (types a) > 0
                then p4 @ [string_of_nat (length (types a)) @ '' type''
                           @ plural (length (types a))]
                else p4)
      in p5)"

definition analyzeCodeChanges :: "string list \<Rightarrow> string \<Rightarrow> analysis" where
  "analyzeCodeChanges files diff =
     (let a = fold (analyze_file diff) files empty_analysis;
          a' = a\<lparr>patterns := fold (detect_step diff) catalogue (patterns a)\<rparr>;
          parts = summary_parts a'
      in a'\<lparr>summary := (if length parts > 0 then join '', '' parts else ''code changes'')\<rparr>)"

text \<open>
  \<open>generateCommitMessage(categories, codeAnalysis, options)\<close> of the analysis-aware
  script: the primary pattern's action with the evidence counts, or the category-based
  message when no pattern matched.
\<close>

definition generateCommitMessage :: "categories \<Rightarrow> analysis \<Rightarrow> options \<Rightarrow> string" where
  "generateCommitMessage cats a opts =
     (case patterns a of
        primaryPattern # _ \<Rightarrow>
          (let c0 = [];
               c1 = (if length (code cats) > 0 \<and> length (functions a) > 0
                     then c0 @ [string_of_nat (length (functions a)) @ '' function''
                                @ plural (length (functions a))]
                     else c0);
               c2 = (if length (categories.tests cats) > 0 \<and> length (analysis.tests a) > 0
                     then c1 @ [string_of_nat (length (analysis.tests a)) @ '' test''
                                @ plural (length (analysis.tests a))]
                     else c1);
               c3 = (if length (imports a) > 0 then c2 @ [''new imports''] else c2);
               categoryParts =
                 (if length (types a) > 0
                  then c3 @ [string_of_nat (length (types a)) @ '' type''
                             @ plural (length (types a))]
                  else c3);
               act = (if startsWith (action primaryPattern) ''Add '' \<and> length categoryParts > 0
                      then replace_str (action primaryPattern) ''Add '' []
                      else action primaryPattern)
           in if length categoryParts > 0 then act @ '' with '' @ join '', '' categoryParts
              else act)
      | [] \<Rightarrow>
          (let messages = category_messages cats opts
           in if length messages = 0 then ''Update files'' else join '', '' messages))"

section \<open>The detailed action verb\<close>

text \<open>
  \<open>parseInt\<close> on a capture of \<open>\d+\<close>: the number its decimal digits denote.
\<close>

definition parseInt :: "string \<Rightarrow> nat" where
  "parseInt ds = foldl (\<lambda>n c. 10 * n + (of_char c - 48)) 0 ds"

definition shortstat_rx :: rx where
  "shortstat_rx =
     seqs [Grp 1 (plus digit), plus ws, lit ''insertion'', plus (\<lambda>c. c = CHR ''(''),
           chr CHR '')'', opt (chr CHR '',''), Star ws,
           Grp 2 (plus digit), plus ws, lit ''deletion'', chr CHR ''('', chr CHR ''-'',
           opt (chr CHR '')'')]"

text \<open>
  \<open>getDetailedCommitMessage\<close> runs \<open>git diff --cached --stat\<close> and
  \<open>git diff --cached --shortstat\<close>; the model takes what the two commands print
  (\<open>None\<close> when the command fails, which the \<open>catch\<close> block turns into \<open>Update\<close>).
\<close>

definition getDetailedCommitMessage :: "string option \<Rightarrow> string option \<Rightarrow> string" where
  "getDetailedCommitMessage stat_out shortstat_out =
     (case (stat_out, shortstat_out) of
        (Some statsOutput, Some out) \<Rightarrow>
          (let summary = trim out;
               m = js_match shortstat_rx summary;
               additions = (case m of
                              None \<Rightarrow> 0
                            | Some mm \<Rightarrow> (case group 1 mm of None \<Rightarrow> 0 | Some g \<Rightarrow> parseInt g));
               deletions = (case m of
                              None \<Rightarrow> 0
                            | Some mm \<Rightarrow> (case group 2 mm of None \<Rightarrow> 0 | Some g \<Rightarrow> parseInt g))
           in if additions > 0 \<and> deletions = 0 then ''Add''
              else if additions = 0 \<and> deletions > 0 then ''Remove''
              else if additions > deletions * 2 then ''Enhance''
              else if deletions > additions * 2 then ''Simplify''
              else ''Update'')
      | _ \<Rightarrow> ''Update'')"

text \<open>
  The shape \<open>N insertion(s)(+), M deletion(s)(-)\<close> of a shortstat summary: the two counts
  in decimal, each noun in the singular or in the plural.
\<close>

definition shortstat_shape :: "nat \<Rightarrow> bool \<Rightarrow> nat \<Rightarrow> bool \<Rightarrow> string" where
  "shortstat_shape n pn m pm =
     string_of_nat n @ '' insertion'' @ (if pn then ''s'' else []) @ ''(+), ''
     @ string_of_nat m @ '' deletion'' @ (if pm then ''s'' else []) @ ''(-)''"

text \<open>
  The line that \<open>git diff --shortstat\<close> prints for \<open>f\<close> changed files with \<open>n\<close> insertions
  and \<open>m\<close> deletions, for example \<open> 3 files changed, 10 insertions(+), 1 deletion(-)\<close>
  followed by a line feed.
\<close>

definition shortstat_line :: "nat \<Rightarrow> nat \<Rightarrow> nat \<Rightarrow> string" where
  "shortstat_line f n m =
     '' '' @ string_of_nat f @ '' file'' @ (if f = 1 then [] else ''s'') @ '' changed, ''
     @ shortstat_shape n (n \<noteq> 1) m (m \<noteq> 1) @ [CHR 0x0A]"

section \<open>Sanitizing the remote response\<close>

definition surrounding_quotes :: rx where
  "surrounding_quotes =
     alts [seqs [Bol, Chr (one_of [CHR 0x22, CHR 0x27])],
           seqs [Chr (one_of [CHR 0x22, CHR 0x27]), Eol]]"

definition trailing_period :: rx where
  "trailing_period = seqs [chr CHR ''.'', Eol]"

definition newlines :: rx where
  "newlines = plus (\<lambda>c. c = CHR 0x0A)"

definition ai_prefix :: rx where
  "ai_prefix =
     seqs [Bol,
           alts [seqs [lit_ci ''Sure! Here is'', opt (lit_ci '' a potential''),
                       lit_ci '' commit message for the changes you described:''],
                 lit_ci (''Here'' @ [CHR 0x27] @ ''s a commit message:''),
                 lit_ci ''Git commit message:'']]"

definition log_artifact :: rx where
  "log_artifact = seqs [plus ws, chr CHR ''-'', plus ws, Chr (one_of ''Ll''), lit ''og'', Eol]"

text \<open>\<open>s.split('\n')[0]\<close>: the text before the first line feed.\<close>

definition first_line :: "string \<Rightarrow> string" where
  "first_line s = takeWhile (\<lambda>c. c \<noteq> CHR 0x0A) s"

text \<open>
  The response handler of \<open>generateCommitMessageWithLlama\<close>: \<open>response\<close> is the string in
  the field \<open>response\<close> of the reply; the result is the promise's value, \<open>None\<close> for
  \<open>null\<close>.
\<close>

definition strip_quotes :: "string \<Rightarrow> string" where
  "strip_quotes s = js_replace_g surrounding_quotes [] s"

definition strip_period :: "string \<Rightarrow> string" where
  "strip_period s = js_replace trailing_period [] s"

definition cleanedMessage_llama :: "string \<Rightarrow> string" where
  "cleanedMessage_llama response =
     first_line (trim (js_replace_g newlines '' '' (strip_period (strip_quotes (trim response)))))"

definition llama_response :: "string \<Rightarrow> string option" where
  "llama_response response =
     (if response \<noteq> []
      then (let cleanedMessage = cleanedMessage_llama response
            in if length cleanedMessage > 0 \<and> length cleanedMessage < 100
               then Some cleanedMessage else None)
      else None)"

text \<open>The response handler of \<open>generateCommitMessageWithOllama\<close>.\<close>

definition cleanedMessage_ollama :: "string \<Rightarrow> string" where
  "cleanedMessage_ollama response =
     first_line (trim (js_replace log_artifact []
       (js_replace ai_prefix []
         (js_replace_g newlines '' '' (strip_period (strip_quotes (trim response)))))))"

definition ollama_response :: "string \<Rightarrow> string option" where
  "ollama_response response =
     (if response \<noteq> []
      then (let cleanedMessage = cleanedMessage_ollama response
            in if length cleanedMessage > 0 \<and> length cleanedMessage < 100
               then Some cleanedMessage else None)
      else None)"

section \<open>Capitalizing the message\<close>

text \<open>
  \<open>main\<close> ends with \<open>commitMessage.charAt(0).toUpperCase() + commitMessage.slice(1)\<close>. A
  JavaScript string is a sequence of UTF-16 code units, \<open>charAt(0)\<close> is its first code
  unit (the empty string when there is none), and \<open>toUpperCase\<close> replaces that unit by its
  upper-case form, which may be longer than one unit (\<open>U+00DF\<close> becomes \<open>SS\<close>). A code
  unit is a number below 65536 here. A lone surrogate, which is what \<open>charAt(0)\<close> returns
  for a character outside the Basic Multilingual Plane, has no upper-case form of its own.

  The upper-case mapping of single code units is the one of the Unicode Character
  Database (version 14.0: the simple mappings of \<open>UnicodeData.txt\<close> and the unconditional
  ones of \<open>SpecialCasing.txt\<close>). The table is kept in rows of 32 code units, grouped in
  blocks of 256; a unit without an entry is its own upper-case form.
\<close>

fun lookup :: "nat \<Rightarrow> (nat \<times> 'v) list \<Rightarrow> 'v option" where
  "lookup x [] = None"
| "lookup x ((k, v) # ps) = (if x = k then Some v else lookup x ps)"

definition upper_row_0060 :: "(nat \<times> nat list) list" where
  "upper_row_0060 =
    [(0x0061, [0x0041]), (0x0062, [0x0042]), (0x0063, [0x0043]), (0x0064, [0x0044]),
     (0x0065, [0x0045]), (0x0066, [0x0046]), (0x0067, [0x0047]), (0x0068, [0x0048]),
     (0x0069, [0x0049]), (0x006A, [0x004A]), (0x006B, [0x004B]), (0x006C, [0x004C]),
     (0x006D, [0x004D]), (0x006E, [0x004E]), (0x006F, [0x004F]), (0x0070, [0x0050]),
     (0x0071, [0x0051]), (0x0072, [0x0052]), (0x0073, [0x0053]), (0x0074, [0x0054]),
     (0x0075, [0x0055]), (0x0076, [0x0056]), (0x0077, [0x0057]), (0x0078, [0x0058]),
     (0x0079, [0x0059]), (0x007A, [0x005A])]"

definition upper_row_00A0 :: "(nat \<times> nat list) list" where
  "upper_row_00A0 =
    [(0x00B5, [0x039C])]"

definition upper_row_00C0 :: "(nat \<times> nat list) list" where
  "upper_row_00C0 =
    [(0x00DF, [0x0053, 0x0053])]"

definition upper_row_00E0 :: "(nat \<times> nat list) list" where
  "upper_row_00E0 =
    [(0x00E0, [0x00C0]), (0x00E1, [0x00C1]), (0x00E2, [0x00C2]), (0x00E3, [0x00C3]),
     (0x00E4, [0x00C4]), (0x00E5, [0x00C5]), (0x00E6, [0x00C6]), (0x00E7, [0x00C7]),
     (0x00E8, [0x00C8]), (0x00E9, [0x00C9]), (0x00EA, [0x00CA]), (0x00EB, [0x00CB]),
     (0x00EC, [0x00CC]), (0x00ED, [0x00CD]), (0x00EE, [0x00CE]), (0x00EF, [0x00CF]),
     (0x00F0, [0x00D0]), (0x00F1, [0x00D1]), (0x00F2, [0x00D2]), (0x00F3, [0x00D3]),
     (0x00F4, [0x00D4]), (0x00F5, [0x00D5]), (0x00F6, [0x00D6]), (0x00F8, [0x00D8]),
     (0x00F9, [0x00D9]), (0x00FA, [0x00DA]), (0x00FB, [0x00DB]), (0x00FC, [0x00DC]),
     (0x00FD, [0x00DD]), (0x00FE, [0x00DE]), (0x00FF, [0x0178])]"

definition upper_row_0100 :: "(nat \<times> nat list) list" where
  "upper_row_0100 =
    [(0x0101, [0x0100]), (0x0103, [0x0102]), (0x0105, [0x0104]), (0x0107, [0x0106]),
     (0x0109, [0x0108]), (0x010B, [0x010A]), (0x010D, [0x010C]), (0x010F, [0x010E]),
     (0x0111, [0x0110]), (0x0113, [0x0112]), (0x0115, [0x0114]), (0x0117, [0x0116]),
     (0x0119, [0x0118]), (0x011B, [0x011A]), (0x011D, [0x011C]), (0x011F, [0x011E])]"

definition upper_row_0120 :: "(nat \<times> nat list) list" where
  "upper_row_0120 =
    [(0x0121, [0x0120]), (0x0123, [0x0122]), (0x0125, [0x0124]), (0x0127, [0x0126]),
     (0x0129, [0x0128]), (0x012B, [0x012A]), (0x012D, [0x012C]), (0x012F, [0x012E]),
     (0x0131, [0x0049]), (0x0133, [0x0132]), (0x0135, [0x0134]), (0x0137, [0x0136]),
     (0x013A, [0x0139]), (0x013C, [0x013B]), (0x013E, [0x013D])]"

definition upper_row_0140 :: "(nat \<times> nat list) list" where
  "upper_row_0140 =
    [(0x0140, [0x013F]), (0x0142, [0x0141]), (0x0144, [0x0143]), (0x0146, [0x0145]),
     (0x0148, [0x0147]), (0x0149, [0x02BC, 0x004E]), (0x014B, [0x014A]),
     (0x014D, [0x014C]), (0x014F, [0x014E]), (0x0151, [0x0150]), (0x0153, [0x0152]),
     (0x0155, [0x0154]), (0x0157, [0x0156]), (0x0159, [0x0158]), (0x015B, [0x015A]),
     (0x015D, [0x015C]), (0x015F, [0x015E])]"

definition upper_row_0160 :: "(nat \<times> nat list) list" where
  "upper_row_0160 =
    [(0x0161, [0x0160]), (0x0163, [0x0162]), (0x0165, [0x0164]), (0x0167, [0x0166]),
     (0x0169, [0x0168]), (0x016B, [0x016A]), (0x016D, [0x016C]), (0x016F, [0x016E]),
     (0x0171, [0x0170]), (0x0173, [0x0172]), (0x0175, [0x0174]), (0x0177, [0x0176]),
     (0x017A, [0x0179]), (0x017C, [0x017B]), (0x017E, [0x017D]), (0x017F, [0x0053])]"

definition upper_row_0180 :: "(nat \<times> nat list) list" where
  "upper_row_0180 =
    [(0x0180, [0x0243]), (0x0183, [0x0182]), (0x0185, [0x0184]), (0x0188, [0x0187]),
     (0x018C, [0x018B]), (0x0192, [0x0191]), (0x0195, [0x01F6]), (0x0199, [0x0198]),
     (0x019A, [0x023D]), (0x019E, [0x0220])]"

definition upper_row_01A0 :: "(nat \<times> nat list) list" where
  "upper_row_01A0 =
    [(0x01A1, [0x01A0]), (0x01A3, [0x01A2]), (0x01A5, [0x01A4]), (0x01A8, [0x01A7]),
     (0x01AD, [0x01AC]), (0x01B0, [0x01AF]), (0x01B4, [0x01B3]), (0x01B6, [0x01B5]),
     (0x01B9, [0x01B8]), (0x01BD, [0x01BC]), (0x01BF, [0x01F7])]"

definition upper_row_01C0 :: "(nat \<times> nat list) list" where
  "upper_row_01C0 =
    [(0x01C5, [0x01C4]), (0x01C6, [0x01C4]), (0x01C8, [0x01C7]), (0x01C9, [0x01C7]),
     (0x01CB, [0x01CA]), (0x01CC, [0x01CA]), (0x01CE, [0x01CD]), (0x01D0, [0x01CF]),
     (0x01D2, [0x01D1]), (0x01D4, [0x01D3]), (0x01D6, [0x01D5]), (0x01D8, [0x01D7]),
     (0x01DA, [0x01D9]), (0x01DC, [0x01DB]), (0x01DD, [0x018E]), (0x01DF, [0x01DE])]"

definition upper_row_01E0 :: "(nat \<times> nat list) list" where
  "upper_row_01E0 =
    [(0x01E1, [0x01E0]), (0x01E3, [0x01E2]), (0x01E5, [0x01E4]), (0x01E7, [0x01E6]),
     (0x01E9, [0x01E8]), (0x01EB, [0x01EA]), (0x01ED, [0x01EC]), (0x01EF, [0x01EE]),
     (0x01F0, [0x004A, 0x030C]), (0x01F2, [0x01F1]), (0x01F3, [0x01F1]),
     (0x01F5, [0x01F4]), (0x01F9, [0x01F8]), (0x01FB, [0x01FA]), (0x01FD, [0x01FC]),
     (0x01FF, [0x01FE])]"

definition upper_row_0200 :: "(nat \<times> nat list) list" where
  "upper_row_0200 =
    [(0x0201, [0x0200]), (0x0203, [0x0202]), (0x0205, [0x0204]), (0x0207, [0x0206]),
     (0x0209, [0x0208]), (0x020B, [0x020A]), (0x020D, [0x020C]), (0x020F, [0x020E]),
     (0x0211, [0x0210]), (0x0213, [0x0212]), (0x0215, [0x0214]), (0x0217, [0x0216]),
     (0x0219, [0x0218]), (0x021B, [0x021A]), (0x021D, [0x021C]), (0x021F, [0x021E])]"

definition upper_row_0220 :: "(nat \<times> nat list) list" where
  "upper_row_0220 =
    [(0x0223, [0x0222]), (0x0225, [0x0224]), (0x0227, [0x0226]), (0x0229, [0x0228]),
     (0x022B, [0x022A]), (0x022D, [0x022C]), (0x022F, [0x022E]), (0x0231, [0x0230]),
     (0x0233, [0x0232]), (0x023C, [0x023B]), (0x023F, [0x2C7E])]"

definition upper_row_0240 :: "(nat \<times> nat list) list" where
  "upper_row_0240 =
    [(0x0240, [0x2C7F]), (0x0242, [0x0241]), (0x0247, [0x0246]), (0x0249, [0x0248]),
     (0x024B, [0x024A]), (0x024D, [0x024C]), (0x024F, [0x024E]), (0x0250, [0x2C6F]),
     (0x0251, [0x2C6D]), (0x0252, [0x2C70]), (0x0253, [0x0181]), (0x0254, [0x0186]),
     (0x0256, [0x0189]), (0x0257, [0x018A]), (0x0259, [0x018F]), (0x025B, [0x0190]),
     (0x025C, [0xA7AB])]"

definition upper_row_0260 :: "(nat \<times> nat list) list" where
  "upper_row_0260 =
    [(0x0260, [0x0193]), (0x0261, [0xA7AC]), (0x0263, [0x0194]), (0x0265, [0xA78D]),
     (0x0266, [0xA7AA]), (0x0268, [0x0197]), (0x0269, [0x0196]), (0x026A, [0xA7AE]),
     (0x026B, [0x2C62]), (0x026C, [0xA7AD]), (0x026F, [0x019C]), (0x0271, [0x2C6E]),
     (0x0272, [0x019D]), (0x0275, [0x019F]), (0x027D, [0x2C64])]"

definition upper_row_0280 :: "(nat \<times> nat list) list" where
  "upper_row_0280 =
    [(0x0280, [0x01A6]), (0x0282, [0xA7C5]), (0x0283, [0x01A9]), (0x0287, [0xA7B1]),
     (0x0288, [0x01AE]), (0x0289, [0x0244]), (0x028A, [0x01B1]), (0x028B, [0x01B2]),
     (0x028C, [0x0245]), (0x0292, [0x01B7]), (0x029D, [0xA7B2]), (0x029E, [0xA7B0])]"

definition upper_row_0340 :: "(nat \<times> nat list) list" where
  "upper_row_0340 =
    [(0x0345, [0x0399])]"

definition upper_row_0360 :: "(nat \<times> nat list) list" where
  "upper_row_0360 =
    [(0x0371, [0x0370]), (0x0373, [0x0372]), (0x0377, [0x0376]), (0x037B, [0x03FD]),
     (0x037C, [0x03FE]), (0x037D, [0x03FF])]"

definition upper_row_0380 :: "(nat \<times> nat list) list" where
  "upper_row_0380 =
    [(0x0390, [0x0399, 0x0308, 0x0301])]"

definition upper_row_03A0 :: "(nat \<times> nat list) list" where
  "upper_row_03A0 =
    [(0x03AC, [0x0386]), (0x03AD, [0x0388]), (0x03AE, [0x0389]), (0x03AF, [0x038A]),
     (0x03B0, [0x03A5, 0x0308, 0x0301]), (0x03B1, [0x0391]), (0x03B2, [0x0392]),
     (0x03B3, [0x0393]), (0x03B4, [0x0394]), (0x03B5, [0x0395]), (0x03B6, [0x0396]),
     (0x03B7, [0x0397]), (0x03B8, [0x0398]), (0x03B9, [0x0399]), (0x03BA, [0x039A]),
     (0x03BB, [0x039B]), (0x03BC, [0x039C]), (0x03BD, [0x039D]), (0x03BE, [0x039E]),
     (0x03BF, [0x039F])]"

definition upper_row_03C0 :: "(nat \<times> nat list) list" where
  "upper_row_03C0 =
    [(0x03C0, [0x03A0]), (0x03C1, [0x03A1]), (0x03C2, [0x03A3]), (0x03C3, [0x03A3]),
     (0x03C4, [0x03A4]), (0x03C5, [0x03A5]), (0x03C6, [0x03A6]), (0x03C7, [0x03A7]),
     (0x03C8, [0x03A8]), (0x03C9, [0x03A9]), (0x03CA, [0x03AA]), (0x03CB, [0x03AB]),
     (0x03CC, [0x038C]), (0x03CD, [0x038E]), (0x03CE, [0x038F]), (0x03D0, [0x0392]),
     (0x03D1, [0x0398]), (0x03D5, [0x03A6]), (0x03D6, [0x03A0]), (0x03D7, [0x03CF]),
     (0x03D9, [0x03D8]), (0x03DB, [0x03DA]), (0x03DD, [0x03DC]), (0x03DF, [0x03DE])]"

definition upper_row_03E0 :: "(nat \<times> nat list) list" where
  "upper_row_03E0 =
    [(0x03E1, [0x03E0]), (0x03E3, [0x03E2]), (0x03E5, [0x03E4]), (0x03E7, [0x03E6]),
     (0x03E9, [0x03E8]), (0x03EB, [0x03EA]), (0x03ED, [0x03EC]), (0x03EF, [0x03EE]),
     (0x03F0, [0x039A]), (0x03F1, [0x03A1]), (0x03F2, [0x03F9]), (0x03F3, [0x037F]),
     (0x03F5, [0x0395]), (0x03F8, [0x03F7]), (0x03FB, [0x03FA])]"

definition upper_row_0420 :: "(nat \<times> nat list) list" where
  "upper_row_0420 =
    [(0x0430, [0x0410]), (0x0431, [0x0411]), (0x0432, [0x0412]), (0x0433, [0x0413]),
     (0x0434, [0x0414]), (0x0435, [0x0415]), (0x0436, [0x0416]), (0x0437, [0x0417]),
     (0x0438, [0x0418]), (0x0439, [0x0419]), (0x043A, [0x041A]), (0x043B, [0x041B]),
     (0x043C, [0x041C]), (0x043D, [0x041D]), (0x043E, [0x041E]), (0x043F, [0x041F])]"

definition upper_row_0440 :: "(nat \<times> nat list) list" where
  "upper_row_0440 =
    [(0x0440, [0x0420]), (0x0441, [0x0421]), (0x0442, [0x0422]), (0x0443, [0x0423]),
     (0x0444, [0x0424]), (0x0445, [0x0425]), (0x0446, [0x0426]), (0x0447, [0x0427]),
     (0x0448, [0x0428]), (0x0449, [0x0429]), (0x044A, [0x042A]), (0x044B, [0x042B]),
     (0x044C, [0x042C]), (0x044D, [0x042D]), (0x044E, [0x042E]), (0x044F, [0x042F]),
     (0x0450, [0x0400]), (0x0451, [0x0401]), (0x0452, [0x0402]), (0x0453, [0x0403]),
     (0x0454, [0x0404]), (0x0455, [0x0405]), (0x0456, [0x0406]), (0x0457, [0x0407]),
     (0x0458, [0x0408]), (0x0459, [0x0409]), (0x045A, [0x040A]), (0x045B, [0x040B]),
     (0x045C, [0x040C]), (0x045D, [0x040D]), (0x045E, [0x040E]), (0x045F, [0x040F])]"

definition upper_row_0460 :: "(nat \<times> nat list) list" where
  "upper_row_0460 =
    [(0x0461, [0x0460]), (0x0463, [0x0462]), (0x0465, [0x0464]), (0x0467, [0x0466]),
     (0x0469, [0x0468]), (0x046B, [0x046A]), (0x046D, [0x046C]), (0x046F, [0x046E]),
     (0x0471, [0x0470]), (0x0473, [0x0472]), (0x0475, [0x0474]), (0x0477, [0x0476]),
     (0x0479, [0x0478]), (0x047B, [0x047A]), (0x047D, [0x047C]), (0x047F, [0x047E])]"

definition upper_row_0480 :: "(nat \<times> nat list) list" where
  "upper_row_0480 =
    [(0x0481, [0x0480]), (0x048B, [0x048A]), (0x048D, [0x048C]), (0x048F, [0x048E]),
     (0x0491, [0x0490]), (0x0493, [0x0492]), (0x0495, [0x0494]), (0x0497, [0x0496]),
     (0x0499, [0x0498]), (0x049B, [0x049A]), (0x049D, [0x049C]), (0x049F, [0x049E])]"

definition upper_row_04A0 :: "(nat \<times> nat list) list" where
  "upper_row_04A0 =
    [(0x04A1, [0x04A0]), (0x04A3, [0x04A2]), (0x04A5, [0x04A4]), (0x04A7, [0x04A6]),
     (0x04A9, [0x04A8]), (0x04AB, [0x04AA]), (0x04AD, [0x04AC]), (0x04AF, [0x04AE]),
     (0x04B1, [0x04B0]), (0x04B3, [0x04B2]), (0x04B5, [0x04B4]), (0x04B7, [0x04B6]),
     (0x04B9, [0x04B8]), (0x04BB, [0x04BA]), (0x04BD, [0x04BC]), (0x04BF, [0x04BE])]"

definition upper_row_04C0 :: "(nat \<times> nat list) list" where
  "upper_row_04C0 =
    [(0x04C2, [0x04C1]), (0x04C4, [0x04C3]), (0x04C6, [0x04C5]), (0x04C8, [0x04C7]),
     (0x04CA, [0x04C9]), (0x04CC, [0x04CB]), (0x04CE, [0x04CD]), (0x04CF, [0x04C0]),
     (0x04D1, [0x04D0]), (0x04D3, [0x04D2]), (0x04D5, [0x04D4]), (0x04D7, [0x04D6]),
     (0x04D9, [0x04D8]), (0x04DB, [0x04DA]), (0x04DD, [0x04DC]), (0x04DF, [0x04DE])]"

definition upper_row_04E0 :: "(nat \<times> nat list) list" where
  "upper_row_04E0 =
    [(0x04E1, [0x04E0]), (0x04E3, [0x04E2]), (0x04E5, [0x04E4]), (0x04E7, [0x04E6]),
     (0x04E9, [0x04E8]), (0x04EB, [0x04EA]), (0x04ED, [0x04EC]), (0x04EF, [0x04EE]),
     (0x04F1, [0x04F0]), (0x04F3, [0x04F2]), (0x04F5, [0x04F4]), (0x04F7, [0x04F6]),
     (0x04F9, [0x04F8]), (0x04FB, [0x04FA]), (0x04FD, [0x04FC]), (0x04FF, [0x04FE])]"

definition upper_row_0500 :: "(nat \<times> nat list) list" where
  "upper_row_0500 =
    [(0x0501, [0x0500]), (0x0503, [0x0502]), (0x0505, [0x0504]), (0x0507, [0x0506]),
     (0x0509, [0x0508]), (0x050B, [0x050A]), (0x050D, [0x050C]), (0x050F, [0x050E]),
     (0x0511, [0x0510]), (0x0513, [0x0512]), (0x0515, [0x0514]), (0x0517, [0x0516]),
     (0x0519, [0x0518]), (0x051B, [0x051A]), (0x051D, [0x051C]), (0x051F, [0x051E])]"

definition upper_row_0520 :: "(nat \<times> nat list) list" where
  "upper_row_0520 =
    [(0x0521, [0x0520]), (0x0523, [0x0522]), (0x0525, [0x0524]), (0x0527, [0x0526]),
     (0x0529, [0x0528]), (0x052B, [0x052A]), (0x052D, [0x052C]), (0x052F, [0x052E])]"

definition upper_row_0560 :: "(nat \<times> nat list) list" where
  "upper_row_0560 =
    [(0x0561, [0x0531]), (0x0562, [0x0532]), (0x0563, [0x0533]), (0x0564, [0x0534]),
     (0x0565, [0x0535]), (0x0566, [0x0536]), (0x0567, [0x0537]), (0x0568, [0x0538]),
     (0x0569, [0x0539]), (0x056A, [0x053A]), (0x056B, [0x053B]), (0x056C, [0x053C]),
     (0x056D, [0x053D]), (0x056E, [0x053E]), (0x056F, [0x053F]), (0x0570, [0x0540]),
     (0x0571, [0x0541]), (0x0572, [0x0542]), (0x0573, [0x0543]), (0x0574, [0x0544]),
     (0x0575, [0x0545]), (0x0576, [0x0546]), (0x0577, [0x0547]), (0x0578, [0x0548]),
     (0x0579, [0x0549]), (0x057A, [0x054A]), (0x057B, [0x054B]), (0x057C, [0x054C]),
     (0x057D, [0x054D]), (0x057E, [0x054E]), (0x057F, [0x054F])]"

definition upper_row_0580 :: "(nat \<times> nat list) list" where
  "upper_row_0580 =
    [(0x0580, [0x0550]), (0x0581, [0x0551]), (0x0582, [0x0552]), (0x0583, [0x0553]),
     (0x0584, [0x0554]), (0x0585, [0x0555]), (0x0586, [0x0556]), (0x0587, [0x0535, 0x0552])]"

definition upper_row_10C0 :: "(nat \<times> nat list) list" where
  "upper_row_10C0 =
    [(0x10D0, [0x1C90]), (0x10D1, [0x1C91]), (0x10D2, [0x1C92]), (0x10D3, [0x1C93]),
     (0x10D4, [0x1C94]), (0x10D5, [0x1C95]), (0x10D6, [0x1C96]), (0x10D7, [0x1C97]),
     (0x10D8, [0x1C98]), (0x10D9, [0x1C99]), (0x10DA, [0x1C9A]), (0x10DB, [0x1C9B]),
     (0x10DC, [0x1C9C]), (0x10DD, [0x1C9D]), (0x10DE, [0x1C9E]), (0x10DF, [0x1C9F])]"

definition upper_row_10E0 :: "(nat \<times> nat list) list" where
  "upper_row_10E0 =
    [(0x10E0, [0x1CA0]), (0x10E1, [0x1CA1]), (0x10E2, [0x1CA2]), (0x10E3, [0x1CA3]),
     (0x10E4, [0x1CA4]), (0x10E5, [0x1CA5]), (0x10E6, [0x1CA6]), (0x10E7, [0x1CA7]),
     (0x10E8, [0x1CA8]), (0x10E9, [0x1CA9]), (0x10EA, [0x1CAA]), (0x10EB, [0x1CAB]),
     (0x10EC, [0x1CAC]), (0x10ED, [0x1CAD]), (0x10EE, [0x1CAE]), (0x10EF, [0x1CAF]),
     (0x10F0, [0x1CB0]), (0x10F1, [0x1CB1]), (0x10F2, [0x1CB2]), (0x10F3, [0x1CB3]),
     (0x10F4, [0x1CB4]), (0x10F5, [0x1CB5]), (0x10F6, [0x1CB6]), (0x10F7, [0x1CB7]),
     (0x10F8, [0x1CB8]), (0x10F9, [0x1CB9]), (0x10FA, [0x1CBA]), (0x10FD, [0x1CBD]),
     (0x10FE, [0x1CBE]), (0x10FF, [0x1CBF])]"

definition upper_row_13E0 :: "(nat \<times> nat list) list" where
  "upper_row_13E0 =
    [(0x13F8, [0x13F0]), (0x13F9, [0x13F1]), (0x13FA, [0x13F2]), (0x13FB, [0x13F3]),
     (0x13FC, [0x13F4]), (0x13FD, [0x13F5])]"

definition upper_row_1C80 :: "(nat \<times> nat list) list" where
  "upper_row_1C80 =
    [(0x1C80, [0x0412]), (0x1C81, [0x0414]), (0x1C82, [0x041E]), (0x1C83, [0x0421]),
     (0x1C84, [0x0422]), (0x1C85, [0x0422]), (0x1C86, [0x042A]), (0x1C87, [0x0462]),
     (0x1C88, [0xA64A])]"

definition upper_row_1D60 :: "(nat \<times> nat list) list" where
  "upper_row_1D60 =
    [(0x1D79, [0xA77D]), (0x1D7D, [0x2C63])]"

definition upper_row_1D80 :: "(nat \<times> nat list) list" where
  "upper_row_1D80 =
    [(0x1D8E, [0xA7C6])]"

definition upper_row_1E00 :: "(nat \<times> nat list) list" where
  "upper_row_1E00 =
    [(0x1E01, [0x1E00]), (0x1E03, [0x1E02]), (0x1E05, [0x1E04]), (0x1E07, [0x1E06]),
     (0x1E09, [0x1E08]), (0x1E0B, [0x1E0A]), (0x1E0D, [0x1E0C]), (0x1E0F, [0x1E0E]),
     (0x1E11, [0x1E10]), (0x1E13, [0x1E12]), (0x1E15, [0x1E14]), (0x1E17, [0x1E16]),
     (0x1E19, [0x1E18]), (0x1E1B, [0x1E1A]), (0x1E1D, [0x1E1C]), (0x1E1F, [0x1E1E])]"

definition upper_row_1E20 :: "(nat \<times> nat list) list" where
  "upper_row_1E20 =
    [(0x1E21, [0x1E20]), (0x1E23, [0x1E22]), (0x1E25, [0x1E24]), (0x1E27, [0x1E26]),
     (0x1E29, [0x1E28]), (0x1E2B, [0x1E2A]), (0x1E2D, [0x1E2C]), (0x1E2F, [0x1E2E]),
     (0x1E31, [0x1E30]), (0x1E33, [0x1E32]), (0x1E35, [0x1E34]), (0x1E37, [0x1E36]),
     (0x1E39, [0x1E38]), (0x1E3B, [0x1E3A]), (0x1E3D, [0x1E3C]), (0x1E3F, [0x1E3E])]"

definition upper_row_1E40 :: "(nat \<times> nat list) list" where
  "upper_row_1E40 =
    [(0x1E41, [0x1E40]), (0x1E43, [0x1E42]), (0x1E45, [0x1E44]), (0x1E47, [0x1E46]),
     (0x1E49, [0x1E48]), (0x1E4B, [0x1E4A]), (0x1E4D, [0x1E4C]), (0x1E4F, [0x1E4E]),
     (0x1E51, [0x1E50]), (0x1E53, [0x1E52]), (0x1E55, [0x1E54]), (0x1E57, [0x1E56]),
     (0x1E59, [0x1E58]), (0x1E5B, [0x1E5A]), (0x1E5D, [0x1E5C]), (0x1E5F, [0x1E5E])]"

definition upper_row_1E60 :: "(nat \<times> nat list) list" where
  "upper_row_1E60 =
    [(0x1E61, [0x1E60]), (0x1E63, [0x1E62]), (0x1E65, [0x1E64]), (0x1E67, [0x1E66]),
     (0x1E69, [0x1E68]), (0x1E6B, [0x1E6A]), (0x1E6D, [0x1E6C]), (0x1E6F, [0x1E6E]),
     (0x1E71, [0x1E70]), (0x1E73, [0x1E72]), (0x1E75, [0x1E74]), (0x1E77, [0x1E76]),
     (0x1E79, [0x1E78]), (0x1E7B, [0x1E7A]), (0x1E7D, [0x1E7C]), (0x1E7F, [0x1E7E])]"

definition upper_row_1E80 :: "(nat \<times> nat list) list" where
  "upper_row_1E80 =
    [(0x1E81, [0x1E80]), (0x1E83, [0x1E82]), (0x1E85, [0x1E84]), (0x1E87, [0x1E86]),
     (0x1E89, [0x1E88]), (0x1E8B, [0x1E8A]), (0x1E8D, [0x1E8C]), (0x1E8F, [0x1E8E]),
     (0x1E91, [0x1E90]), (0x1E93, [0x1E92]), (0x1E95, [0x1E94]),
     (0x1E96, [0x0048, 0x0331]), (0x1E97, [0x0054, 0x0308]), (0x1E98, [0x0057, 0x030A]),
     (0x1E99, [0x0059, 0x030A]), (0x1E9A, [0x0041, 0x02BE]), (0x1E9B, [0x1E60])]"

definition upper_row_1EA0 :: "(nat \<times> nat list) list" where
  "upper_row_1EA0 =
    [(0x1EA1, [0x1EA0]), (0x1EA3, [0x1EA2]), (0x1EA5, [0x1EA4]), (0x1EA7, [0x1EA6]),
     (0x1EA9, [0x1EA8]), (0x1EAB, [0x1EAA]), (0x1EAD, [0x1EAC]), (0x1EAF, [0x1EAE]),
     (0x1EB1, [0x1EB0]), (0x1EB3, [0x1EB2]), (0x1EB5, [0x1EB4]), (0x1EB7, [0x1EB6]),
     (0x1EB9, [0x1EB8]), (0x1EBB, [0x1EBA]), (0x1EBD, [0x1EBC]), (0x1EBF, [0x1EBE])]"

definition upper_row_1EC0 :: "(nat \<times> nat list) list" where
  "upper_row_1EC0 =
    [(0x1EC1, [0x1EC0]), (0x1EC3, [0x1EC2]), (0x1EC5, [0x1EC4]), (0x1EC7, [0x1EC6]),
     (0x1EC9, [0x1EC8]), (0x1ECB, [0x1ECA]), (0x1ECD, [0x1ECC]), (0x1ECF, [0x1ECE]),
     (0x1ED1, [0x1ED0]), (0x1ED3, [0x1ED2]), (0x1ED5, [0x1ED4]), (0x1ED7, [0x1ED6]),
     (0x1ED9, [0x1ED8]), (0x1EDB, [0x1EDA]), (0x1EDD, [0x1EDC]), (0x1EDF, [0x1EDE])]"

definition upper_row_1EE0 :: "(nat \<times> nat list) list" where
  "upper_row_1EE0 =
    [(0x1EE1, [0x1EE0]), (0x1EE3, [0x1EE2]), (0x1EE5, [0x1EE4]), (0x1EE7, [0x1EE6]),
     (0x1EE9, [0x1EE8]), (0x1EEB, [0x1EEA]), (0x1EED, [0x1EEC]), (0x1EEF, [0x1EEE]),
     (0x1EF1, [0x1EF0]), (0x1EF3, [0x1EF2]), (0x1EF5, [0x1EF4]), (0x1EF7, [0x1EF6]),
     (0x1EF9, [0x1EF8]), (0x1EFB, [0x1EFA]), (0x1EFD, [0x1EFC]), (0x1EFF, [0x1EFE])]"

definition upper_row_1F00 :: "(nat \<times> nat list) list" where
  "upper_row_1F00 =
    [(0x1F00, [0x1F08]), (0x1F01, [0x1F09]), (0x1F02, [0x1F0A]), (0x1F03, [0x1F0B]),
     (0x1F04, [0x1F0C]), (0x1F05, [0x1F0D]), (0x1F06, [0x1F0E]), (0x1F07, [0x1F0F]),
     (0x1F10, [0x1F18]), (0x1F11, [0x1F19]), (0x1F12, [0x1F1A]), (0x1F13, [0x1F1B]),
     (0x1F14, [0x1F1C]), (0x1F15, [0x1F1D])]"

definition upper_row_1F20 :: "(nat \<times> nat list) list" where
  "upper_row_1F20 =
    [(0x1F20, [0x1F28]), (0x1F21, [0x1F29]), (0x1F22, [0x1F2A]), (0x1F23, [0x1F2B]),
     (0x1F24, [0x1F2C]), (0x1F25, [0x1F2D]), (0x1F26, [0x1F2E]), (0x1F27, [0x1F2F]),
     (0x1F30, [0x1F38]), (0x1F31, [0x1F39]), (0x1F32, [0x1F3A]), (0x1F33, [0x1F3B]),
     (0x1F34, [0x1F3C]), (0x1F35, [0x1F3D]), (0x1F36, [0x1F3E]), (0x1F37, [0x1F3F])]"

definition upper_row_1F40 :: "(nat \<times> nat list) list" where
  "upper_row_1F40 =
    [(0x1F40, [0x1F48]), (0x1F41, [0x1F49]), (0x1F42, [0x1F4A]), (0x1F43, [0x1F4B]),
     (0x1F44, [0x1F4C]), (0x1F45, [0x1F4D]), (0x1F50, [0x03A5, 0x0313]),
     (0x1F51, [0x1F59]), (0x1F52, [0x03A5, 0x0313, 0x0300]), (0x1F53, [0x1F5B]),
     (0x1F54, [0x03A5, 0x0313, 0x0301]), (0x1F55, [0x1F5D]),
     (0x1F56, [0x03A5, 0x0313, 0x0342]), (0x1F57, [0x1F5F])]"

definition upper_row_1F60 :: "(nat \<times> nat list) list" where
  "upper_row_1F60 =
    [(0x1F60, [0x1F68]), (0x1F61, [0x1F69]), (0x1F62, [0x1F6A]), (0x1F63, [0x1F6B]),
     (0x1F64, [0x1F6C]), (0x1F65, [0x1F6D]), (0x1F66, [0x1F6E]), (0x1F67, [0x1F6F]),
     (0x1F70, [0x1FBA]), (0x1F71, [0x1FBB]), (0x1F72, [0x1FC8]), (0x1F73, [0x1FC9]),
     (0x1F74, [0x1FCA]), (0x1F75, [0x1FCB]), (0x1F76, [0x1FDA]), (0x1F77, [0x1FDB]),
     (0x1F78, [0x1FF8]), (0x1F79, [0x1FF9]), (0x1F7A, [0x1FEA]), (0x1F7B, [0x1FEB]),
     (0x1F7C, [0x1FFA]), (0x1F7D, [0x1FFB])]"

definition upper_row_1F80 :: "(nat \<times> nat list) list" where
  "upper_row_1F80 =
    [(0x1F80, [0x1F08, 0x0399]), (0x1F81, [0x1F09, 0x0399]), (0x1F82, [0x1F0A, 0x0399]),
     (0x1F83, [0x1F0B, 0x0399]), (0x1F84, [0x1F0C, 0x0399]), (0x1F85, [0x1F0D, 0x0399]),
     (0x1F86, [0x1F0E, 0x0399]), (0x1F87, [0x1F0F, 0x0399]), (0x1F88, [0x1F08, 0x0399]),
     (0x1F89, [0x1F09, 0x0399]), (0x1F8A, [0x1F0A, 0x0399]), (0x1F8B, [0x1F0B, 0x0399]),
     (0x1F8C, [0x1F0C, 0x0399]), (0x1F8D, [0x1F0D, 0x0399]), (0x1F8E, [0x1F0E, 0x0399]),
     (0x1F8F, [0x1F0F, 0x0399]), (0x1F90, [0x1F28, 0x0399]), (0x1F91, [0x1F29, 0x0399]),
     (0x1F92, [0x1F2A, 0x0399]), (0x1F93, [0x1F2B, 0x0399]), (0x1F94, [0x1F2C, 0x0399]),
     (0x1F95, [0x1F2D, 0x0399]), (0x1F96, [0x1F2E, 0x0399]), (0x1F97, [0x1F2F, 0x0399]),
     (0x1F98, [0x1F28, 0x0399]), (0x1F99, [0x1F29, 0x0399]), (0x1F9A, [0x1F2A, 0x0399]),
     (0x1F9B, [0x1F2B, 0x0399]), (0x1F9C, [0x1F2C, 0x0399]), (0x1F9D, [0x1F2D, 0x0399]),
     (0x1F9E, [0x1F2E, 0x0399]), (0x1F9F, [0x1F2F, 0x0399])]"

definition upper_row_1FA0 :: "(nat \<times> nat list) list" where
  "upper_row_1FA0 =
    [(0x1FA0, [0x1F68, 0x0399]), (0x1FA1, [0x1F69, 0x0399]), (0x1FA2, [0x1F6A, 0x0399]),
     (0x1FA3, [0x1F6B, 0x0399]), (0x1FA4, [0x1F6C, 0x0399]), (0x1FA5, [0x1F6D, 0x0399]),
     (0x1FA6, [0x1F6E, 0x0399]), (0x1FA7, [0x1F6F, 0x0399]), (0x1FA8, [0x1F68, 0x0399]),
     (0x1FA9, [0x1F69, 0x0399]), (0x1FAA, [0x1F6A, 0x0399]), (0x1FAB, [0x1F6B, 0x0399]),
     (0x1FAC, [0x1F6C, 0x0399]), (0x1FAD, [0x1F6D, 0x0399]), (0x1FAE, [0x1F6E, 0x0399]),
     (0x1FAF, [0x1F6F, 0x0399]), (0x1FB0, [0x1FB8]), (0x1FB1, [0x1FB9]),
     (0x1FB2, [0x1FBA, 0x0399]), (0x1FB3, [0x0391, 0x0399]), (0x1FB4, [0x0386, 0x0399]),
     (0x1FB6, [0x0391, 0x0342]), (0x1FB7, [0x0391, 0x0342, 0x0399]),
     (0x1FBC, [0x0391, 0x0399]), (0x1FBE, [0x0399])]"

definition upper_row_1FC0 :: "(nat \<times> nat list) list" where
  "upper_row_1FC0 =
    [(0x1FC2, [0x1FCA, 0x0399]), (0x1FC3, [0x0397, 0x0399]), (0x1FC4, [0x0389, 0x0399]),
     (0x1FC6, [0x0397, 0x0342]), (0x1FC7, [0x0397, 0x0342, 0x0399]),
     (0x1FCC, [0x0397, 0x0399]), (0x1FD0, [0x1FD8]), (0x1FD1, [0x1FD9]),
     (0x1FD2, [0x0399, 0x0308, 0x0300]), (0x1FD3, [0x0399, 0x0308, 0x0301]),
     (0x1FD6, [0x0399, 0x0342]), (0x1FD7, [0x0399, 0x0308, 0x0342])]"

definition upper_row_1FE0 :: "(nat \<times> nat list) list" where
  "upper_row_1FE0 =
    [(0x1FE0, [0x1FE8]), (0x1FE1, [0x1FE9]), (0x1FE2, [0x03A5, 0x0308, 0x0300]),
     (0x1FE3, [0x03A5, 0x0308, 0x0301]), (0x1FE4, [0x03A1, 0x0313]), (0x1FE5, [0x1FEC]),
     (0x1FE6, [0x03A5, 0x0342]), (0x1FE7, [0x03A5, 0x0308, 0x0342]),
     (0x1FF2, [0x1FFA, 0x0399]), (0x1FF3, [0x03A9, 0x0399]), (0x1FF4, [0x038F, 0x0399]),
     (0x1FF6, [0x03A9, 0x0342]), (0x1FF7, [0x03A9, 0x0342, 0x0399]),
     (0x1FFC, [0x03A9, 0x0399])]"

definition upper_row_2140 :: "(nat \<times> nat list) list" where
  "upper_row_2140 =
    [(0x214E, [0x2132])]"

definition upper_row_2160 :: "(nat \<times> nat list) list" where
  "upper_row_2160 =
    [(0x2170, [0x2160]), (0x2171, [0x2161]), (0x2172, [0x2162]), (0x2173, [0x2163]),
     (0x2174, [0x2164]), (0x2175, [0x2165]), (0x2176, [0x2166]), (0x2177, [0x2167]),
     (0x2178, [0x2168]), (0x2179, [0x2169]), (0x217A, [0x216A]), (0x217B, [0x216B]),
     (0x217C, [0x216C]), (0x217D, [0x216D]), (0x217E, [0x216E]), (0x217F, [0x216F])]"

definition upper_row_2180 :: "(nat \<times> nat list) list" where
  "upper_row_2180 =
    [(0x2184, [0x2183])]"

definition upper_row_24C0 :: "(nat \<times> nat list) list" where
  "upper_row_24C0 =
    [(0x24D0, [0x24B6]), (0x24D1, [0x24B7]), (0x24D2, [0x24B8]), (0x24D3, [0x24B9]),
     (0x24D4, [0x24BA]), (0x24D5, [0x24BB]), (0x24D6, [0x24BC]), (0x24D7, [0x24BD]),
     (0x24D8, [0x24BE]), (0x24D9, [0x24BF]), (0x24DA, [0x24C0]), (0x24DB, [0x24C1]),
     (0x24DC, [0x24C2]), (0x24DD, [0x24C3]), (0x24DE, [0x24C4]), (0x24DF, [0x24C5])]"

definition upper_row_24E0 :: "(nat \<times> nat list) list" where
  "upper_row_24E0 =
    [(0x24E0, [0x24C6]), (0x24E1, [0x24C7]), (0x24E2, [0x24C8]), (0x24E3, [0x24C9]),
     (0x24E4, [0x24CA]), (0x24E5, [0x24CB]), (0x24E6, [0x24CC]), (0x24E7, [0x24CD]),
     (0x24E8, [0x24CE]), (0x24E9, [0x24CF])]"

definition upper_row_2C20 :: "(nat \<times> nat list) list" where
  "upper_row_2C20 =
    [(0x2C30, [0x2C00]), (0x2C31, [0x2C01]), (0x2C32, [0x2C02]), (0x2C33, [0x2C03]),
     (0x2C34, [0x2C04]), (0x2C35, [0x2C05]), (0x2C36, [0x2C06]), (0x2C37, [0x2C07]),
     (0x2C38, [0x2C08]), (0x2C39, [0x2C09]), (0x2C3A, [0x2C0A]), (0x2C3B, [0x2C0B]),
     (0x2C3C, [0x2C0C]), (0x2C3D, [0x2C0D]), (0x2C3E, [0x2C0E]), (0x2C3F, [0x2C0F])]"

definition upper_row_2C40 :: "(nat \<times> nat list) list" where
  "upper_row_2C40 =
    [(0x2C40, [0x2C10]), (0x2C41, [0x2C11]), (0x2C42, [0x2C12]), (0x2C43, [0x2C13]),
     (0x2C44, [0x2C14]), (0x2C45, [0x2C15]), (0x2C46, [0x2C16]), (0x2C47, [0x2C17]),
     (0x2C48, [0x2C18]), (0x2C49, [0x2C19]), (0x2C4A, [0x2C1A]), (0x2C4B, [0x2C1B]),
     (0x2C4C, [0x2C1C]), (0x2C4D, [0x2C1D]), (0x2C4E, [0x2C1E]), (0x2C4F, [0x2C1F]),
     (0x2C50, [0x2C20]), (0x2C51, [0x2C21]), (0x2C52, [0x2C22]), (0x2C53, [0x2C23]),
     (0x2C54, [0x2C24]), (0x2C55, [0x2C25]), (0x2C56, [0x2C26]), (0x2C57, [0x2C27]),
     (0x2C58, [0x2C28]), (0x2C59, [0x2C29]), (0x2C5A, [0x2C2A]), (0x2C5B, [0x2C2B]),
     (0x2C5C, [0x2C2C]), (0x2C5D, [0x2C2D]), (0x2C5E, [0x2C2E]), (0x2C5F, [0x2C2F])]"

definition upper_row_2C60 :: "(nat \<times> nat list) list" where
  "upper_row_2C60 =
    [(0x2C61, [0x2C60]), (0x2C65, [0x023A]), (0x2C66, [0x023E]), (0x2C68, [0x2C67]),
     (0x2C6A, [0x2C69]), (0x2C6C, [0x2C6B]), (0x2C73, [0x2C72]), (0x2C76, [0x2C75])]"

definition upper_row_2C80 :: "(nat \<times> nat list) list" where
  "upper_row_2C80 =
    [(0x2C81, [0x2C80]), (0x2C83, [0x2C82]), (0x2C85, [0x2C84]), (0x2C87, [0x2C86]),
     (0x2C89, [0x2C88]), (0x2C8B, [0x2C8A]), (0x2C8D, [0x2C8C]), (0x2C8F, [0x2C8E]),
     (0x2C91, [0x2C90]), (0x2C93, [0x2C92]), (0x2C95, [0x2C94]), (0x2C97, [0x2C96]),
     (0x2C99, [0x2C98]), (0x2C9B, [0x2C9A]), (0x2C9D, [0x2C9C]), (0x2C9F, [0x2C9E])]"

definition upper_row_2CA0 :: "(nat \<times> nat list) list" where
  "upper_row_2CA0 =
    [(0x2CA1, [0x2CA0]), (0x2CA3, [0x2CA2]), (0x2CA5, [0x2CA4]), (0x2CA7, [0x2CA6]),
     (0x2CA9, [0x2CA8]), (0x2CAB, [0x2CAA]), (0x2CAD, [0x2CAC]), (0x2CAF, [0x2CAE]),
     (0x2CB1, [0x2CB0]), (0x2CB3, [0x2CB2]), (0x2CB5, [0x2CB4]), (0x2CB7, [0x2CB6]),
     (0x2CB9, [0x2CB8]), (0x2CBB, [0x2CBA]), (0x2CBD, [0x2CBC]), (0x2CBF, [0x2CBE])]"

definition upper_row_2CC0 :: "(nat \<times> nat list) list" where
  "upper_row_2CC0 =
    [(0x2CC1, [0x2CC0]), (0x2CC3, [0x2CC2]), (0x2CC5, [0x2CC4]), (0x2CC7, [0x2CC6]),
     (0x2CC9, [0x2CC8]), (0x2CCB, [0x2CCA]), (0x2CCD, [0x2CCC]), (0x2CCF, [0x2CCE]),
     (0x2CD1, [0x2CD0]), (0x2CD3, [0x2CD2]), (0x2CD5, [0x2CD4]), (0x2CD7, [0x2CD6]),
     (0x2CD9, [0x2CD8]), (0x2CDB, [0x2CDA]), (0x2CDD, [0x2CDC]), (0x2CDF, [0x2CDE])]"

definition upper_row_2CE0 :: "(nat \<times> nat list) list" where
  "upper_row_2CE0 =
    [(0x2CE1, [0x2CE0]), (0x2CE3, [0x2CE2]), (0x2CEC, [0x2CEB]), (0x2CEE, [0x2CED]),
     (0x2CF3, [0x2CF2])]"

definition upper_row_2D00 :: "(nat \<times> nat list) list" where
  "upper_row_2D00 =
    [(0x2D00, [0x10A0]), (0x2D01, [0x10A1]), (0x2D02, [0x10A2]), (0x2D03, [0x10A3]),
     (0x2D04, [0x10A4]), (0x2D05, [0x10A5]), (0x2D06, [0x10A6]), (0x2D07, [0x10A7]),
     (0x2D08, [0x10A8]), (0x2D09, [0x10A9]), (0x2D0A, [0x10AA]), (0x2D0B, [0x10AB]),
     (0x2D0C, [0x10AC]), (0x2D0D, [0x10AD]), (0x2D0E, [0x10AE]), (0x2D0F, [0x10AF]),
     (0x2D10, [0x10B0]), (0x2D11, [0x10B1]), (0x2D12, [0x10B2]), (0x2D13, [0x10B3]),
     (0x2D14, [0x10B4]), (0x2D15, [0x10B5]), (0x2D16, [0x10B6]), (0x2D17, [0x10B7]),
     (0x2D18, [0x10B8]), (0x2D19, [0x10B9]), (0x2D1A, [0x10BA]), (0x2D1B, [0x10BB]),
     (0x2D1C, [0x10BC]), (0x2D1D, [0x10BD]), (0x2D1E, [0x10BE]), (0x2D1F, [0x10BF])]"

definition upper_row_2D20 :: "(nat \<times> nat list) list" where
  "upper_row_2D20 =
    [(0x2D20, [0x10C0]), (0x2D21, [0x10C1]), (0x2D22, [0x10C2]), (0x2D23, [0x10C3]),
     (0x2D24, [0x10C4]), (0x2D25, [0x10C5]), (0x2D27, [0x10C7]), (0x2D2D, [0x10CD])]"

definition upper_row_A640 :: "(nat \<times> nat list) list" where
  "upper_row_A640 =
    [(0xA641, [0xA640]), (0xA643, [0xA642]), (0xA645, [0xA644]), (0xA647, [0xA646]),
     (0xA649, [0xA648]), (0xA64B, [0xA64A]), (0xA64D, [0xA64C]), (0xA64F, [0xA64E]),
     (0xA651, [0xA650]), (0xA653, [0xA652]), (0xA655, [0xA654]), (0xA657, [0xA656]),
     (0xA659, [0xA658]), (0xA65B, [0xA65A]), (0xA65D, [0xA65C]), (0xA65F, [0xA65E])]"

definition upper_row_A660 :: "(nat \<times> nat list) list" where
  "upper_row_A660 =
    [(0xA661, [0xA660]), (0xA663, [0xA662]), (0xA665, [0xA664]), (0xA667, [0xA666]),
     (0xA669, [0xA668]), (0xA66B, [0xA66A]), (0xA66D, [0xA66C])]"

definition upper_row_A680 :: "(nat \<times> nat list) list" where
  "upper_row_A680 =
    [(0xA681, [0xA680]), (0xA683, [0xA682]), (0xA685, [0xA684]), (0xA687, [0xA686]),
     (0xA689, [0xA688]), (0xA68B, [0xA68A]), (0xA68D, [0xA68C]), (0xA68F, [0xA68E]),
     (0xA691, [0xA690]), (0xA693, [0xA692]), (0xA695, [0xA694]), (0xA697, [0xA696]),
     (0xA699, [0xA698]), (0xA69B, [0xA69A])]"

definition upper_row_A720 :: "(nat \<times> nat list) list" where
  "upper_row_A720 =
    [(0xA723, [0xA722]), (0xA725, [0xA724]), (0xA727, [0xA726]), (0xA729, [0xA728]),
     (0xA72B, [0xA72A]), (0xA72D, [0xA72C]), (0xA72F, [0xA72E]), (0xA733, [0xA732]),
     (0xA735, [0xA734]), (0xA737, [0xA736]), (0xA739, [0xA738]), (0xA73B, [0xA73A]),
     (0xA73D, [0xA73C]), (0xA73F, [0xA73E])]"

definition upper_row_A740 :: "(nat \<times> nat list) list" where
  "upper_row_A740 =
    [(0xA741, [0xA740]), (0xA743, [0xA742]), (0xA745, [0xA744]), (0xA747, [0xA746]),
     (0xA749, [0xA748]), (0xA74B, [0xA74A]), (0xA74D, [0xA74C]), (0xA74F, [0xA74E]),
     (0xA751, [0xA750]), (0xA753, [0xA752]), (0xA755, [0xA754]), (0xA757, [0xA756]),
     (0xA759, [0xA758]), (0xA75B, [0xA75A]), (0xA75D, [0xA75C]), (0xA75F, [0xA75E])]"

definition upper_row_A760 :: "(nat \<times> nat list) list" where
  "upper_row_A760 =
    [(0xA761, [0xA760]), (0xA763, [0xA762]), (0xA765, [0xA764]), (0xA767, [0xA766]),
     (0xA769, [0xA768]), (0xA76B, [0xA76A]), (0xA76D, [0xA76C]), (0xA76F, [0xA76E]),
     (0xA77A, [0xA779]), (0xA77C, [0xA77B]), (0xA77F, [0xA77E])]"

definition upper_row_A780 :: "(nat \<times> nat list) list" where
  "upper_row_A780 =
    [(0xA781, [0xA780]), (0xA783, [0xA782]), (0xA785, [0xA784]), (0xA787, [0xA786]),
     (0xA78C, [0xA78B]), (0xA791, [0xA790]), (0xA793, [0xA792]), (0xA794, [0xA7C4]),
     (0xA797, [0xA796]), (0xA799, [0xA798]), (0xA79B, [0xA79A]), (0xA79D, [0xA79C]),
     (0xA79F, [0xA79E])]"

definition upper_row_A7A0 :: "(nat \<times> nat list) list" where
  "upper_row_A7A0 =
    [(0xA7A1, [0xA7A0]), (0xA7A3, [0xA7A2]), (0xA7A5, [0xA7A4]), (0xA7A7, [0xA7A6]),
     (0xA7A9, [0xA7A8]), (0xA7B5, [0xA7B4]), (0xA7B7, [0xA7B6]), (0xA7B9, [0xA7B8]),
     (0xA7BB, [0xA7BA]), (0xA7BD, [0xA7BC]), (0xA7BF, [0xA7BE])]"

definition upper_row_A7C0 :: "(nat \<times> nat list) list" where
  "upper_row_A7C0 =
    [(0xA7C1, [0xA7C0]), (0xA7C3, [0xA7C2]), (0xA7C8, [0xA7C7]), (0xA7CA, [0xA7C9]),
     (0xA7D1, [0xA7D0]), (0xA7D7, [0xA7D6]), (0xA7D9, [0xA7D8])]"

definition upper_row_A7E0 :: "(nat \<times> nat list) list" where
  "upper_row_A7E0 =
    [(0xA7F6, [0xA7F5])]"

definition upper_row_AB40 :: "(nat \<times> nat list) list" where
  "upper_row_AB40 =
    [(0xAB53, [0xA7B3])]"

definition upper_row_AB60 :: "(nat \<times> nat list) list" where
  "upper_row_AB60 =
    [(0xAB70, [0x13A0]), (0xAB71, [0x13A1]), (0xAB72, [0x13A2]), (0xAB73, [0x13A3]),
     (0xAB74, [0x13A4]), (0xAB75, [0x13A5]), (0xAB76, [0x13A6]), (0xAB77, [0x13A7]),
     (0xAB78, [0x13A8]), (0xAB79, [0x13A9]), (0xAB7A, [0x13AA]), (0xAB7B, [0x13AB]),
     (0xAB7C, [0x13AC]), (0xAB7D, [0x13AD]), (0xAB7E, [0x13AE]), (0xAB7F, [0x13AF])]"

definition upper_row_AB80 :: "(nat \<times> nat list) list" where
  "upper_row_AB80 =
    [(0xAB80, [0x13B0]), (0xAB81, [0x13B1]), (0xAB82, [0x13B2]), (0xAB83, [0x13B3]),
     (0xAB84, [0x13B4]), (0xAB85, [0x13B5]), (0xAB86, [0x13B6]), (0xAB87, [0x13B7]),
     (0xAB88, [0x13B8]), (0xAB89, [0x13B9]), (0xAB8A, [0x13BA]), (0xAB8B, [0x13BB]),
     (0xAB8C, [0x13BC]), (0xAB8D, [0x13BD]), (0xAB8E, [0x13BE]), (0xAB8F, [0x13BF]),
     (0xAB90, [0x13C0]), (0xAB91, [0x13C1]), (0xAB92, [0x13C2]), (0xAB93, [0x13C3]),
     (0xAB94, [0x13C4]), (0xAB95, [0x13C5]), (0xAB96, [0x13C6]), (0xAB97, [0x13C7]),
     (0xAB98, [0x13C8]), (0xAB99, [0x13C9]), (0xAB9A, [0x13CA]), (0xAB9B, [0x13CB]),
     (0xAB9C, [0x13CC]), (0xAB9D, [0x13CD]), (0xAB9E, [0x13CE]), (0xAB9F, [0x13CF])]"

definition upper_row_ABA0 :: "(nat \<times> nat list) list" where
  "upper_row_ABA0 =
    [(0xABA0, [0x13D0]), (0xABA1, [0x13D1]), (0xABA2, [0x13D2]), (0xABA3, [0x13D3]),
     (0xABA4, [0x13D4]), (0xABA5, [0x13D5]), (0xABA6, [0x13D6]), (0xABA7, [0x13D7]),
     (0xABA8, [0x13D8]), (0xABA9, [0x13D9]), (0xABAA, [0x13DA]), (0xABAB, [0x13DB]),
     (0xABAC, [0x13DC]), (0xABAD, [0x13DD]), (0xABAE, [0x13DE]), (0xABAF, [0x13DF]),
     (0xABB0, [0x13E0]), (0xABB1, [0x13E1]), (0xABB2, [0x13E2]), (0xABB3, [0x13E3]),
     (0xABB4, [0x13E4]), (0xABB5, [0x13E5]), (0xABB6, [0x13E6]), (0xABB7, [0x13E7]),
     (0xABB8, [0x13E8]), (0xABB9, [0x13E9]), (0xABBA, [0x13EA]), (0xABBB, [0x13EB]),
     (0xABBC, [0x13EC]), (0xABBD, [0x13ED]), (0xABBE, [0x13EE]), (0xABBF, [0x13EF])]"

definition upper_row_FB00 :: "(nat \<times> nat list) list" where
  "upper_row_FB00 =
    [(0xFB00, [0x0046, 0x0046]), (0xFB01, [0x0046, 0x0049]), (0xFB02, [0x0046, 0x004C]),
     (0xFB03, [0x0046, 0x0046, 0x0049]), (0xFB04, [0x0046, 0x0046, 0x004C]),
     (0xFB05, [0x0053, 0x0054]), (0xFB06, [0x0053, 0x0054]), (0xFB13, [0x0544, 0x0546]),
     (0xFB14, [0x0544, 0x0535]), (0xFB15, [0x0544, 0x053B]), (0xFB16, [0x054E, 0x0546]),
     (0xFB17, [0x0544, 0x053D])]"

definition upper_row_FF40 :: "(nat \<times> nat list) list" where
  "upper_row_FF40 =
    [(0xFF41, [0xFF21]), (0xFF42, [0xFF22]), (0xFF43, [0xFF23]), (0xFF44, [0xFF24]),
     (0xFF45, [0xFF25]), (0xFF46, [0xFF26]), (0xFF47, [0xFF27]), (0xFF48, [0xFF28]),
     (0xFF49, [0xFF29]), (0xFF4A, [0xFF2A]), (0xFF4B, [0xFF2B]), (0xFF4C, [0xFF2C]),
     (0xFF4D, [0xFF2D]), (0xFF4E, [0xFF2E]), (0xFF4F, [0xFF2F]), (0xFF50, [0xFF30]),
     (0xFF51, [0xFF31]), (0xFF52, [0xFF32]), (0xFF53, [0xFF33]), (0xFF54, [0xFF34]),
     (0xFF55, [0xFF35]), (0xFF56, [0xFF36]), (0xFF57, [0xFF37]), (0xFF58, [0xFF38]),
     (0xFF59, [0xFF39]), (0xFF5A, [0xFF3A])]"

definition upper_block_00 :: "(nat \<times> (nat \<times> nat list) list) list" where
  "upper_block_00 =
    [(0x003, upper_row_0060), (0x005, upper_row_00A0), (0x006, upper_row_00C0),
     (0x007, upper_row_00E0)]"

definition upper_block_01 :: "(nat \<times> (nat \<times> nat list) list) list" where
  "upper_block_01 =
    [(0x008, upper_row_0100), (0x009, upper_row_0120), (0x00A, upper_row_0140),
     (0x00B, upper_row_0160), (0x00C, upper_row_0180), (0x00D, upper_row_01A0),
     (0x00E, upper_row_01C0), (0x00F, upper_row_01E0)]"

definition upper_block_02 :: "(nat \<times> (nat \<times> nat list) list) list" where
  "upper_block_02 =
    [(0x010, upper_row_0200), (0x011, upper_row_0220), (0x012, upper_row_0240),
     (0x013, upper_row_0260), (0x014, upper_row_0280)]"

definition upper_block_03 :: "(nat \<times> (nat \<times> nat list) list) list" where
  "upper_block_03 =
    [(0x01A, upper_row_0340), (0x01B, upper_row_0360), (0x01C, upper_row_0380),
     (0x01D, upper_row_03A0), (0x01E, upper_row_03C0), (0x01F, upper_row_03E0)]"

definition upper_block_04 :: "(nat \<times> (nat \<times> nat list) list) list" where
  "upper_block_04 =
    [(0x021, upper_row_0420), (0x022, upper_row_0440), (0x023, upper_row_0460),
     (0x024, upper_row_0480), (0x025, upper_row_04A0), (0x026, upper_row_04C0),
     (0x027, upper_row_04E0)]"

definition upper_block_05 :: "(nat \<times> (nat \<times> nat list) list) list" where
  "upper_block_05 =
    [(0x028, upper_row_0500), (0x029, upper_row_0520), (0x02B, upper_row_0560),
     (0x02C, upper_row_0580)]"

definition upper_block_10 :: "(nat \<times> (nat \<times> nat list) list) list" where
  "upper_block_10 =
    [(0x086, upper_row_10C0), (0x087, upper_row_10E0)]"

definition upper_block_13 :: "(nat \<times> (nat \<times> nat list) list) list" where
  "upper_block_13 =
    [(0x09F, upper_row_13E0)]"

definition upper_block_1C :: "(nat \<times> (nat \<times> nat list) list) list" where
  "upper_block_1C =
    [(0x0E4, upper_row_1C80)]"

definition upper_block_1D :: "(nat \<times> (nat \<times> nat list) list) list" where
  "upper_block_1D =
    [(0x0EB, upper_row_1D60), (0x0EC, upper_row_1D80)]"

definition upper_block_1E :: "(nat \<times> (nat \<times> nat list) list) list" where
  "upper_block_1E =
    [(0x0F0, upper_row_1E00), (0x0F1, upper_row_1E20), (0x0F2, upper_row_1E40),
     (0x0F3, upper_row_1E60), (0x0F4, upper_row_1E80), (0x0F5, upper_row_1EA0),
     (0x0F6, upper_row_1EC0), (0x0F7, upper_row_1EE0)]"

definition upper_block_1F :: "(nat \<times> (nat \<times> nat list) list) list" where
  "upper_block_1F =
    [(0x0F8, upper_row_1F00), (0x0F9, upper_row_1F20), (0x0FA, upper_row_1F40),
     (0x0FB, upper_row_1F60), (0x0FC, upper_row_1F80), (0x0FD, upper_row_1FA0),
     (0x0FE, upper_row_1FC0), (0x0FF, upper_row_1FE0)]"

definition upper_block_21 :: "(nat \<times> (nat \<times> nat list) list) list" where
  "upper_block_21 =
    [(0x10A, upper_row_2140), (0x10B, upper_row_2160), (0x10C, upper_row_2180)]"

definition upper_block_24 :: "(nat \<times> (nat \<times> nat list) list) list" where
  "upper_block_24 =
    [(0x126, upper_row_24C0), (0x127, upper_row_24E0)]"

definition upper_block_2C :: "(nat \<times> (nat \<times> nat list) list) list" where
  "upper_block_2C =
    [(0x161, upper_row_2C20), (0x162, upper_row_2C40), (0x163, upper_row_2C60),
     (0x164, upper_row_2C80), (0x165, upper_row_2CA0), (0x166, upper_row_2CC0),
     (0x167, upper_row_2CE0)]"

definition upper_block_2D :: "(nat \<times> (nat \<times> nat list) list) list" where
  "upper_block_2D =
    [(0x168, upper_row_2D00), (0x169, upper_row_2D20)]"

definition upper_block_A6 :: "(nat \<times> (nat \<times> nat list) list) list" where
  "upper_block_A6 =
    [(0x532, upper_row_A640), (0x533, upper_row_A660), (0x534, upper_row_A680)]"

definition upper_block_A7 :: "(nat \<times> (nat \<times> nat list) list) list" where
  "upper_block_A7 =
    [(0x539, upper_row_A720), (0x53A, upper_row_A740), (0x53B, upper_row_A760),
     (0x53C, upper_row_A780), (0x53D, upper_row_A7A0), (0x53E, upper_row_A7C0),
     (0x53F, upper_row_A7E0)]"

definition upper_block_AB :: "(nat \<times> (nat \<times> nat list) list) list" where
  "upper_block_AB =
    [(0x55A, upper_row_AB40), (0x55B, upper_row_AB60), (0x55C, upper_row_AB80),
     (0x55D, upper_row_ABA0)]"

definition upper_block_FB :: "(nat \<times> (nat \<times> nat list) list) list" where
  "upper_block_FB =
    [(0x7D8, upper_row_FB00)]"

definition upper_block_FF :: "(nat \<times> (nat \<times> nat list) list) list" where
  "upper_block_FF =
    [(0x7FA, upper_row_FF40)]"

definition upper_blocks :: "(nat \<times> (nat \<times> (nat \<times> nat list) list) list) list" where
  "upper_blocks =
    [(0x00, upper_block_00), (0x01, upper_block_01), (0x02, upper_block_02),
     (0x03, upper_block_03), (0x04, upper_block_04), (0x05, upper_block_05),
     (0x10, upper_block_10), (0x13, upper_block_13), (0x1C, upper_block_1C),
     (0x1D, upper_block_1D), (0x1E, upper_block_1E), (0x1F, upper_block_1F),
     (0x21, upper_block_21), (0x24, upper_block_24), (0x2C, upper_block_2C),
     (0x2D, upper_block_2D), (0xA6, upper_block_A6), (0xA7, upper_block_A7),
     (0xAB, upper_block_AB), (0xFB, upper_block_FB), (0xFF, upper_block_FF)]"

text \<open>\<open>u.toUpperCase()\<close> for a string \<open>u\<close> of one code unit.\<close>

definition toUpperCase_unit :: "nat \<Rightarrow> nat list" where
  "toUpperCase_unit c =
     (case lookup (c div 256) upper_blocks of
        None \<Rightarrow> [c]
      | Some block \<Rightarrow>
          (case lookup (c div 32) block of
             None \<Rightarrow> [c]
           | Some row \<Rightarrow> (case lookup c row of None \<Rightarrow> [c] | Some u \<Rightarrow> u)))"

definition capitalize :: "nat list \<Rightarrow> nat list" where
  "capitalize commitMessage =
     (case commitMessage of [] \<Rightarrow> [] | c # cs \<Rightarrow> toUpperCase_unit c @ cs)"

text \<open>The code units of a text written with 8-bit characters.\<close>

definition units :: "string \<Rightarrow> nat list" where
  "units s = map of_char s"

text \<open>
  The code units with the Unicode property \<open>Uppercase\<close> (version 14.0: the upper-case
  letters and the other upper-case characters, such as the Roman numerals), in chunks of
  256 code units.
\<close>

definition uppercase_00 :: "nat list" where
  "uppercase_00 =
    [0x0041, 0x0042, 0x0043, 0x0044, 0x0045, 0x0046, 0x0047, 0x0048, 0x0049, 0x004A,
     0x004B, 0x004C, 0x004D, 0x004E, 0x004F, 0x0050, 0x0051, 0x0052, 0x0053, 0x0054,
     0x0055, 0x0056, 0x0057, 0x0058, 0x0059, 0x005A, 0x00C0, 0x00C1, 0x00C2, 0x00C3,
     0x00C4, 0x00C5, 0x00C6, 0x00C7, 0x00C8, 0x00C9, 0x00CA, 0x00CB, 0x00CC, 0x00CD,
     0x00CE, 0x00CF, 0x00D0, 0x00D1, 0x00D2, 0x00D3, 0x00D4, 0x00D5, 0x00D6, 0x00D8,
     0x00D9, 0x00DA, 0x00DB, 0x00DC, 0x00DD, 0x00DE]"

definition uppercase_01 :: "nat list" where
  "uppercase_01 =
    [0x0100, 0x0102, 0x0104, 0x0106, 0x0108, 0x010A, 0x010C, 0x010E, 0x0110, 0x0112,
     0x0114, 0x0116, 0x0118, 0x011A, 0x011C, 0x011E, 0x0120, 0x0122, 0x0124, 0x0126,
     0x0128, 0x012A, 0x012C, 0x012E, 0x0130, 0x0132, 0x0134, 0x0136, 0x0139, 0x013B,
     0x013D, 0x013F, 0x0141, 0x0143, 0x0145, 0x0147, 0x014A, 0x014C, 0x014E, 0x0150,
     0x0152, 0x0154, 0x0156, 0x0158, 0x015A, 0x015C, 0x015E, 0x0160, 0x0162, 0x0164,
     0x0166, 0x0168, 0x016A, 0x016C, 0x016E, 0x0170, 0x0172, 0x0174, 0x0176, 0x0178,
     0x0179, 0x017B, 0x017D, 0x0181, 0x0182, 0x0184, 0x0186, 0x0187, 0x0189, 0x018A,
     0x018B, 0x018E, 0x018F, 0x0190, 0x0191, 0x0193, 0x0194, 0x0196, 0x0197, 0x0198,
     0x019C, 0x019D, 0x019F, 0x01A0, 0x01A2, 0x01A4, 0x01A6, 0x01A7, 0x01A9, 0x01AC,
     0x01AE, 0x01AF, 0x01B1, 0x01B2, 0x01B3, 0x01B5, 0x01B7, 0x01B8, 0x01BC, 0x01C4,
     0x01C7, 0x01CA, 0x01CD, 0x01CF, 0x01D1, 0x01D3, 0x01D5, 0x01D7, 0x01D9, 0x01DB,
     0x01DE, 0x01E0, 0x01E2, 0x01E4, 0x01E6, 0x01E8, 0x01EA, 0x01EC, 0x01EE, 0x01F1,
     0x01F4, 0x01F6, 0x01F7, 0x01F8, 0x01FA, 0x01FC, 0x01FE]"

definition uppercase_02 :: "nat list" where
  "uppercase_02 =
    [0x0200, 0x0202, 0x0204, 0x0206, 0x0208, 0x020A, 0x020C, 0x020E, 0x0210, 0x0212,
     0x0214, 0x0216, 0x0218, 0x021A, 0x021C, 0x021E, 0x0220, 0x0222, 0x0224, 0x0226,
     0x0228, 0x022A, 0x022C, 0x022E, 0x0230, 0x0232, 0x023A, 0x023B, 0x023D, 0x023E,
     0x0241, 0x0243, 0x0244, 0x0245, 0x0246, 0x0248, 0x024A, 0x024C, 0x024E]"

definition uppercase_03 :: "nat list" where
  "uppercase_03 =
    [0x0370, 0x0372, 0x0376, 0x037F, 0x0386, 0x0388, 0x0389, 0x038A, 0x038C, 0x038E,
     0x038F, 0x0391, 0x0392, 0x0393, 0x0394, 0x0395, 0x0396, 0x0397, 0x0398, 0x0399,
     0x039A, 0x039B, 0x039C, 0x039D, 0x039E, 0x039F, 0x03A0, 0x03A1, 0x03A3, 0x03A4,
     0x03A5, 0x03A6, 0x03A7, 0x03A8, 0x03A9, 0x03AA, 0x03AB, 0x03CF, 0x03D2, 0x03D3,
     0x03D4, 0x03D8, 0x03DA, 0x03DC, 0x03DE, 0x03E0, 0x03E2, 0x03E4, 0x03E6, 0x03E8,
     0x03EA, 0x03EC, 0x03EE, 0x03F4, 0x03F7, 0x03F9, 0x03FA, 0x03FD, 0x03FE, 0x03FF]"

definition uppercase_04 :: "nat list" where
  "uppercase_04 =
    [0x0400, 0x0401, 0x0402, 0x0403, 0x0404, 0x0405, 0x0406, 0x0407, 0x0408, 0x0409,
     0x040A, 0x040B, 0x040C, 0x040D, 0x040E, 0x040F, 0x0410, 0x0411, 0x0412, 0x0413,
     0x0414, 0x0415, 0x0416, 0x0417, 0x0418, 0x0419, 0x041A, 0x041B, 0x041C, 0x041D,
     0x041E, 0x041F, 0x0420, 0x0421, 0x0422, 0x0423, 0x0424, 0x0425, 0x0426, 0x0427,
     0x0428, 0x0429, 0x042A, 0x042B, 0x042C, 0x042D, 0x042E, 0x042F, 0x0460, 0x0462,
     0x0464, 0x0466, 0x0468, 0x046A, 0x046C, 0x046E, 0x0470, 0x0472, 0x0474, 0x0476,
     0x0478, 0x047A, 0x047C, 0x047E, 0x0480, 0x048A, 0x048C, 0x048E, 0x0490, 0x0492,
     0x0494, 0x0496, 0x0498, 0x049A, 0x049C, 0x049E, 0x04A0, 0x04A2, 0x04A4, 0x04A6,
     0x04A8, 0x04AA, 0x04AC, 0x04AE, 0x04B0, 0x04B2, 0x04B4, 0x04B6, 0x04B8, 0x04BA,
     0x04BC, 0x04BE, 0x04C0, 0x04C1, 0x04C3, 0x04C5, 0x04C7, 0x04C9, 0x04CB, 0x04CD,
     0x04D0, 0x04D2, 0x04D4, 0x04D6, 0x04D8, 0x04DA, 0x04DC, 0x04DE, 0x04E0, 0x04E2,
     0x04E4, 0x04E6, 0x04E8, 0x04EA, 0x04EC, 0x04EE, 0x04F0, 0x04F2, 0x04F4, 0x04F6,
     0x04F8, 0x04FA, 0x04FC, 0x04FE]"

definition uppercase_05 :: "nat list" where
  "uppercase_05 =
    [0x0500, 0x0502, 0x0504, 0x0506, 0x0508, 0x050A, 0x050C, 0x050E, 0x0510, 0x0512,
     0x0514, 0x0516, 0x0518, 0x051A, 0x051C, 0x051E, 0x0520, 0x0522, 0x0524, 0x0526,
     0x0528, 0x052A, 0x052C, 0x052E, 0x0531, 0x0532, 0x0533, 0x0534, 0x0535, 0x0536,
     0x0537, 0x0538, 0x0539, 0x053A, 0x053B, 0x053C, 0x053D, 0x053E, 0x053F, 0x0540,
     0x0541, 0x0542, 0x0543, 0x0544, 0x0545, 0x0546, 0x0547, 0x0548, 0x0549, 0x054A,
     0x054B, 0x054C, 0x054D, 0x054E, 0x054F, 0x0550, 0x0551, 0x0552, 0x0553, 0x0554,
     0x0555, 0x0556]"

definition uppercase_10 :: "nat list" where
  "uppercase_10 =
    [0x10A0, 0x10A1, 0x10A2, 0x10A3, 0x10A4, 0x10A5, 0x10A6, 0x10A7, 0x10A8, 0x10A9,
     0x10AA, 0x10AB, 0x10AC, 0x10AD, 0x10AE, 0x10AF, 0x10B0, 0x10B1, 0x10B2, 0x10B3,
     0x10B4, 0x10B5, 0x10B6, 0x10B7, 0x10B8, 0x10B9, 0x10BA, 0x10BB, 0x10BC, 0x10BD,
     0x10BE, 0x10BF, 0x10C0, 0x10C1, 0x10C2, 0x10C3, 0x10C4, 0x10C5, 0x10C7, 0x10CD]"

definition uppercase_13 :: "nat list" where
  "uppercase_13 =
    [0x13A0, 0x13A1, 0x13A2, 0x13A3, 0x13A4, 0x13A5, 0x13A6, 0x13A7, 0x13A8, 0x13A9,
     0x13AA, 0x13AB, 0x13AC, 0x13AD, 0x13AE, 0x13AF, 0x13B0, 0x13B1, 0x13B2, 0x13B3,
     0x13B4, 0x13B5, 0x13B6, 0x13B7, 0x13B8, 0x13B9, 0x13BA, 0x13BB, 0x13BC, 0x13BD,
     0x13BE, 0x13BF, 0x13C0, 0x13C1, 0x13C2, 0x13C3, 0x13C4, 0x13C5, 0x13C6, 0x13C7,
     0x13C8, 0x13C9, 0x13CA, 0x13CB, 0x13CC, 0x13CD, 0x13CE, 0x13CF, 0x13D0, 0x13D1,
     0x13D2, 0x13D3, 0x13D4, 0x13D5, 0x13D6, 0x13D7, 0x13D8, 0x13D9, 0x13DA, 0x13DB,
     0x13DC, 0x13DD, 0x13DE, 0x13DF, 0x13E0, 0x13E1, 0x13E2, 0x13E3, 0x13E4, 0x13E5,
     0x13E6, 0x13E7, 0x13E8, 0x13E9, 0x13EA, 0x13EB, 0x13EC, 0x13ED, 0x13EE, 0x13EF,
     0x13F0, 0x13F1, 0x13F2, 0x13F3, 0x13F4, 0x13F5]"

definition uppercase_1C :: "nat list" where
  "uppercase_1C =
    [0x1C90, 0x1C91, 0x1C92, 0x1C93, 0x1C94, 0x1C95, 0x1C96, 0x1C97, 0x1C98, 0x1C99,
     0x1C9A, 0x1C9B, 0x1C9C, 0x1C9D, 0x1C9E, 0x1C9F, 0x1CA0, 0x1CA1, 0x1CA2, 0x1CA3,
     0x1CA4, 0x1CA5, 0x1CA6, 0x1CA7, 0x1CA8, 0x1CA9, 0x1CAA, 0x1CAB, 0x1CAC, 0x1CAD,
     0x1CAE, 0x1CAF, 0x1CB0, 0x1CB1, 0x1CB2, 0x1CB3, 0x1CB4, 0x1CB5, 0x1CB6, 0x1CB7,
     0x1CB8, 0x1CB9, 0x1CBA, 0x1CBD, 0x1CBE, 0x1CBF]"

definition uppercase_1E :: "nat list" where
  "uppercase_1E =
    [0x1E00, 0x1E02, 0x1E04, 0x1E06, 0x1E08, 0x1E0A, 0x1E0C, 0x1E0E, 0x1E10, 0x1E12,
     0x1E14, 0x1E16, 0x1E18, 0x1E1A, 0x1E1C, 0x1E1E, 0x1E20, 0x1E22, 0x1E24, 0x1E26,
     0x1E28, 0x1E2A, 0x1E2C, 0x1E2E, 0x1E30, 0x1E32, 0x1E34, 0x1E36, 0x1E38, 0x1E3A,
     0x1E3C, 0x1E3E, 0x1E40, 0x1E42, 0x1E44, 0x1E46, 0x1E48, 0x1E4A, 0x1E4C, 0x1E4E,
     0x1E50, 0x1E52, 0x1E54, 0x1E56, 0x1E58, 0x1E5A, 0x1E5C, 0x1E5E, 0x1E60, 0x1E62,
     0x1E64, 0x1E66, 0x1E68, 0x1E6A, 0x1E6C, 0x1E6E, 0x1E70, 0x1E72, 0x1E74, 0x1E76,
     0x1E78, 0x1E7A, 0x1E7C, 0x1E7E, 0x1E80, 0x1E82, 0x1E84, 0x1E86, 0x1E88, 0x1E8A,
     0x1E8C, 0x1E8E, 0x1E90, 0x1E92, 0x1E94, 0x1E9E, 0x1EA0, 0x1EA2, 0x1EA4, 0x1EA6,
     0x1EA8, 0x1EAA, 0x1EAC, 0x1EAE, 0x1EB0, 0x1EB2, 0x1EB4, 0x1EB6, 0x1EB8, 0x1EBA,
     0x1EBC, 0x1EBE, 0x1EC0, 0x1EC2, 0x1EC4, 0x1EC6, 0x1EC8, 0x1ECA, 0x1ECC, 0x1ECE,
     0x1ED0, 0x1ED2, 0x1ED4, 0x1ED6, 0x1ED8, 0x1EDA, 0x1EDC, 0x1EDE, 0x1EE0, 0x1EE2,
     0x1EE4, 0x1EE6, 0x1EE8, 0x1EEA, 0x1EEC, 0x1EEE, 0x1EF0, 0x1EF2, 0x1EF4, 0x1EF6,
     0x1EF8, 0x1EFA, 0x1EFC, 0x1EFE]"

definition uppercase_1F :: "nat list" where
  "uppercase_1F =
    [0x1F08, 0x1F09, 0x1F0A, 0x1F0B, 0x1F0C, 0x1F0D, 0x1F0E, 0x1F0F, 0x1F18, 0x1F19,
     0x1F1A, 0x1F1B, 0x1F1C, 0x1F1D, 0x1F28, 0x1F29, 0x1F2A, 0x1F2B, 0x1F2C, 0x1F2D,
     0x1F2E, 0x1F2F, 0x1F38, 0x1F39, 0x1F3A, 0x1F3B, 0x1F3C, 0x1F3D, 0x1F3E, 0x1F3F,
     0x1F48, 0x1F49, 0x1F4A, 0x1F4B, 0x1F4C, 0x1F4D, 0x1F59, 0x1F5B, 0x1F5D, 0x1F5F,
     0x1F68, 0x1F69, 0x1F6A, 0x1F6B, 0x1F6C, 0x1F6D, 0x1F6E, 0x1F6F, 0x1FB8, 0x1FB9,
     0x1FBA, 0x1FBB, 0x1FC8, 0x1FC9, 0x1FCA, 0x1FCB, 0x1FD8, 0x1FD9, 0x1FDA, 0x1FDB,
     0x1FE8, 0x1FE9, 0x1FEA, 0x1FEB, 0x1FEC, 0x1FF8, 0x1FF9, 0x1FFA, 0x1FFB]"

definition uppercase_21 :: "nat list" where
  "uppercase_21 =
    [0x2102, 0x2107, 0x210B, 0x210C, 0x210D, 0x2110, 0x2111, 0x2112, 0x2115, 0x2119,
     0x211A, 0x211B, 0x211C, 0x211D, 0x2124, 0x2126, 0x2128, 0x212A, 0x212B, 0x212C,
     0x212D, 0x2130, 0x2131, 0x2132, 0x2133, 0x213E, 0x213F, 0x2145, 0x2160, 0x2161,
     0x2162, 0x2163, 0x2164, 0x2165, 0x2166, 0x2167, 0x2168, 0x2169, 0x216A, 0x216B,
     0x216C, 0x216D, 0x216E, 0x216F, 0x2183]"

definition uppercase_24 :: "nat list" where
  "uppercase_24 =
    [0x24B6, 0x24B7, 0x24B8, 0x24B9, 0x24BA, 0x24BB, 0x24BC, 0x24BD, 0x24BE, 0x24BF,
     0x24C0, 0x24C1, 0x24C2, 0x24C3, 0x24C4, 0x24C5, 0x24C6, 0x24C7, 0x24C8, 0x24C9,
     0x24CA, 0x24CB, 0x24CC, 0x24CD, 0x24CE, 0x24CF]"

definition uppercase_2C :: "nat list" where
  "uppercase_2C =
    [0x2C00, 0x2C01, 0x2C02, 0x2C03, 0x2C04, 0x2C05, 0x2C06, 0x2C07, 0x2C08, 0x2C09,
     0x2C0A, 0x2C0B, 0x2C0C, 0x2C0D, 0x2C0E, 0x2C0F, 0x2C10, 0x2C11, 0x2C12, 0x2C13,
     0x2C14, 0x2C15, 0x2C16, 0x2C17, 0x2C18, 0x2C19, 0x2C1A, 0x2C1B, 0x2C1C, 0x2C1D,
     0x2C1E, 0x2C1F, 0x2C20, 0x2C21, 0x2C22, 0x2C23, 0x2C24, 0x2C25, 0x2C26, 0x2C27,
     0x2C28, 0x2C29, 0x2C2A, 0x2C2B, 0x2C2C, 0x2C2D, 0x2C2E, 0x2C2F, 0x2C60, 0x2C62,
     0x2C63, 0x2C64, 0x2C67, 0x2C69, 0x2C6B, 0x2C6D, 0x2C6E, 0x2C6F, 0x2C70, 0x2C72,
     0x2C75, 0x2C7E, 0x2C7F, 0x2C80, 0x2C82, 0x2C84, 0x2C86, 0x2C88, 0x2C8A, 0x2C8C,
     0x2C8E, 0x2C90, 0x2C92, 0x2C94, 0x2C96, 0x2C98, 0x2C9A, 0x2C9C, 0x2C9E, 0x2CA0,
     0x2CA2, 0x2CA4, 0x2CA6, 0x2CA8, 0x2CAA, 0x2CAC, 0x2CAE, 0x2CB0, 0x2CB2, 0x2CB4,
     0x2CB6, 0x2CB8, 0x2CBA, 0x2CBC, 0x2CBE, 0x2CC0, 0x2CC2, 0x2CC4, 0x2CC6, 0x2CC8,
     0x2CCA, 0x2CCC, 0x2CCE, 0x2CD0, 0x2CD2, 0x2CD4, 0x2CD6, 0x2CD8, 0x2CDA, 0x2CDC,
     0x2CDE, 0x2CE0, 0x2CE2, 0x2CEB, 0x2CED, 0x2CF2]"

definition uppercase_A6 :: "nat list" where
  "uppercase_A6 =
    [0xA640, 0xA642, 0xA644, 0xA646, 0xA648, 0xA64A, 0xA64C, 0xA64E, 0xA650, 0xA652,
     0xA654, 0xA656, 0xA658, 0xA65A, 0xA65C, 0xA65E, 0xA660, 0xA662, 0xA664, 0xA666,
     0xA668, 0xA66A, 0xA66C, 0xA680, 0xA682, 0xA684, 0xA686, 0xA688, 0xA68A, 0xA68C,
     0xA68E, 0xA690, 0xA692, 0xA694, 0xA696, 0xA698, 0xA69A]"

definition uppercase_A7 :: "nat list" where
  "uppercase_A7 =
    [0xA722, 0xA724, 0xA726, 0xA728, 0xA72A, 0xA72C, 0xA72E, 0xA732, 0xA734, 0xA736,
     0xA738, 0xA73A, 0xA73C, 0xA73E, 0xA740, 0xA742, 0xA744, 0xA746, 0xA748, 0xA74A,
     0xA74C, 0xA74E, 0xA750, 0xA752, 0xA754, 0xA756, 0xA758, 0xA75A, 0xA75C, 0xA75E,
     0xA760, 0xA762, 0xA764, 0xA766, 0xA768, 0xA76A, 0xA76C, 0xA76E, 0xA779, 0xA77B,
     0xA77D, 0xA77E, 0xA780, 0xA782, 0xA784, 0xA786, 0xA78B, 0xA78D, 0xA790, 0xA792,
     0xA796, 0xA798, 0xA79A, 0xA79C, 0xA79E, 0xA7A0, 0xA7A2, 0xA7A4, 0xA7A6, 0xA7A8,
     0xA7AA, 0xA7AB, 0xA7AC, 0xA7AD, 0xA7AE, 0xA7B0, 0xA7B1, 0xA7B2, 0xA7B3, 0xA7B4,
     0xA7B6, 0xA7B8, 0xA7BA, 0xA7BC, 0xA7BE, 0xA7C0, 0xA7C2, 0xA7C4, 0xA7C5, 0xA7C6,
     0xA7C7, 0xA7C9, 0xA7D0, 0xA7D6, 0xA7D8, 0xA7F5]"

definition uppercase_FF :: "nat list" where
  "uppercase_FF =
    [0xFF21, 0xFF22, 0xFF23, 0xFF24, 0xFF25, 0xFF26, 0xFF27, 0xFF28, 0xFF29, 0xFF2A,
     0xFF2B, 0xFF2C, 0xFF2D, 0xFF2E, 0xFF2F, 0xFF30, 0xFF31, 0xFF32, 0xFF33, 0xFF34,
     0xFF35, 0xFF36, 0xFF37, 0xFF38, 0xFF39, 0xFF3A]"

definition uppercase_units :: "nat list list" where
  "uppercase_units =
    [uppercase_00, uppercase_01, uppercase_02, uppercase_03, uppercase_04, uppercase_05,
     uppercase_10, uppercase_13, uppercase_1C, uppercase_1E, uppercase_1F, uppercase_21,
     uppercase_24, uppercase_2C, uppercase_A6, uppercase_A7, uppercase_FF]"

definition isUpperCase :: "nat \<Rightarrow> bool" where
  "isUpperCase c = (c \<in> set (concat uppercase_units))"

section \<open>Auxiliary notions for the proofs\<close>

text \<open>
  The number of the branch that \<open>categorize_file\<close> takes for a file: the position of the
  bucket that receives it.
\<close>

definition branch :: "string \<Rightarrow> nat" where
  "branch f =
     length (takeWhile (\<lambda>b. b = []) (buckets (categorize_file f empty_categories)))"

text \<open>
  Checks over the upper-case table: the upper-case form of an entry is not empty and
  starts with a unit that is its own upper-case form; a listed unit is its own upper-case
  form.
\<close>

fun fixed :: "nat list \<Rightarrow> bool" where
  "fixed [] = False"
| "fixed (f # fs) = (toUpperCase_unit f = [f])"

fun entries_fixed :: "(nat \<times> nat list) list \<Rightarrow> bool" where
  "entries_fixed [] = True"
| "entries_fixed ((c, u) # es) = (if fixed u then entries_fixed es else False)"

fun rows_fixed :: "(nat \<times> (nat \<times> nat list) list) list \<Rightarrow> bool" where
  "rows_fixed [] = True"
| "rows_fixed ((i, row) # rs) = (if entries_fixed row then rows_fixed rs else False)"

fun blocks_fixed :: "(nat \<times> (nat \<times> (nat \<times> nat list) list) list) list \<Rightarrow> bool" where
  "blocks_fixed [] = True"
| "blocks_fixed ((j, b) # bs) = (if rows_fixed b then blocks_fixed bs else False)"

fun all_fixed :: "nat list \<Rightarrow> bool" where
  "all_fixed [] = True"
| "all_fixed (c # cs) = (if toUpperCase_unit c = [c] then all_fixed cs else False)"

fun chunks_fixed :: "nat list list \<Rightarrow> bool" where
  "chunks_fixed [] = True"
| "chunks_fixed (c # cs) = (if all_fixed c then chunks_fixed cs else False)"

text \<open>What a signature contributes to the pattern matches: its type and its action.\<close>

definition entry :: "signature \<Rightarrow> pattern_match" where
  "entry sg = \<lparr>type = type sg, action = action sg\<rparr>"

text \<open>The two quote characters of the sanitizer's character class.\<close>

definition is_quote :: "char \<Rightarrow> bool" where
  "is_quote c = (c = CHR 0x22 \<or> c = CHR 0x27)"

text \<open>
  The texts an expression can match, position and captures left aside. Every match that
  the matcher finds is one of them (\<open>rx_run_sound\<close> below).
\<close>

primrec rx_lang :: "rx \<Rightarrow> string set" where
  "rx_lang Eps = {[]}"
| "rx_lang (Chr P) = {[c] | c. P c}"
| "rx_lang Bol = {[]}"
| "rx_lang Eol = {[]}"
| "rx_lang (Seq r1 r2) = {u @ v | u v. u \<in> rx_lang r1 \<and> v \<in> rx_lang r2}"
| "rx_lang (Alt r1 r2) = rx_lang r1 \<union> rx_lang r2"
| "rx_lang (Star P) = {w. \<forall>c \<in> set w. P c}"
| "rx_lang (Grp n r) = rx_lang r"

section \<open>Categorization partitions the staged files\<close>

lemma length_buckets: "length (buckets c) = 7"
  by (simp add: buckets_def)

lemma if_chain:
  "R a1 \<Longrightarrow> R a2 \<Longrightarrow> R a3 \<Longrightarrow> R a4 \<Longrightarrow> R a5 \<Longrightarrow> R a6 \<Longrightarrow> R a7 \<Longrightarrow>
   R (if B1 then a1 else if B2 then a2 else if B3 then a3 else if B4 then a4
      else if B5 then a5 else if B6 then a6 else a7)"
  by simp

lemma if_chain2:
  "R a1 b1 \<Longrightarrow> R a2 b2 \<Longrightarrow> R a3 b3 \<Longrightarrow> R a4 b4 \<Longrightarrow> R a5 b5 \<Longrightarrow> R a6 b6 \<Longrightarrow> R a7 b7 \<Longrightarrow>
   R (if B1 then a1 else if B2 then a2 else if B3 then a3 else if B4 then a4
      else if B5 then a5 else if B6 then a6 else a7)
     (if B1 then b1 else if B2 then b2 else if B3 then b3 else if B4 then b4
      else if B5 then b5 else if B6 then b6 else b7)"
  by simp

text \<open>Whatever the buckets hold, a file is appended to the bucket of its branch.\<close>

lemma categorize_file_branch:
  "branch f < 7 \<and>
   buckets (categorize_file f c) = (buckets c)[branch f := buckets c ! branch f @ [f]]"
  unfolding branch_def categorize_file_def Let_def
  by (rule if_chain2 [where R = "\<lambda>x y.
        length (takeWhile (\<lambda>b. b = []) (buckets y)) < 7 \<and>
        buckets x = (buckets c)[length (takeWhile (\<lambda>b. b = []) (buckets y)) :=
           buckets c ! length (takeWhile (\<lambda>b. b = []) (buckets y)) @ [f]]"])
     (simp_all add: buckets_def empty_categories_def)

lemma categorize_file_mset:
  "mset (concat (buckets (categorize_file f c))) = mset (concat (buckets c)) + {#f#}"
  unfolding categorize_file_def Let_def
  by (rule if_chain [where R = "\<lambda>x. mset (concat (buckets x)) = mset (concat (buckets c)) + {#f#}"])
     (simp_all add: buckets_def)

lemma fold_categorize_mset:
  "mset (concat (buckets (fold categorize_file files c))) =
   mset (concat (buckets c)) + mset files"
  by (induction files arbitrary: c) (simp_all add: categorize_file_mset)

lemma fold_categorize_nth:
  "k < 7 \<Longrightarrow>
   buckets (fold categorize_file files c) ! k = buckets c ! k @ filter (\<lambda>f. branch f = k) files"
proof (induction files arbitrary: c)
  case Nil
  then show ?case by simp
next
  case (Cons f files)
  have "buckets (categorize_file f c) ! k = buckets c ! k @ (if branch f = k then [f] else [])"
    using Cons.prems categorize_file_branch [of f c]
    by (simp add: nth_list_update length_buckets)
  then show ?case
    using Cons.IH [OF Cons.prems, of "categorize_file f c"] by simp
qed

lemma buckets_empty: "k < 7 \<Longrightarrow> buckets empty_categories ! k = []"
proof -
  have "buckets empty_categories = replicate 7 []"
    by (simp add: buckets_def empty_categories_def numeral_eq_Suc)
  then show "k < 7 \<Longrightarrow> buckets empty_categories ! k = []"
    by simp
qed

lemma categorizeFiles_nth:
  "k < 7 \<Longrightarrow> buckets (categorizeFiles files) ! k = filter (\<lambda>f. branch f = k) files"
  unfolding categorizeFiles_def by (simp add: fold_categorize_nth buckets_empty)

lemma filter_single:
  assumes "k < length xs" and "\<And>j. j < length xs \<Longrightarrow> P (xs ! j) \<longleftrightarrow> j = k"
  shows "filter P xs = [xs ! k]"
proof -
  have xs: "xs = take k xs @ xs ! k # drop (Suc k) xs"
    using assms(1) by (rule id_take_nth_drop)
  have a: "filter P (take k xs) = []"
    using assms by (auto simp: filter_empty_conv in_set_conv_nth)
  have b: "filter P (drop (Suc k) xs) = []"
    using assms by (auto simp: filter_empty_conv in_set_conv_nth)
  have c: "P (xs ! k)" using assms by simp
  have "filter P xs = filter P (take k xs @ xs ! k # drop (Suc k) xs)"
    using xs by simp
  also have "\<dots> = [xs ! k]" using a b c by simp
  finally show ?thesis .
qed

text \<open>
  Claim C1. For every non-empty list of staged files, every file of the list is held by
  exactly one of the seven buckets (code, config, docs, tests, styles, scripts, other) that
  \<open>categorizeFiles\<close> returns, and the buckets together hold exactly the files of the
  list, each as often as the list does.
\<close>

theorem categorizeFiles_partition:
  assumes "files \<noteq> []"
  shows "(\<forall>f \<in> set files.
            length (filter (\<lambda>b. f \<in> set b) (buckets (categorizeFiles files))) = 1)
         \<and> mset (concat (buckets (categorizeFiles files))) = mset files"
proof
  show "\<forall>f \<in> set files.
          length (filter (\<lambda>b. f \<in> set b) (buckets (categorizeFiles files))) = 1"
  proof
    fix f assume f: "f \<in> set files"
    let ?bs = "buckets (categorizeFiles files)"
    have mem: "f \<in> set (?bs ! j) \<longleftrightarrow> j = branch f" if "j < length ?bs" for j
    proof -
      from that have "j < 7" by (simp add: length_buckets)
      then have "?bs ! j = filter (\<lambda>g. branch g = j) files"
        by (rule categorizeFiles_nth)
      then show ?thesis using f by auto
    qed
    have "branch f < length ?bs"
      using categorize_file_branch [of f] by (simp add: length_buckets)
    then have "filter (\<lambda>b. f \<in> set b) ?bs = [?bs ! branch f]"
      using mem by (rule filter_single)
    then show "length (filter (\<lambda>b. f \<in> set b) ?bs) = 1" by simp
  qed
  have "concat (buckets empty_categories) = []"
    by (simp add: buckets_def empty_categories_def)
  then show "mset (concat (buckets (categorizeFiles files))) = mset files"
    unfolding categorizeFiles_def by (simp add: fold_categorize_mset)
qed

theorem categorizeFiles_partition_witness:
  "length (filter (\<lambda>b. ''src/app.js'' \<in> set b)
     (buckets (categorizeFiles [''src/app.js'', ''README.md'', ''src/app.js'']))) = 1
   \<and> length (filter (\<lambda>b. ''README.md'' \<in> set b)
     (buckets (categorizeFiles [''src/app.js'', ''README.md'', ''src/app.js'']))) = 1
   \<and> mset (concat (buckets (categorizeFiles [''src/app.js'', ''README.md'', ''src/app.js''])))
       = mset [''src/app.js'', ''README.md'', ''src/app.js'']"
  using categorizeFiles_partition [of "[''src/app.js'', ''README.md'', ''src/app.js'']"]
  by simp

section \<open>The message for an empty list of staged files\<close>

lemma categorizeFiles_Nil: "categorizeFiles [] = empty_categories"
  by (simp add: categorizeFiles_def)

lemma category_messages_empty: "category_messages empty_categories opts = []"
  by (simp add: category_messages_def addCategoryMessage_def empty_categories_def)

lemma patterns_no_evidence: "patterns (analyzeCodeChanges [] []) = []"
  by code_simp

text \<open>
  Claim C6. For an empty list of staged files and no pattern matches, the composed
  message is exactly \<open>Update files\<close>, whatever the verbose option is. This holds for
  \<open>generateCommitMessage\<close> of both scripts.
\<close>

theorem empty_staged_files_message:
  "patterns a = [] \<Longrightarrow>
     generateCommitMessage (categorizeFiles []) a opts = ''Update files''
     \<and> generateCommitMessage_basic (categorizeFiles []) opts = ''Update files''"
  by (simp add: generateCommitMessage_def generateCommitMessage_basic_def
        categorizeFiles_Nil category_messages_empty)

theorem empty_staged_files_message_witness:
  "generateCommitMessage (categorizeFiles []) (analyzeCodeChanges [] []) \<lparr>verbose = True\<rparr>
     = ''Update files''
   \<and> generateCommitMessage_basic (categorizeFiles []) \<lparr>verbose = True\<rparr> = ''Update files''"
  using empty_staged_files_message [OF patterns_no_evidence, of "\<lparr>verbose = True\<rparr>"]
  by simp

section \<open>Two source files and a stylesheet\<close>

lemma scenario_A_categories:
  "categorizeFiles [''src/app.js'', ''src/utils.js'', ''styles/main.css''] =
     \<lparr>code = [''src/app.js'', ''src/utils.js''], config = [], docs = [], tests = [],
      styles = [''styles/main.css''], scripts = [], other = []\<rparr>"
  by code_simp

text \<open>
  Claim C5, as stated, fails: for the files \<open>src/app.js\<close>, \<open>src/utils.js\<close> and
  \<open>styles/main.css\<close>, an empty diff (so no pattern matches) and verbose off, the composed
  message is not \<open>Update 2 source code file, 1 stylesheet\<close>.
\<close>

theorem scenario_A_counterexample:
  "generateCommitMessage
     (categorizeFiles [''src/app.js'', ''src/utils.js'', ''styles/main.css''])
     (analyzeCodeChanges [''src/app.js'', ''src/utils.js'', ''styles/main.css''] [])
     \<lparr>verbose = False\<rparr>
   \<noteq> ''Update 2 source code file, 1 stylesheet''"
  by code_simp

text \<open>
  Claim C5, amended. For the files \<open>src/app.js\<close>, \<open>src/utils.js\<close> and \<open>styles/main.css\<close>,
  no pattern matches and verbose off, the code bucket holds the two source files, the
  styles bucket holds the stylesheet, and the composed message is exactly
  \<open>Update 2 code file, Update stylesheet\<close>: every clause carries the verb, a bucket of
  one file shows no count, and the adjective \<open>source\<close> is used only for a bucket of one file.
\<close>

theorem scenario_A_message:
  assumes "patterns a = []" and "\<not> verbose opts"
  shows "code (categorizeFiles [''src/app.js'', ''src/utils.js'', ''styles/main.css''])
           = [''src/app.js'', ''src/utils.js'']
         \<and> styles (categorizeFiles [''src/app.js'', ''src/utils.js'', ''styles/main.css''])
           = [''styles/main.css'']
         \<and> generateCommitMessage
              (categorizeFiles [''src/app.js'', ''src/utils.js'', ''styles/main.css'']) a opts
           = ''Update 2 code file, Update stylesheet''"
  using assms
  by (simp add: scenario_A_categories generateCommitMessage_def category_messages_def
        addCategoryMessage_def digit_char_def string_of_nat.simps)

theorem scenario_A_message_witness:
  "code (categorizeFiles [''src/app.js'', ''src/utils.js'', ''styles/main.css''])
     = [''src/app.js'', ''src/utils.js'']
   \<and> styles (categorizeFiles [''src/app.js'', ''src/utils.js'', ''styles/main.css''])
     = [''styles/main.css'']
   \<and> generateCommitMessage
        (categorizeFiles [''src/app.js'', ''src/utils.js'', ''styles/main.css''])
        (analyzeCodeChanges [] []) \<lparr>verbose = False\<rparr>
     = ''Update 2 code file, Update stylesheet''"
proof -
  have v: "\<not> verbose \<lparr>verbose = False\<rparr>" by simp
  show ?thesis by (rule scenario_A_message [OF patterns_no_evidence v])
qed

section \<open>Documentation files\<close>

lemma categorizeFiles_single: "categorizeFiles [f] = categorize_file f empty_categories"
  by (simp add: categorizeFiles_def)

lemma docs_chain:
  assumes "code (if B1 then e\<lparr>code := code e @ [f]\<rparr> else if B2 then e\<lparr>config := config e @ [f]\<rparr>
                 else if B3 then e\<lparr>docs := docs e @ [f]\<rparr> else X) = []"
    and "config (if B1 then e\<lparr>code := code e @ [f]\<rparr> else if B2 then e\<lparr>config := config e @ [f]\<rparr>
                 else if B3 then e\<lparr>docs := docs e @ [f]\<rparr> else X) = []"
    and "B3" and "code e = []" and "config e = []" and "docs e = []"
  shows "docs (if B1 then e\<lparr>code := code e @ [f]\<rparr> else if B2 then e\<lparr>config := config e @ [f]\<rparr>
                 else if B3 then e\<lparr>docs := docs e @ [f]\<rparr> else X) = [f]"
  using assms by (cases B1; cases B2; simp)

text \<open>
  Claim C2, as stated, fails: for the files \<open>README.md\<close> and \<open>CHANGELOG.md\<close>, an empty
  diff and verbose on, no file is in the docs bucket and the composed message is not
  \<open>Update documentation (README.md, CHANGELOG.md)\<close>.
\<close>

theorem readme_changelog_counterexample:
  "docs (categorizeFiles [''README.md'', ''CHANGELOG.md'']) = []
   \<and> generateCommitMessage (categorizeFiles [''README.md'', ''CHANGELOG.md''])
         (analyzeCodeChanges [''README.md'', ''CHANGELOG.md''] []) \<lparr>verbose = True\<rparr>
       \<noteq> ''Update documentation (README.md, CHANGELOG.md)''"
  by code_simp

text \<open>
  Claim C2, amended. With verbose on and no pattern matches, a docs bucket that holds
  \<open>README.md\<close> and \<open>CHANGELOG.md\<close>, all other buckets being empty, composes to exactly
  \<open>Update 2 documentation (README.md, CHANGELOG.md)\<close>. A file that is categorized neither
  as code nor as config is categorized as docs when its extension is one of \<open>.md\<close>,
  \<open>.txt\<close>, \<open>.rst\<close>, \<open>.adoc\<close> or its base name contains \<open>readme\<close>, \<open>doc\<close> or
  \<open>changelog\<close>.
\<close>

theorem docs_rule_and_message:
  "(patterns a = [] \<and> verbose opts \<longrightarrow>
      generateCommitMessage (empty_categories\<lparr>docs := [''README.md'', ''CHANGELOG.md'']\<rparr>) a opts
        = ''Update 2 documentation (README.md, CHANGELOG.md)'')
   \<and> (code (categorizeFiles [f]) = [] \<and> config (categorizeFiles [f]) = []
        \<and> (toLowerCase (extname f) \<in> set [''.md'', ''.txt'', ''.rst'', ''.adoc'']
             \<or> str_includes (toLowerCase (basename f)) ''readme''
             \<or> str_includes (toLowerCase (basename f)) ''doc''
             \<or> str_includes (toLowerCase (basename f)) ''changelog'')
        \<longrightarrow> docs (categorizeFiles [f]) = [f])"
proof (intro conjI impI)
  assume "patterns a = [] \<and> verbose opts"
  then show "generateCommitMessage
               (empty_categories\<lparr>docs := [''README.md'', ''CHANGELOG.md'']\<rparr>) a opts
             = ''Update 2 documentation (README.md, CHANGELOG.md)''"
    by (simp add: generateCommitMessage_def category_messages_def
        addCategoryMessage_def digit_char_def empty_categories_def string_of_nat.simps)
next
  assume h: "code (categorizeFiles [f]) = [] \<and> config (categorizeFiles [f]) = []
        \<and> (toLowerCase (extname f) \<in> set [''.md'', ''.txt'', ''.rst'', ''.adoc'']
             \<or> str_includes (toLowerCase (basename f)) ''readme''
             \<or> str_includes (toLowerCase (basename f)) ''doc''
             \<or> str_includes (toLowerCase (basename f)) ''changelog'')"
  then have c1: "code (categorize_file f empty_categories) = []"
    and c2: "config (categorize_file f empty_categories) = []"
    and c3: "toLowerCase (extname f) \<in> set [''.md'', ''.txt'', ''.rst'', ''.adoc'']
             \<or> str_includes (toLowerCase (basename f)) ''readme''
             \<or> str_includes (toLowerCase (basename f)) ''doc''
             \<or> str_includes (toLowerCase (basename f)) ''changelog''"
    unfolding categorizeFiles_single by blast+
  show "docs (categorizeFiles [f]) = [f]"
    unfolding categorizeFiles_single
    using c1 c2 c3 unfolding categorize_file_def Let_def
    by (rule docs_chain) (simp_all add: empty_categories_def)
qed

theorem docs_rule_and_message_witness:
  "generateCommitMessage (empty_categories\<lparr>docs := [''README.md'', ''CHANGELOG.md'']\<rparr>)
      (analyzeCodeChanges [] []) \<lparr>verbose = True\<rparr>
     = ''Update 2 documentation (README.md, CHANGELOG.md)''
   \<and> docs (categorizeFiles [''docs/CHANGELOG.txt'']) = [''docs/CHANGELOG.txt'']"
proof -
  have h1: "patterns (analyzeCodeChanges [] []) = [] \<and> verbose \<lparr>verbose = True\<rparr>"
    by (simp add: patterns_no_evidence)
  have h2: "code (categorizeFiles [''docs/CHANGELOG.txt'']) = []
        \<and> config (categorizeFiles [''docs/CHANGELOG.txt'']) = []
        \<and> (toLowerCase (extname ''docs/CHANGELOG.txt'') \<in> set [''.md'', ''.txt'', ''.rst'', ''.adoc'']
             \<or> str_includes (toLowerCase (basename ''docs/CHANGELOG.txt'')) ''readme''
             \<or> str_includes (toLowerCase (basename ''docs/CHANGELOG.txt'')) ''doc''
             \<or> str_includes (toLowerCase (basename ''docs/CHANGELOG.txt'')) ''changelog'')"
    by code_simp
  show ?thesis
    using docs_rule_and_message
      [of "analyzeCodeChanges [] []" "\<lparr>verbose = True\<rparr>" "''docs/CHANGELOG.txt''"] h1 h2
    by blast
qed

section \<open>Capitalization\<close>

text \<open>
  The table constants are unfolded only where a lookup or a check is applied to them.
\<close>

lemma lookup_arg: "b = l \<Longrightarrow> lookup x b = lookup x l"
  by simp

lemma entries_fixed_arg: "b = l \<Longrightarrow> entries_fixed b = entries_fixed l"
  by simp

lemma rows_fixed_arg: "b = l \<Longrightarrow> rows_fixed b = rows_fixed l"
  by simp

lemma all_fixed_arg: "b = l \<Longrightarrow> all_fixed b = all_fixed l"
  by simp

lemmas row_lookups =
  upper_row_0060_def [THEN lookup_arg] upper_row_00A0_def [THEN lookup_arg]
  upper_row_00C0_def [THEN lookup_arg] upper_row_00E0_def [THEN lookup_arg]
  upper_row_0100_def [THEN lookup_arg] upper_row_0120_def [THEN lookup_arg]
  upper_row_0140_def [THEN lookup_arg] upper_row_0160_def [THEN lookup_arg]
  upper_row_0180_def [THEN lookup_arg] upper_row_01A0_def [THEN lookup_arg]
  upper_row_01C0_def [THEN lookup_arg] upper_row_01E0_def [THEN lookup_arg]
  upper_row_0200_def [THEN lookup_arg] upper_row_0220_def [THEN lookup_arg]
  upper_row_0240_def [THEN lookup_arg] upper_row_0260_def [THEN lookup_arg]
  upper_row_0280_def [THEN lookup_arg] upper_row_0340_def [THEN lookup_arg]
  upper_row_0360_def [THEN lookup_arg] upper_row_0380_def [THEN lookup_arg]
  upper_row_03A0_def [THEN lookup_arg] upper_row_03C0_def [THEN lookup_arg]
  upper_row_03E0_def [THEN lookup_arg] upper_row_0420_def [THEN lookup_arg]
  upper_row_0440_def [THEN lookup_arg] upper_row_0460_def [THEN lookup_arg]
  upper_row_0480_def [THEN lookup_arg] upper_row_04A0_def [THEN lookup_arg]
  upper_row_04C0_def [THEN lookup_arg] upper_row_04E0_def [THEN lookup_arg]
  upper_row_0500_def [THEN lookup_arg] upper_row_0520_def [THEN lookup_arg]
  upper_row_0560_def [THEN lookup_arg] upper_row_0580_def [THEN lookup_arg]
  upper_row_10C0_def [THEN lookup_arg] upper_row_10E0_def [THEN lookup_arg]
  upper_row_13E0_def [THEN lookup_arg] upper_row_1C80_def [THEN lookup_arg]
  upper_row_1D60_def [THEN lookup_arg] upper_row_1D80_def [THEN lookup_arg]
  upper_row_1E00_def [THEN lookup_arg] upper_row_1E20_def [THEN lookup_arg]
  upper_row_1E40_def [THEN lookup_arg] upper_row_1E60_def [THEN lookup_arg]
  upper_row_1E80_def [THEN lookup_arg] upper_row_1EA0_def [THEN lookup_arg]
  upper_row_1EC0_def [THEN lookup_arg] upper_row_1EE0_def [THEN lookup_arg]
  upper_row_1F00_def [THEN lookup_arg] upper_row_1F20_def [THEN lookup_arg]
  upper_row_1F40_def [THEN lookup_arg] upper_row_1F60_def [THEN lookup_arg]
  upper_row_1F80_def [THEN lookup_arg] upper_row_1FA0_def [THEN lookup_arg]
  upper_row_1FC0_def [THEN lookup_arg] upper_row_1FE0_def [THEN lookup_arg]
  upper_row_2140_def [THEN lookup_arg] upper_row_2160_def [THEN lookup_arg]
  upper_row_2180_def [THEN lookup_arg] upper_row_24C0_def [THEN lookup_arg]
  upper_row_24E0_def [THEN lookup_arg] upper_row_2C20_def [THEN lookup_arg]
  upper_row_2C40_def [THEN lookup_arg] upper_row_2C60_def [THEN lookup_arg]
  upper_row_2C80_def [THEN lookup_arg] upper_row_2CA0_def [THEN lookup_arg]
  upper_row_2CC0_def [THEN lookup_arg] upper_row_2CE0_def [THEN lookup_arg]
  upper_row_2D00_def [THEN lookup_arg] upper_row_2D20_def [THEN lookup_arg]
  upper_row_A640_def [THEN lookup_arg] upper_row_A660_def [THEN lookup_arg]
  upper_row_A680_def [THEN lookup_arg] upper_row_A720_def [THEN lookup_arg]
  upper_row_A740_def [THEN lookup_arg] upper_row_A760_def [THEN lookup_arg]
  upper_row_A780_def [THEN lookup_arg] upper_row_A7A0_def [THEN lookup_arg]
  upper_row_A7C0_def [THEN lookup_arg] upper_row_A7E0_def [THEN lookup_arg]
  upper_row_AB40_def [THEN lookup_arg] upper_row_AB60_def [THEN lookup_arg]
  upper_row_AB80_def [THEN lookup_arg] upper_row_ABA0_def [THEN lookup_arg]
  upper_row_FB00_def [THEN lookup_arg] upper_row_FF40_def [THEN lookup_arg]

lemmas block_lookups =
  upper_block_00_def [THEN lookup_arg] upper_block_01_def [THEN lookup_arg]
  upper_block_02_def [THEN lookup_arg] upper_block_03_def [THEN lookup_arg]
  upper_block_04_def [THEN lookup_arg] upper_block_05_def [THEN lookup_arg]
  upper_block_10_def [THEN lookup_arg] upper_block_13_def [THEN lookup_arg]
  upper_block_1C_def [THEN lookup_arg] upper_block_1D_def [THEN lookup_arg]
  upper_block_1E_def [THEN lookup_arg] upper_block_1F_def [THEN lookup_arg]
  upper_block_21_def [THEN lookup_arg] upper_block_24_def [THEN lookup_arg]
  upper_block_2C_def [THEN lookup_arg] upper_block_2D_def [THEN lookup_arg]
  upper_block_A6_def [THEN lookup_arg] upper_block_A7_def [THEN lookup_arg]
  upper_block_AB_def [THEN lookup_arg] upper_block_FB_def [THEN lookup_arg]
  upper_block_FF_def [THEN lookup_arg]

lemmas row_checks =
  upper_row_0060_def [THEN entries_fixed_arg] upper_row_00A0_def [THEN entries_fixed_arg]
  upper_row_00C0_def [THEN entries_fixed_arg] upper_row_00E0_def [THEN entries_fixed_arg]
  upper_row_0100_def [THEN entries_fixed_arg] upper_row_0120_def [THEN entries_fixed_arg]
  upper_row_0140_def [THEN entries_fixed_arg] upper_row_0160_def [THEN entries_fixed_arg]
  upper_row_0180_def [THEN entries_fixed_arg] upper_row_01A0_def [THEN entries_fixed_arg]
  upper_row_01C0_def [THEN entries_fixed_arg] upper_row_01E0_def [THEN entries_fixed_arg]
  upper_row_0200_def [THEN entries_fixed_arg] upper_row_0220_def [THEN entries_fixed_arg]
  upper_row_0240_def [THEN entries_fixed_arg] upper_row_0260_def [THEN entries_fixed_arg]
  upper_row_0280_def [THEN entries_fixed_arg] upper_row_0340_def [THEN entries_fixed_arg]
  upper_row_0360_def [THEN entries_fixed_arg] upper_row_0380_def [THEN entries_fixed_arg]
  upper_row_03A0_def [THEN entries_fixed_arg] upper_row_03C0_def [THEN entries_fixed_arg]
  upper_row_03E0_def [THEN entries_fixed_arg] upper_row_0420_def [THEN entries_fixed_arg]
  upper_row_0440_def [THEN entries_fixed_arg] upper_row_0460_def [THEN entries_fixed_arg]
  upper_row_0480_def [THEN entries_fixed_arg] upper_row_04A0_def [THEN entries_fixed_arg]
  upper_row_04C0_def [THEN entries_fixed_arg] upper_row_04E0_def [THEN entries_fixed_arg]
  upper_row_0500_def [THEN entries_fixed_arg] upper_row_0520_def [THEN entries_fixed_arg]
  upper_row_0560_def [THEN entries_fixed_arg] upper_row_0580_def [THEN entries_fixed_arg]
  upper_row_10C0_def [THEN entries_fixed_arg] upper_row_10E0_def [THEN entries_fixed_arg]
  upper_row_13E0_def [THEN entries_fixed_arg] upper_row_1C80_def [THEN entries_fixed_arg]
  upper_row_1D60_def [THEN entries_fixed_arg] upper_row_1D80_def [THEN entries_fixed_arg]
  upper_row_1E00_def [THEN entries_fixed_arg] upper_row_1E20_def [THEN entries_fixed_arg]
  upper_row_1E40_def [THEN entries_fixed_arg] upper_row_1E60_def [THEN entries_fixed_arg]
  upper_row_1E80_def [THEN entries_fixed_arg] upper_row_1EA0_def [THEN entries_fixed_arg]
  upper_row_1EC0_def [THEN entries_fixed_arg] upper_row_1EE0_def [THEN entries_fixed_arg]
  upper_row_1F00_def [THEN entries_fixed_arg] upper_row_1F20_def [THEN entries_fixed_arg]
  upper_row_1F40_def [THEN entries_fixed_arg] upper_row_1F60_def [THEN entries_fixed_arg]
  upper_row_1F80_def [THEN entries_fixed_arg] upper_row_1FA0_def [THEN entries_fixed_arg]
  upper_row_1FC0_def [THEN entries_fixed_arg] upper_row_1FE0_def [THEN entries_fixed_arg]
  upper_row_2140_def [THEN entries_fixed_arg] upper_row_2160_def [THEN entries_fixed_arg]
  upper_row_2180_def [THEN entries_fixed_arg] upper_row_24C0_def [THEN entries_fixed_arg]
  upper_row_24E0_def [THEN entries_fixed_arg] upper_row_2C20_def [THEN entries_fixed_arg]
  upper_row_2C40_def [THEN entries_fixed_arg] upper_row_2C60_def [THEN entries_fixed_arg]
  upper_row_2C80_def [THEN entries_fixed_arg] upper_row_2CA0_def [THEN entries_fixed_arg]
  upper_row_2CC0_def [THEN entries_fixed_arg] upper_row_2CE0_def [THEN entries_fixed_arg]
  upper_row_2D00_def [THEN entries_fixed_arg] upper_row_2D20_def [THEN entries_fixed_arg]
  upper_row_A640_def [THEN entries_fixed_arg] upper_row_A660_def [THEN entries_fixed_arg]
  upper_row_A680_def [THEN entries_fixed_arg] upper_row_A720_def [THEN entries_fixed_arg]
  upper_row_A740_def [THEN entries_fixed_arg] upper_row_A760_def [THEN entries_fixed_arg]
  upper_row_A780_def [THEN entries_fixed_arg] upper_row_A7A0_def [THEN entries_fixed_arg]
  upper_row_A7C0_def [THEN entries_fixed_arg] upper_row_A7E0_def [THEN entries_fixed_arg]
  upper_row_AB40_def [THEN entries_fixed_arg] upper_row_AB60_def [THEN entries_fixed_arg]
  upper_row_AB80_def [THEN entries_fixed_arg] upper_row_ABA0_def [THEN entries_fixed_arg]
  upper_row_FB00_def [THEN entries_fixed_arg] upper_row_FF40_def [THEN entries_fixed_arg]

lemmas block_checks =
  upper_block_00_def [THEN rows_fixed_arg] upper_block_01_def [THEN rows_fixed_arg]
  upper_block_02_def [THEN rows_fixed_arg] upper_block_03_def [THEN rows_fixed_arg]
  upper_block_04_def [THEN rows_fixed_arg] upper_block_05_def [THEN rows_fixed_arg]
  upper_block_10_def [THEN rows_fixed_arg] upper_block_13_def [THEN rows_fixed_arg]
  upper_block_1C_def [THEN rows_fixed_arg] upper_block_1D_def [THEN rows_fixed_arg]
  upper_block_1E_def [THEN rows_fixed_arg] upper_block_1F_def [THEN rows_fixed_arg]
  upper_block_21_def [THEN rows_fixed_arg] upper_block_24_def [THEN rows_fixed_arg]
  upper_block_2C_def [THEN rows_fixed_arg] upper_block_2D_def [THEN rows_fixed_arg]
  upper_block_A6_def [THEN rows_fixed_arg] upper_block_A7_def [THEN rows_fixed_arg]
  upper_block_AB_def [THEN rows_fixed_arg] upper_block_FB_def [THEN rows_fixed_arg]
  upper_block_FF_def [THEN rows_fixed_arg]

lemmas chunk_checks =
  uppercase_00_def [THEN all_fixed_arg] uppercase_01_def [THEN all_fixed_arg]
  uppercase_02_def [THEN all_fixed_arg] uppercase_03_def [THEN all_fixed_arg]
  uppercase_04_def [THEN all_fixed_arg] uppercase_05_def [THEN all_fixed_arg]
  uppercase_10_def [THEN all_fixed_arg] uppercase_13_def [THEN all_fixed_arg]
  uppercase_1C_def [THEN all_fixed_arg] uppercase_1E_def [THEN all_fixed_arg]
  uppercase_1F_def [THEN all_fixed_arg] uppercase_21_def [THEN all_fixed_arg]
  uppercase_24_def [THEN all_fixed_arg] uppercase_2C_def [THEN all_fixed_arg]
  uppercase_A6_def [THEN all_fixed_arg] uppercase_A7_def [THEN all_fixed_arg]
  uppercase_FF_def [THEN all_fixed_arg]

lemmas upper_eval =
  toUpperCase_unit_def upper_blocks_def [THEN lookup_arg] block_lookups row_lookups

lemma upper_blocks_fixed: "blocks_fixed upper_blocks"
  unfolding upper_blocks_def by (simp add: upper_eval block_checks row_checks)

lemma uppercase_units_fixed: "chunks_fixed uppercase_units"
  unfolding uppercase_units_def by (simp add: upper_eval chunk_checks)

lemma lookup_SomeD: "lookup x ps = Some v \<Longrightarrow> (x, v) \<in> set ps"
  by (induction ps) (auto split: if_splits)

lemma entries_fixedD: "entries_fixed es \<Longrightarrow> (c, u) \<in> set es \<Longrightarrow> fixed u"
  by (induction es) (auto split: if_splits)

lemma rows_fixedD: "rows_fixed rs \<Longrightarrow> (i, row) \<in> set rs \<Longrightarrow> entries_fixed row"
  by (induction rs) (auto split: if_splits)

lemma blocks_fixedD: "blocks_fixed bs \<Longrightarrow> (j, b) \<in> set bs \<Longrightarrow> rows_fixed b"
  by (induction bs) (auto split: if_splits)

lemma all_fixedD: "all_fixed cs \<Longrightarrow> c \<in> set cs \<Longrightarrow> toUpperCase_unit c = [c]"
  by (induction cs) (auto split: if_splits)

lemma chunks_fixedD: "chunks_fixed cs \<Longrightarrow> c \<in> set cs \<Longrightarrow> all_fixed c"
  by (induction cs) (auto split: if_splits)

lemma fixedD: "fixed u \<Longrightarrow> \<exists>f fs. u = f # fs \<and> toUpperCase_unit f = [f]"
  by (cases u) simp_all

text \<open>The upper-case form of a code unit is not empty, and its first unit is its own
  upper-case form.\<close>

lemma toUpperCase_unit_first:
  "\<exists>f fs. toUpperCase_unit c = f # fs \<and> toUpperCase_unit f = [f]"
proof (cases "lookup (c div 256) upper_blocks")
  case None
  then have "toUpperCase_unit c = [c]" by (simp add: toUpperCase_unit_def)
  then show ?thesis by simp
next
  case (Some block)
  note b = this
  show ?thesis
  proof (cases "lookup (c div 32) block")
    case None
    with b have "toUpperCase_unit c = [c]" by (simp add: toUpperCase_unit_def)
    then show ?thesis by simp
  next
    case (Some row)
    note r = this
    show ?thesis
    proof (cases "lookup c row")
      case None
      with b r have "toUpperCase_unit c = [c]" by (simp add: toUpperCase_unit_def)
      then show ?thesis by simp
    next
      case (Some u)
      with b r have u: "toUpperCase_unit c = u" by (simp add: toUpperCase_unit_def)
      have "rows_fixed block"
        using upper_blocks_fixed lookup_SomeD [OF b] by (rule blocks_fixedD)
      then have "entries_fixed row"
        using lookup_SomeD [OF r] by (rule rows_fixedD)
      then have "fixed u"
        using lookup_SomeD [OF Some] by (rule entries_fixedD)
      then show ?thesis unfolding u by (rule fixedD)
    qed
  qed
qed

lemma isUpperCase_fixed: "isUpperCase c \<Longrightarrow> toUpperCase_unit c = [c]"
proof -
  assume "isUpperCase c"
  then obtain chunk where "chunk \<in> set uppercase_units" "c \<in> set chunk"
    by (auto simp: isUpperCase_def)
  then show ?thesis
    using uppercase_units_fixed by (blast dest: chunks_fixedD all_fixedD)
qed

text \<open>
  A surrogate is its own upper-case form: the table has no block for it. This is the
  first code unit of every character outside the Basic Multilingual Plane.
\<close>

lemma surrogate_block:
  assumes "0xD800 \<le> c" "c \<le> (0xDFFF :: nat)"
  shows "lookup (c div 256) upper_blocks = None"
proof -
  have "216 \<le> c div 256" "c div 256 \<le> 223" using assms by simp_all
  then have "c div 256 \<in> {216, 217, 218, 219, 220, 221, 222, 223}" by auto
  moreover have
    "\<forall>k \<in> {216, 217, 218, 219, 220, 221, 222, 223 :: nat}. lookup k upper_blocks = None"
    by (simp add: upper_blocks_def)
  ultimately show ?thesis by blast
qed

lemma surrogate_fixed:
  "0xD800 \<le> c \<Longrightarrow> c \<le> 0xDFFF \<Longrightarrow> toUpperCase_unit c = [c]"
  by (simp add: toUpperCase_unit_def surrogate_block)

text \<open>
  Claim C8. The capitalization of the first character turns \<open>update file\<close> into
  \<open>Update file\<close>; it leaves a string unchanged whose first character is upper-case, be
  it a code unit with the property \<open>Uppercase\<close> or a character outside the Basic
  Multilingual Plane, whose first code unit is a surrogate; and it is idempotent:
  applying it twice is applying it once, for every string of code units.
\<close>

theorem capitalize_idempotent:
  "capitalize (units ''update file'') = units ''Update file''
   \<and> (isUpperCase c \<longrightarrow> capitalize (c # cs) = c # cs)
   \<and> (0xD800 \<le> h \<and> h \<le> 0xDFFF \<longrightarrow> capitalize (h # hs) = h # hs)
   \<and> capitalize (capitalize s) = capitalize s"
proof (intro conjI impI)
  show "capitalize (units ''update file'') = units ''Update file''"
    by (simp add: capitalize_def units_def upper_eval)
  show "capitalize (c # cs) = c # cs" if "isUpperCase c"
    using isUpperCase_fixed [OF that] by (simp add: capitalize_def)
  show "capitalize (h # hs) = h # hs" if "0xD800 \<le> h \<and> h \<le> 0xDFFF"
    using surrogate_fixed [of h] that by (simp add: capitalize_def)
  show "capitalize (capitalize s) = capitalize s"
  proof (cases s)
    case Nil
    then show ?thesis by (simp add: capitalize_def)
  next
    case (Cons c cs)
    obtain f fs where "toUpperCase_unit c = f # fs" "toUpperCase_unit f = [f]"
      using toUpperCase_unit_first by blast
    with Cons show ?thesis by (simp add: capitalize_def)
  qed
qed

text \<open>
  The theorem at \<open>Update file\<close>, at the Deseret capital letter \<open>U+10400\<close> (the code units
  \<open>D801 DC00\<close>) and at \<open>update file\<close>; and the capitalization of \<open>U+00E9 l a n\<close> and of
  \<open>U+00DF\<close>, whose upper-case form is \<open>SS\<close>.
\<close>

theorem capitalize_idempotent_witness:
  "isUpperCase 0x55
   \<and> capitalize (units ''Update file'') = units ''Update file''
   \<and> capitalize [0xD801, 0xDC00] = [0xD801, 0xDC00]
   \<and> capitalize (capitalize (units ''update file'')) = capitalize (units ''update file'')
   \<and> capitalize [0xE9, 0x6C, 0x61, 0x6E] = [0xC9, 0x6C, 0x61, 0x6E]
   \<and> capitalize [0xDF] = [0x53, 0x53]
   \<and> capitalize (capitalize [0xDF]) = capitalize [0xDF]"
proof -
  have u: "isUpperCase 0x55"
    by (simp add: isUpperCase_def uppercase_units_def uppercase_00_def)
  have e: "units ''Update file'' = 0x55 # units ''pdate file''"
    by (simp add: units_def)
  have r: "(0xD800 :: nat) \<le> 0xD801 \<and> (0xD801 :: nat) \<le> 0xDFFF"
    by simp
  have 1: "capitalize (units ''Update file'') = units ''Update file''"
    using u capitalize_idempotent [of "0x55" "units ''pdate file''"] unfolding e by blast
  have 2: "capitalize [0xD801, 0xDC00] = [0xD801, 0xDC00]"
    using r capitalize_idempotent [of _ _ "0xD801" "[0xDC00]"] by blast
  have 3: "capitalize (capitalize (units ''update file'')) = capitalize (units ''update file'')"
    using capitalize_idempotent [of _ _ _ _ "units ''update file''"] by blast
  have 4: "capitalize (capitalize [0xDF]) = capitalize [0xDF]"
    using capitalize_idempotent [of _ _ _ _ "[0xDF]"] by blast
  have 5: "capitalize [0xE9, 0x6C, 0x61, 0x6E] = [0xC9, 0x6C, 0x61, 0x6E]
           \<and> capitalize [0xDF] = [0x53, 0x53]"
    by (simp add: capitalize_def upper_eval)
  show ?thesis using u 1 2 3 4 5 by blast
qed

section \<open>The pattern catalogue\<close>

lemma patterns_add_function: "patterns (fold add_function ms a) = patterns a"
  by (induction ms arbitrary: a) (simp_all add: add_function_def split: option.splits)

lemma patterns_add_import: "patterns (fold add_import ms a) = patterns a"
  by (induction ms arbitrary: a) (simp_all add: add_import_def)

lemma patterns_analyze_file: "patterns (analyze_file diff f a) = patterns a"
  by (simp add: analyze_file_def Let_def patterns_add_function patterns_add_import
        split: option.splits del: list.set)

lemma patterns_fold_analyze_file: "patterns (fold (analyze_file diff) files a) = patterns a"
  by (induction files arbitrary: a) (simp_all add: patterns_analyze_file)

text \<open>The pattern matches depend on the diff alone.\<close>

lemma patterns_analyzeCodeChanges:
  "patterns (analyzeCodeChanges files diff) = fold (detect_step diff) catalogue []"
  by (simp add: analyzeCodeChanges_def Let_def patterns_fold_analyze_file empty_analysis_def)

text \<open>
  Claim C10. The text \<open>with\<close> has no added line (it has no \<open>+\<close> at all) and nothing
  to do with tests, yet \<open>analyzeCodeChanges\<close> reports the tests pattern with the action
  \<open>Add test cases\<close> for it, whatever the staged files are: \<open>with\<close> contains \<open>it\<close>, and the
  \<open>+\<close> of the test signature belongs to its first alternative only. The same word under
  the added-line anchor, \<open>\+.*it\<close>, does not match.
\<close>

theorem tests_pattern_without_added_lines:
  "CHR ''+'' \<notin> set ''with''
   \<and> patterns (analyzeCodeChanges files ''with'')
       = [\<lparr>type = ''tests'', action = ''Add test cases''\<rparr>]
   \<and> \<not> js_test (added ''it'') ''with''"
proof -
  have "fold (detect_step ''with'') catalogue []
          = [\<lparr>type = ''tests'', action = ''Add test cases''\<rparr>]"
    by code_simp
  moreover have "\<not> js_test (added ''it'') ''with''" by code_simp
  ultimately show ?thesis by (simp add: patterns_analyzeCodeChanges)
qed

section \<open>Evidence collections\<close>

lemma add_function_distinct:
  "distinct (functions a) \<Longrightarrow> distinct (functions (add_function m a))"
  by (simp add: add_function_def split: option.splits)

lemma fold_add_function_distinct:
  "distinct (functions a) \<Longrightarrow> distinct (functions (fold add_function ms a))"
  by (induction ms arbitrary: a) (simp_all add: add_function_distinct)

lemma functions_add_import: "functions (fold add_import ms a) = functions a"
  by (induction ms arbitrary: a) (simp_all add: add_import_def)

lemma analyze_file_distinct:
  "distinct (functions a) \<Longrightarrow> distinct (functions (analyze_file diff f a))"
  by (simp add: analyze_file_def Let_def fold_add_function_distinct functions_add_import
        split: option.splits del: list.set)

lemma fold_analyze_file_distinct:
  "distinct (functions a) \<Longrightarrow> distinct (functions (fold (analyze_file diff) files a))"
  by (induction files arbitrary: a) (simp_all add: analyze_file_distinct)

text \<open>The function names are pushed under a membership test, so they never repeat.\<close>

lemma functions_distinct: "distinct (functions (analyzeCodeChanges files diff))"
  by (simp add: analyzeCodeChanges_def Let_def fold_analyze_file_distinct empty_analysis_def)

text \<open>
  Claim C3 (no evidence collection holds a duplicate) does not hold of the code: the
  imports, tests, configuration fragments and types are pushed without the membership
  test of the function names. With two staged TypeScript files the diff is scanned once
  per file, and the one added declaration is recorded twice.
\<close>

theorem duplicate_type_evidence:
  "types (analyzeCodeChanges [''src/a.ts'', ''src/b.ts''] ''+interface Foo {'')
     = [''interface Foo'', ''interface Foo'']"
  by code_simp

section \<open>The order of the pattern matches\<close>

lemma detect_step_cases:
  "detect_step diff sg ps =
     (if js_test (pattern sg) diff \<and> type sg \<notin> type ` set ps then ps @ [entry sg] else ps)"
proof -
  have "(find (\<lambda>p. type p = type sg) ps = None) = (type sg \<notin> type ` set ps)"
    unfolding find_None_iff image_iff by metis
  then show ?thesis by (simp add: detect_step_def entry_def)
qed

lemma detect_fold_append:
  "\<exists>ys. fold (detect_step diff) sgs acc = acc @ ys \<and> subseq ys (map entry sgs)"
proof (induction sgs arbitrary: acc)
  case Nil
  then show ?case by simp
next
  case (Cons sg sgs)
  obtain ys where ys: "fold (detect_step diff) sgs (detect_step diff sg acc)
        = detect_step diff sg acc @ ys" "subseq ys (map entry sgs)"
    using Cons.IH by blast
  show ?case
  proof (cases "js_test (pattern sg) diff \<and> type sg \<notin> type ` set acc")
    case True
    then have "fold (detect_step diff) (sg # sgs) acc = acc @ (entry sg # ys)"
      using ys(1) by (simp add: detect_step_cases)
    moreover have "subseq (entry sg # ys) (map entry (sg # sgs))"
      using ys(2) by simp
    ultimately show ?thesis by blast
  next
    case False
    then have "fold (detect_step diff) (sg # sgs) acc = acc @ ys"
      using ys(1) by (simp add: detect_step_cases)
    moreover have "subseq ys (map entry (sg # sgs))"
      using ys(2) by auto
    ultimately show ?thesis by blast
  qed
qed

lemma detect_fold_distinct:
  "distinct (map type acc) \<Longrightarrow> distinct (map type (fold (detect_step diff) sgs acc))"
  by (induction sgs arbitrary: acc) (auto simp: detect_step_cases entry_def)

lemma detect_fold_first:
  assumes "p \<in> set (fold (detect_step diff) sgs acc)"
  shows "p \<in> set acc \<or>
         (type p \<notin> type ` set acc \<and>
          (\<exists>sg. find (\<lambda>sg. type sg = type p \<and> js_test (pattern sg) diff) sgs = Some sg
                \<and> action p = action sg))"
  using assms
proof (induction sgs arbitrary: acc)
  case Nil
  then show ?case by simp
next
  case (Cons sg sgs)
  let ?acc = "detect_step diff sg acc"
  have sub: "set acc \<subseteq> set ?acc" by (auto simp: detect_step_cases)
  from Cons.prems have "p \<in> set (fold (detect_step diff) sgs ?acc)" by simp
  from Cons.IH [OF this] consider (old) "p \<in> set ?acc"
    | (new) "type p \<notin> type ` set ?acc"
        "\<exists>sg. find (\<lambda>sg. type sg = type p \<and> js_test (pattern sg) diff) sgs = Some sg
                \<and> action p = action sg"
    by blast
  then show ?case
  proof cases
    case old
    show ?thesis
    proof (cases "p \<in> set acc")
      case True
      then show ?thesis by simp
    next
      case False
      with old have "js_test (pattern sg) diff" "type sg \<notin> type ` set acc" "p = entry sg"
        by (auto simp: detect_step_cases split: if_splits)
      then show ?thesis by (simp add: entry_def)
    qed
  next
    case new
    have "\<not> (type sg = type p \<and> js_test (pattern sg) diff)"
    proof
      assume a: "type sg = type p \<and> js_test (pattern sg) diff"
      then have "type sg \<in> type ` set ?acc"
        by (auto simp: detect_step_cases entry_def)
      with a new(1) show False by simp
    qed
    moreover have "type p \<notin> type ` set acc" using new(1) sub by blast
    ultimately show ?thesis using new(2) by auto
  qed
qed

lemma detect_fold_head:
  "js_test (pattern sg) diff \<Longrightarrow> take 1 (fold (detect_step diff) (sg # sgs) []) = [entry sg]"
proof -
  assume "js_test (pattern sg) diff"
  then have "fold (detect_step diff) (sg # sgs) [] = fold (detect_step diff) sgs [entry sg]"
    by (simp add: detect_step_cases)
  moreover obtain ys where "fold (detect_step diff) sgs [entry sg] = [entry sg] @ ys"
    using detect_fold_append by blast
  ultimately show ?thesis by simp
qed

lemma catalogue_head:
  "\<exists>rest. catalogue = (catalogue ! 0) # rest
     \<and> entry (catalogue ! 0) = \<lparr>type = ''debugging'', action = ''Add debug logging''\<rparr>"
  by (simp add: catalogue_def entry_def)

text \<open>
  Claim C4. For every diff text (and every list of staged files) the pattern matches that
  \<open>analyzeCodeChanges\<close> returns hold at most one entry per kind; the entry of a kind
  carries the action of the first signature of the catalogue that has this kind and tests
  positive on the diff; and the entries stand in the order of the catalogue, whatever the
  order of the matched texts in the diff is. The first two signatures of the catalogue are
  \<open>debug logging added\<close> and \<open>TODO marker added\<close>: when both test positive, the first
  (primary) pattern is the debug-logging one.
\<close>

theorem patterns_first_of_each_kind:
  "(let ps = patterns (analyzeCodeChanges files diff) in
      distinct (map type ps)
      \<and> (\<forall>p \<in> set ps. \<exists>sg.
            find (\<lambda>sg. type sg = type p \<and> js_test (pattern sg) diff) catalogue = Some sg
            \<and> action p = action sg)
      \<and> subseq ps (map (\<lambda>sg. \<lparr>type = type sg, action = action sg\<rparr>) catalogue)
      \<and> action (catalogue ! 0) = ''Add debug logging''
      \<and> action (catalogue ! 1) = ''Add TODO comments''
      \<and> (js_test (pattern (catalogue ! 0)) diff \<and> js_test (pattern (catalogue ! 1)) diff
           \<longrightarrow> take 1 ps = [\<lparr>type = ''debugging'', action = ''Add debug logging''\<rparr>]))"
proof -
  let ?ps = "fold (detect_step diff) catalogue []"
  have 1: "distinct (map type ?ps)"
    by (rule detect_fold_distinct) simp
  have 2: "\<forall>p \<in> set ?ps. \<exists>sg.
            find (\<lambda>sg. type sg = type p \<and> js_test (pattern sg) diff) catalogue = Some sg
            \<and> action p = action sg"
    using detect_fold_first [of _ diff catalogue "[]"] by auto
  have 3: "subseq ?ps (map (\<lambda>sg. \<lparr>type = type sg, action = action sg\<rparr>) catalogue)"
    using detect_fold_append [of diff catalogue "[]"] by (auto simp: entry_def [abs_def])
  have 4: "action (catalogue ! 0) = ''Add debug logging''"
    and 5: "action (catalogue ! 1) = ''Add TODO comments''"
    by (simp_all add: catalogue_def)
  have 6: "take 1 ?ps = [\<lparr>type = ''debugging'', action = ''Add debug logging''\<rparr>]"
    if "js_test (pattern (catalogue ! 0)) diff"
  proof -
    obtain rest where r: "catalogue = (catalogue ! 0) # rest"
      and e: "entry (catalogue ! 0) = \<lparr>type = ''debugging'', action = ''Add debug logging''\<rparr>"
      using catalogue_head by blast
    have "take 1 (fold (detect_step diff) ((catalogue ! 0) # rest) []) = [entry (catalogue ! 0)]"
      using that by (rule detect_fold_head)
    then show ?thesis using r e by simp
  qed
  show ?thesis
    unfolding Let_def patterns_analyzeCodeChanges
    using 1 2 3 4 5 6 by blast
qed

theorem patterns_first_of_each_kind_witness:
  "js_test (pattern (catalogue ! 0)) (''+ // TODO: tidy up'' @ [CHR 0x0A] @ ''+ console.log(x)'')
   \<and> js_test (pattern (catalogue ! 1)) (''+ // TODO: tidy up'' @ [CHR 0x0A] @ ''+ console.log(x)'')
   \<and> patterns (analyzeCodeChanges [''src/app.js'']
         (''+ // TODO: tidy up'' @ [CHR 0x0A] @ ''+ console.log(x)''))
       = [\<lparr>type = ''debugging'', action = ''Add debug logging''\<rparr>,
          \<lparr>type = ''todos'', action = ''Add TODO comments''\<rparr>]
   \<and> take 1 (patterns (analyzeCodeChanges [''src/app.js'']
         (''+ // TODO: tidy up'' @ [CHR 0x0A] @ ''+ console.log(x)'')))
       = [\<lparr>type = ''debugging'', action = ''Add debug logging''\<rparr>]"
proof -
  let ?d = "''+ // TODO: tidy up'' @ [CHR 0x0A] @ ''+ console.log(x)''"
  have h: "js_test (pattern (catalogue ! 0)) ?d \<and> js_test (pattern (catalogue ! 1)) ?d"
    by code_simp
  have v: "fold (detect_step ?d) catalogue []
       = [\<lparr>type = ''debugging'', action = ''Add debug logging''\<rparr>,
          \<lparr>type = ''todos'', action = ''Add TODO comments''\<rparr>]"
    by code_simp
  have t: "take 1 (patterns (analyzeCodeChanges [''src/app.js''] ?d))
       = [\<lparr>type = ''debugging'', action = ''Add debug logging''\<rparr>]"
    using patterns_first_of_each_kind [of "[''src/app.js'']" ?d] h
    unfolding Let_def by blast
  have p: "patterns (analyzeCodeChanges [''src/app.js''] ?d)
       = [\<lparr>type = ''debugging'', action = ''Add debug logging''\<rparr>,
          \<lparr>type = ''todos'', action = ''Add TODO comments''\<rparr>]"
    using v by (simp only: patterns_analyzeCodeChanges)
  show ?thesis
    using h p t by blast
qed

section \<open>Sanitizing: quotes, trailing period and the length check\<close>

lemma quotes_run:
  "rx_run surrounding_quotes (b, c # t, g) =
     (if is_quote c then (if b then [(False, t, g)] else []) @ (if t = [] then [(False, t, g)] else [])
      else [])"
  by (simp add: surrounding_quotes_def one_of_def is_quote_def)

lemma quotes_run_Nil: "rx_run surrounding_quotes (b, [], g) = []"
  by (simp add: surrounding_quotes_def)

lemma quotes_scan_Nil: "rx_scan surrounding_quotes b [] = []"
  by (subst rx_scan.simps) (simp add: quotes_run_Nil)

lemma quotes_scan_inner:
  "is_quote q \<Longrightarrow> subst [] (rx_scan surrounding_quotes False (body @ [q])) = body"
proof (induction body)
  case Nil
  then show ?case
    by (subst rx_scan.simps) (simp add: quotes_run quotes_scan_Nil)
next
  case (Cons c cs)
  have "rx_scan surrounding_quotes False ((c # cs) @ [q])
          = Txt c # rx_scan surrounding_quotes False (cs @ [q])"
    by (subst rx_scan.simps) (simp add: quotes_run)
  then show ?case using Cons by simp
qed

lemma strip_quotes_pair:
  assumes "is_quote q1" and "is_quote q2"
  shows "strip_quotes (q1 # body @ [q2]) = body"
proof -
  have "rx_scan surrounding_quotes True (q1 # body @ [q2])
          = Hit [q1] # rx_scan surrounding_quotes False (body @ [q2])"
    using assms(1) by (subst rx_scan.simps) (simp add: quotes_run)
  then show ?thesis
    using assms(2) by (simp add: strip_quotes_def js_replace_g_def quotes_scan_inner)
qed

lemma quotes_scan_none:
  "s \<noteq> [] \<Longrightarrow> \<not> is_quote (last s) \<Longrightarrow> (b \<longrightarrow> \<not> is_quote (hd s)) \<Longrightarrow>
   subst [] (rx_scan surrounding_quotes b s) = s"
proof (induction s arbitrary: b)
  case Nil
  then show ?case by simp
next
  case (Cons c cs)
  show ?case
  proof (cases "cs = []")
    case True
    with Cons.prems show ?thesis
      by (subst rx_scan.simps) (simp add: quotes_run quotes_scan_Nil)
  next
    case False
    with Cons.prems have "rx_scan surrounding_quotes b (c # cs)
          = Txt c # rx_scan surrounding_quotes False cs"
      by (subst rx_scan.simps) (simp add: quotes_run)
    moreover have "subst [] (rx_scan surrounding_quotes False cs) = cs"
      using Cons.IH [of False] Cons.prems False by simp
    ultimately show ?thesis by simp
  qed
qed

lemma period_run:
  "rx_run trailing_period (b, c # t, g) = (if c = CHR ''.'' \<and> t = [] then [(False, [], g)] else [])"
  by (auto simp: trailing_period_def chr_def)

lemma period_run_Nil: "rx_run trailing_period (b, [], g) = []"
  by (simp add: trailing_period_def chr_def)

lemma period_search:
  "rx_search trailing_period b pre (body @ ''.'')
     = Some \<lparr>m_pre = pre @ body, m_text = ''.'', m_post = [], m_groups = []\<rparr>"
  by (induction body arbitrary: b pre) (simp_all add: period_run)

lemma period_search_none:
  "(s \<noteq> [] \<longrightarrow> last s \<noteq> CHR ''.'') \<Longrightarrow> rx_search trailing_period b pre s = None"
proof (induction s arbitrary: b pre)
  case Nil
  then show ?case by (simp add: period_run_Nil)
next
  case (Cons c cs)
  show ?case
  proof (cases "cs = []")
    case True
    with Cons.prems show ?thesis by (simp add: period_run period_run_Nil)
  next
    case False
    with Cons.prems have "rx_search trailing_period False (pre @ [c]) cs = None"
      by (intro Cons.IH) simp
    with False show ?thesis by (simp add: period_run)
  qed
qed

lemma strip_period_last: "strip_period (body @ ''.'') = body"
  by (simp add: strip_period_def js_replace_def js_match_def period_search)

lemma strip_period_none: "(s \<noteq> [] \<longrightarrow> last s \<noteq> CHR ''.'') \<Longrightarrow> strip_period s = s"
  by (simp add: strip_period_def js_replace_def js_match_def period_search_none)

lemma cleaned_Nil: "cleanedMessage_ollama [] = [] \<and> cleanedMessage_llama [] = []"
  by code_simp

text \<open>
  Claim C7. For every response string: the sanitizer removes exactly one pair of
  surrounding quote characters (what is between the two is kept as it is, further
  quotes included) and exactly one trailing period; a text without a quote at either end,
  or without a period at its end, is left as it is by the respective step; and the
  handler returns the cleaned text if and only if its length is greater than 0 and less
  than 100, and \<open>null\<close> otherwise. This holds for the handlers of both scripts.
\<close>

theorem sanitize_response:
  "(is_quote q1 \<and> is_quote q2 \<longrightarrow> strip_quotes (q1 # body @ [q2]) = body)
   \<and> (s \<noteq> [] \<and> \<not> is_quote (hd s) \<and> \<not> is_quote (last s) \<longrightarrow> strip_quotes s = s)
   \<and> strip_period (body @ ''.'') = body
   \<and> (s \<noteq> [] \<and> last s \<noteq> CHR ''.'' \<longrightarrow> strip_period s = s)
   \<and> (ollama_response r = Some m
        \<longleftrightarrow> m = cleanedMessage_ollama r \<and> 0 < length m \<and> length m < 100)
   \<and> (ollama_response r = None
        \<longleftrightarrow> \<not> (0 < length (cleanedMessage_ollama r) \<and> length (cleanedMessage_ollama r) < 100))
   \<and> (llama_response r = Some m
        \<longleftrightarrow> m = cleanedMessage_llama r \<and> 0 < length m \<and> length m < 100)
   \<and> (llama_response r = None
        \<longleftrightarrow> \<not> (0 < length (cleanedMessage_llama r) \<and> length (cleanedMessage_llama r) < 100))"
proof (intro conjI impI)
  show "strip_quotes (q1 # body @ [q2]) = body" if "is_quote q1 \<and> is_quote q2"
    using that by (simp add: strip_quotes_pair)
  show "strip_quotes s = s" if "s \<noteq> [] \<and> \<not> is_quote (hd s) \<and> \<not> is_quote (last s)"
    using that by (simp add: strip_quotes_def js_replace_g_def quotes_scan_none)
  show "strip_period (body @ ''.'') = body"
    by (rule strip_period_last)
  show "strip_period s = s" if "s \<noteq> [] \<and> last s \<noteq> CHR ''.''"
    using that by (simp add: strip_period_none)
  show "ollama_response r = Some m
        \<longleftrightarrow> m = cleanedMessage_ollama r \<and> 0 < length m \<and> length m < 100"
    using cleaned_Nil by (cases "r = []") (auto simp: ollama_response_def Let_def)
  show "ollama_response r = None
        \<longleftrightarrow> \<not> (0 < length (cleanedMessage_ollama r) \<and> length (cleanedMessage_ollama r) < 100)"
    using cleaned_Nil by (cases "r = []") (auto simp: ollama_response_def Let_def)
  show "llama_response r = Some m
        \<longleftrightarrow> m = cleanedMessage_llama r \<and> 0 < length m \<and> length m < 100"
    using cleaned_Nil by (cases "r = []") (auto simp: llama_response_def Let_def)
  show "llama_response r = None
        \<longleftrightarrow> \<not> (0 < length (cleanedMessage_llama r) \<and> length (cleanedMessage_llama r) < 100)"
    using cleaned_Nil by (cases "r = []") (auto simp: llama_response_def Let_def)
qed


theorem sanitize_response_witness:
  "is_quote CHR 0x22
   \<and> strip_quotes ([CHR 0x22] @ ''Fix login bug.'' @ [CHR 0x22]) = ''Fix login bug.''
   \<and> strip_period (''Fix login bug'' @ ''.'') = ''Fix login bug''
   \<and> strip_quotes ''Fix login bug.'' = ''Fix login bug.''
   \<and> strip_period ''Fix login bug'' = ''Fix login bug''
   \<and> ollama_response ([CHR 0x22] @ ''Fix login bug.'' @ [CHR 0x22]) = Some ''Fix login bug''
   \<and> llama_response ([CHR 0x22] @ ''Fix login bug.'' @ [CHR 0x22]) = Some ''Fix login bug''"
proof -
  let ?r = "[CHR 0x22] @ ''Fix login bug.'' @ [CHR 0x22]"
  have q: "is_quote CHR 0x22 \<and> is_quote CHR 0x22" by (simp add: is_quote_def)
  have n: "''Fix login bug.'' \<noteq> [] \<and> \<not> is_quote (hd ''Fix login bug.'')
           \<and> \<not> is_quote (last ''Fix login bug.'')"
    by (simp add: is_quote_def)
  have p: "''Fix login bug'' \<noteq> [] \<and> last ''Fix login bug'' \<noteq> CHR ''.''" by simp
  have c: "cleanedMessage_ollama ?r = ''Fix login bug'' \<and> cleanedMessage_llama ?r = ''Fix login bug''"
    by code_simp
  note t1 = sanitize_response
    [of "CHR 0x22" "CHR 0x22" "''Fix login bug.''" "''Fix login bug.''" ?r "''Fix login bug''"]
  note t2 = sanitize_response
    [of "CHR 0x22" "CHR 0x22" "''Fix login bug''" "''Fix login bug''" ?r "''Fix login bug''"]
  have 1: "strip_quotes ([CHR 0x22] @ ''Fix login bug.'' @ [CHR 0x22]) = ''Fix login bug.''"
    using t1 q by simp
  have 2: "strip_period (''Fix login bug'' @ ''.'') = ''Fix login bug''"
    using t2 by blast
  have 3: "strip_quotes ''Fix login bug.'' = ''Fix login bug.''"
    using t1 n by blast
  have 4: "strip_period ''Fix login bug'' = ''Fix login bug''"
    using t2 p by blast
  have 5: "ollama_response ?r = Some ''Fix login bug''"
    using t1 c by simp
  have 6: "llama_response ?r = Some ''Fix login bug''"
    using t1 c by simp
  show ?thesis using q 1 2 3 4 5 6 by blast
qed

section \<open>The shortstat expression never matches a shortstat summary\<close>

lemma star_run_sound:
  "(b', s') \<in> set (star_run P (b, s)) \<Longrightarrow> \<exists>w. s = w @ s' \<and> (\<forall>c \<in> set w. P c)"
proof (induction s arbitrary: b)
  case Nil
  then show ?case by simp
next
  case (Cons c cs)
  show ?case
  proof (cases "(b', s') = (b, c # cs)")
    case True
    then show ?thesis by simp
  next
    case False
    with Cons.prems have "P c" and "(b', s') \<in> set (star_run P (False, cs))"
      by (auto split: if_splits)
    from Cons.IH [OF this(2)] obtain w where "cs = w @ s'" "\<forall>c \<in> set w. P c" by blast
    with \<open>P c\<close> have "c # cs = (c # w) @ s' \<and> (\<forall>x \<in> set (c # w). P x)" by simp
    then show ?thesis by blast
  qed
qed

lemma rx_run_sound:
  "(b', s', g') \<in> set (rx_run r (b, s, g)) \<Longrightarrow> \<exists>w \<in> rx_lang r. s = w @ s'"
proof (induction r arbitrary: b s g b' s' g')
  case Eps
  then show ?case by simp
next
  case (Chr P)
  then show ?case by (auto split: list.splits if_splits)
next
  case Bol
  then show ?case by (auto split: if_splits)
next
  case Eol
  then show ?case by (auto split: if_splits)
next
  case (Seq r1 r2)
  from Seq.prems obtain b1 s1 g1 where
    1: "(b1, s1, g1) \<in> set (rx_run r1 (b, s, g))" and
    2: "(b', s', g') \<in> set (rx_run r2 (b1, s1, g1))"
    by auto
  from Seq.IH(1) [OF 1] obtain u where u: "u \<in> rx_lang r1" "s = u @ s1" by blast
  from Seq.IH(2) [OF 2] obtain v where v: "v \<in> rx_lang r2" "s1 = v @ s'" by blast
  from u v have "u @ v \<in> rx_lang (Seq r1 r2)" "s = (u @ v) @ s'" by auto
  then show ?case by blast
next
  case (Alt r1 r2)
  then show ?case by fastforce
next
  case (Star P)
  then have "(b', s') \<in> set (star_run P (b, s))" by auto
  from star_run_sound [OF this] show ?case by auto
next
  case (Grp n r)
  from Grp.prems obtain g0 where "(b', s', g0) \<in> set (rx_run r (b, s, g))" by auto
  from Grp.IH [OF this] show ?case by simp
qed

lemma rx_search_sound:
  "rx_search r b pre s = Some m \<Longrightarrow> \<exists>w \<in> rx_lang r. sublist w s"
proof (induction s arbitrary: b pre)
  case Nil
  then obtain st where "st \<in> set (rx_run r (b, [], []))"
    by (auto split: list.splits)
  then obtain w where "w \<in> rx_lang r" "[] = w @ fst (snd st)"
    using rx_run_sound [of "fst st" "fst (snd st)" "snd (snd st)" r b "[]" "[]"] by auto
  then show ?case by auto
next
  case (Cons c t)
  show ?case
  proof (cases "rx_run r (b, c # t, [])")
    case Nil
    with Cons.prems have "rx_search r False (pre @ [c]) t = Some m" by simp
    from Cons.IH [OF this] obtain w where "w \<in> rx_lang r" "sublist w t" by blast
    then show ?thesis by (auto simp: sublist_Cons_right)
  next
    case (Cons st sts)
    then have "st \<in> set (rx_run r (b, c # t, []))" by simp
    then obtain w where "w \<in> rx_lang r" "c # t = w @ fst (snd st)"
      using rx_run_sound [of "fst st" "fst (snd st)" "snd (snd st)" r b "c # t" "[]"] by auto
    then have "prefix w (c # t)" by (metis prefixI)
    with \<open>w \<in> rx_lang r\<close> show ?thesis by (auto intro: prefix_imp_sublist)
  qed
qed

text \<open>What the shortstat expression matches holds an opening parenthesis directly
  followed by a closing one.\<close>

lemma paren_run_last: "\<forall>c \<in> set ps. c = CHR ''('' \<Longrightarrow> \<exists>a. CHR ''('' # ps = a @ ''(''"
  by (cases ps rule: rev_cases) auto

lemma sublist_trans: "sublist xs ys \<Longrightarrow> sublist ys zs \<Longrightarrow> sublist xs zs"
  by (rule sublist_order.order_trans)

lemma lang_skip:
  assumes "w \<in> rx_lang (Seq r1 r2)" and "\<And>v. v \<in> rx_lang r2 \<Longrightarrow> sublist p v"
  shows "sublist p w"
proof -
  from assms(1) obtain u v where "w = u @ v" "v \<in> rx_lang r2" by auto
  with assms(2) [of v] show ?thesis
    by (auto intro: sublist_trans [of p v])
qed

lemma paren_lang:
  assumes "v \<in> rx_lang (Seq (plus (\<lambda>c. c = CHR ''('')) (Seq (chr CHR '')'') r))"
  shows "sublist ''()'' v"
proof -
  from assms obtain u t where v: "v = u @ t"
    and u: "u \<in> rx_lang (plus (\<lambda>c. c = CHR ''(''))"
    and t: "t \<in> rx_lang (Seq (chr CHR '')'') r)"
    by auto
  from u obtain ps where ps: "u = CHR ''('' # ps" "\<forall>c \<in> set ps. c = CHR ''(''"
    by (auto simp: plus_def)
  from t obtain y where y: "t = CHR '')'' # y"
    by (auto simp: chr_def)
  from paren_run_last [OF ps(2)] obtain a where "CHR ''('' # ps = a @ ''(''" by blast
  with v ps y have "v = a @ ''()'' @ y" by simp
  then show ?thesis unfolding sublist_def by blast
qed

lemma shortstat_lang: "w \<in> rx_lang shortstat_rx \<Longrightarrow> sublist ''()'' w"
  unfolding shortstat_rx_def seqs.simps
  by (erule lang_skip, erule lang_skip, erule lang_skip) (rule paren_lang)

lemma shortstat_no_match:
  assumes "\<not> sublist ''()'' s"
  shows "js_match shortstat_rx s = None"
proof (rule ccontr)
  assume "js_match shortstat_rx s \<noteq> None"
  then obtain m where "rx_search shortstat_rx True [] s = Some m"
    by (auto simp: js_match_def)
  from rx_search_sound [OF this] obtain w where "w \<in> rx_lang shortstat_rx" "sublist w s"
    by blast
  with shortstat_lang [of w] have "sublist ''()'' s"
    by (blast intro: sublist_trans)
  with assms show False by simp
qed

text \<open>Decimal digits and the shape.\<close>

lemma digit_char_set: "d < 10 \<Longrightarrow> digit_char d \<in> set ''0123456789''"
  unfolding digit_char_def by (rule nth_mem) simp

lemma string_of_nat_digits: "set (string_of_nat n) \<subseteq> set ''0123456789''"
proof (induction n rule: string_of_nat.induct)
  case (1 n)
  show ?case
  proof (cases "n < 10")
    case True
    then show ?thesis
      using digit_char_set [of n] by (subst string_of_nat.simps) simp
  next
    case False
    then have "set (string_of_nat (n div 10)) \<subseteq> set ''0123456789''"
      by (rule "1.IH")
    moreover have "digit_char (n mod 10) \<in> set ''0123456789''"
      by (rule digit_char_set) simp
    ultimately show ?thesis
      using False by (subst string_of_nat.simps) simp
  qed
qed

lemma string_of_nat_no_paren: "CHR ''('' \<notin> set (string_of_nat n)"
  using string_of_nat_digits [of n] by auto

lemma no_paren_append:
  "CHR ''('' \<notin> set a \<Longrightarrow> sublist ''()'' (a @ b) \<longleftrightarrow> sublist ''()'' b"
proof (induction a)
  case Nil
  then show ?case by simp
next
  case (Cons c a)
  then show ?case by (simp add: sublist_Cons_right)
qed

lemma shape_no_pair: "sublist ''()'' (shortstat_shape n pn m pm @ rest) \<longleftrightarrow> sublist ''()'' rest"
  unfolding shortstat_shape_def
  by (simp add: no_paren_append string_of_nat_no_paren sublist_Cons_right)

lemma shape_no_pair': "\<not> sublist ''()'' (shortstat_shape n pn m pm)"
  using shape_no_pair [of n pn m pm "[]"] by simp

lemma sublist_trim: "sublist (trim s) s"
proof -
  have "sublist (rev (dropWhile is_space (rev (dropWhile is_space s)))) (dropWhile is_space s)"
    by (simp add: sublist_rev_left)
  moreover have "sublist (dropWhile is_space s) s" by simp
  ultimately show ?thesis unfolding trim_def by (rule sublist_trans)
qed

lemma no_pair_trim: "\<not> sublist ''()'' s \<Longrightarrow> \<not> sublist ''()'' (trim s)"
  using sublist_trim [of s] by (blast intro: sublist_trans)

lemma detailed_no_pair:
  "\<not> sublist ''()'' out \<Longrightarrow> getDetailedCommitMessage (Some so) (Some out) = ''Update''"
  by (simp add: getDetailedCommitMessage_def Let_def shortstat_no_match no_pair_trim)

lemma line_no_pair: "\<not> sublist ''()'' (shortstat_line f n m)"
proof -
  define pre where
    "pre = '' '' @ string_of_nat f @ '' file'' @ (if f = 1 then [] else ''s'') @ '' changed, ''"
  have e: "shortstat_line f n m = pre @ (shortstat_shape n (n \<noteq> 1) m (m \<noteq> 1) @ [CHR 0x0A])"
    by (simp add: shortstat_line_def shortstat_shape_def pre_def)
  have np: "CHR ''('' \<notin> set pre"
    by (simp add: pre_def string_of_nat_no_paren)
  have "sublist ''()'' (shortstat_line f n m)
          = sublist ''()'' (shortstat_shape n (n \<noteq> 1) m (m \<noteq> 1) @ [CHR 0x0A])"
    unfolding e by (rule no_paren_append [OF np])
  also have "\<dots> = sublist ''()'' [CHR 0x0A]"
    by (rule shape_no_pair)
  also have "\<dots> = False"
    by (simp add: sublist_Cons_right)
  finally show ?thesis by simp
qed

text \<open>
  Claim C9. On every summary of the shape \<open>N insertion(s)(+), M deletion(s)(-)\<close>,
  singular or plural, alone or as git prints it after the count of changed files, the
  parse expression of \<open>getDetailedCommitMessage\<close> fails to match: it asks for one or more
  opening parentheses directly followed by a closing one, and such a summary has no
  \<open>()\<close>. Additions and deletions are then both 0 and the verb returned is \<open>Update\<close>, so
  \<open>Add\<close>, \<open>Remove\<close>, \<open>Enhance\<close> and \<open>Simplify\<close> cannot be returned for these summaries.
\<close>

theorem shortstat_never_parsed:
  "js_match shortstat_rx (trim (shortstat_shape n pn m pm)) = None
   \<and> getDetailedCommitMessage (Some stat_out) (Some (shortstat_shape n pn m pm)) = ''Update''
   \<and> js_match shortstat_rx (trim (shortstat_line f n m)) = None
   \<and> getDetailedCommitMessage (Some stat_out) (Some (shortstat_line f n m)) = ''Update''"
  by (simp add: detailed_no_pair shortstat_no_match no_pair_trim shape_no_pair' line_no_pair)

theorem shortstat_never_parsed_witness:
  "shortstat_line 3 10 1 = '' 3 files changed, 10 insertions(+), 1 deletion(-)'' @ [CHR 0x0A]
   \<and> js_match shortstat_rx (trim (shortstat_line 3 10 1)) = None
   \<and> getDetailedCommitMessage (Some []) (Some (shortstat_line 3 10 1)) = ''Update''"
proof -
  have "shortstat_line 3 10 1
          = '' 3 files changed, 10 insertions(+), 1 deletion(-)'' @ [CHR 0x0A]"
    by code_simp
  then show ?thesis
    using shortstat_never_parsed [of 10 True 1 False "[]" 3] by blast
qed

end
